theory Spec2Isabelle
  imports Complex_Main "HOL-Library.Sublist"
begin

section \<open>JavaScript values\<close>

text \<open>
  The values that flow through the adapter are JSON-like JavaScript values: request
  payloads, vendor responses, cached results. An object is an association list in
  property order (its keys are distinct); a string is a list of characters, one
  character standing for one code unit of the JavaScript string; a number is an integer.
\<close>

datatype js_value =
    JUndefined
  | JNull
  | JBool bool
  | JNum int
  | JStr string
  | JArr "js_value list"
  | JObj "(string \<times> js_value) list"

text \<open>JavaScript truthiness, as tested by \<^verbatim>\<open>if (v)\<close>, \<^verbatim>\<open>!v\<close> and \<^verbatim>\<open>v || d\<close>.\<close>

fun truthy :: "js_value \<Rightarrow> bool" where
  "truthy JUndefined = False"
| "truthy JNull = False"
| "truthy (JBool b) = b"
| "truthy (JNum n) = (n \<noteq> 0)"
| "truthy (JStr s) = (s \<noteq> [])"
| "truthy (JArr xs) = True"
| "truthy (JObj fs) = True"

text \<open>
  An \<^verbatim>\<open>IDataObject\<close> or \<^verbatim>\<open>Record<string, unknown>\<close>: reading a property
  (\<^verbatim>\<open>undefined\<close> when it is absent), writing one (an existing key keeps its place, a
  new key goes last) and deleting one.
\<close>

type_synonym data_object = "(string \<times> js_value) list"

definition getProp :: "data_object \<Rightarrow> string \<Rightarrow> js_value" where
  "getProp obj k = (case map_of obj k of Some v \<Rightarrow> v | None \<Rightarrow> JUndefined)"

fun setProp :: "string \<Rightarrow> js_value \<Rightarrow> data_object \<Rightarrow> data_object" where
  "setProp k v [] = [(k, v)]"
| "setProp k v (p # ps) = (if fst p = k then (k, v) # ps else p # setProp k v ps)"

definition deleteProp :: "string \<Rightarrow> data_object \<Rightarrow> data_object" where
  "deleteProp k obj = filter (\<lambda>p. fst p \<noteq> k) obj"

section \<open>Strings\<close>

definition digitChar :: "nat \<Rightarrow> char" where
  "digitChar d = ''0123456789abcdef'' ! d"

text \<open>Decimal digits of a number, as \<^verbatim>\<open>String(n)\<close> and a template literal print it.\<close>

fun natToString :: "nat \<Rightarrow> string" where
  "natToString n =
     (if n < 10 then [digitChar n] else natToString (n div 10) @ [digitChar (n mod 10)])"

declare natToString.simps [simp del]

definition intToString :: "int \<Rightarrow> string" where
  "intToString i =
     (if i < 0 then CHR ''-'' # natToString (nat (- i)) else natToString (nat i))"

text \<open>\<^verbatim>\<open>Array.prototype.join\<close> on strings.\<close>

fun join :: "string \<Rightarrow> string list \<Rightarrow> string" where
  "join sep [] = []"
| "join sep [x] = x"
| "join sep (x # y # ys) = x @ sep @ join sep (y # ys)"

text \<open>\<^verbatim>\<open>String(v)\<close>, which is also how a template literal prints a value.\<close>

fun jsString :: "js_value \<Rightarrow> string" where
  "jsString JUndefined = ''undefined''"
| "jsString JNull = ''null''"
| "jsString (JBool b) = (if b then ''true'' else ''false'')"
| "jsString (JNum n) = intToString n"
| "jsString (JStr s) = s"
| "jsString (JArr xs) =
     join '','' (map (\<lambda>x. if x = JNull \<or> x = JUndefined then [] else jsString x) xs)"
| "jsString (JObj fs) = ''[object Object]''"

text \<open>\<^verbatim>\<open>s.includes(sub)\<close>.\<close>

fun strIncludes :: "string \<Rightarrow> string \<Rightarrow> bool" where
  "strIncludes [] sub = (sub = [])"
| "strIncludes (c # cs) sub = (prefix sub (c # cs) \<or> strIncludes cs sub)"

section \<open>JSON.stringify\<close>

text \<open>A JSON string literal: the quotation mark, the backslash and the control
  characters are escaped.\<close>

definition escapeChar :: "char \<Rightarrow> string" where
  "escapeChar c =
     (if c = CHR 0x22 then [CHR 0x5C, CHR 0x22]
      else if c = CHR 0x5C then [CHR 0x5C, CHR 0x5C]
      else if c = CHR 0x08 then [CHR 0x5C, CHR ''b'']
      else if c = CHR 0x0C then [CHR 0x5C, CHR ''f'']
      else if c = CHR 0x0A then [CHR 0x5C, CHR ''n'']
      else if c = CHR 0x0D then [CHR 0x5C, CHR ''r'']
      else if c = CHR 0x09 then [CHR 0x5C, CHR ''t'']
      else if (of_char c :: nat) < 32
      then [CHR 0x5C, CHR ''u'', CHR ''0'', CHR ''0'',
            digitChar ((of_char c :: nat) div 16), digitChar ((of_char c :: nat) mod 16)]
      else [c])"

definition quote :: "string \<Rightarrow> string" where
  "quote s = [CHR 0x22] @ concat (map escapeChar s) @ [CHR 0x22]"

text \<open>
  \<^verbatim>\<open>JSON.stringify(v, null, 2)\<close> at indentation \<open>ind\<close>: a property whose value is
  \<^verbatim>\<open>undefined\<close> is left out of an object, and \<^verbatim>\<open>undefined\<close> in an array prints as
  \<^verbatim>\<open>null\<close>.
\<close>

fun stringify :: "nat \<Rightarrow> js_value \<Rightarrow> string" where
  "stringify ind JUndefined = ''null''"
| "stringify ind JNull = ''null''"
| "stringify ind (JBool b) = (if b then ''true'' else ''false'')"
| "stringify ind (JNum n) = intToString n"
| "stringify ind (JStr s) = quote s"
| "stringify ind (JArr xs) =
     (if xs = [] then ''[]''
      else ''['' @ [CHR 0x0A] @ replicate (ind + 2) CHR '' ''
           @ join ('','' @ [CHR 0x0A] @ replicate (ind + 2) CHR '' '')
               (map (stringify (ind + 2)) xs)
           @ [CHR 0x0A] @ replicate ind CHR '' '' @ '']'')"
| "stringify ind (JObj fs) =
     (if filter (\<lambda>p. snd p \<noteq> JUndefined) fs = [] then ''{}''
      else ''{'' @ [CHR 0x0A] @ replicate (ind + 2) CHR '' ''
           @ join ('','' @ [CHR 0x0A] @ replicate (ind + 2) CHR '' '')
               (map (\<lambda>p. quote (fst p) @ '': '' @ stringify (ind + 2) (snd p))
                  (filter (\<lambda>p. snd p \<noteq> JUndefined) fs))
           @ [CHR 0x0A] @ replicate ind CHR '' '' @ ''}'')"

section \<open>Phone normalisation (shared utilities)\<close>

text \<open>
  \<^verbatim>\<open>\d\<close> in a JavaScript regular expression is the class \<^verbatim>\<open>[0-9]\<close>, and
  \<^verbatim>\<open>\D\<close> is its complement.
\<close>

definition isDigit :: "char \<Rightarrow> bool" where
  "isDigit c = (c \<in> set ''0123456789'')"

text \<open>
  \<^verbatim>\<open>phone.replace(/\D+/g, '')\<close>: every maximal run of non-digit characters is replaced
  by the empty string. The scan copies a digit and, at a non-digit, skips the whole run
  that the greedy \<^verbatim>\<open>\D+\<close> matches.
\<close>

function replaceNonDigits :: "string \<Rightarrow> string" where
  "replaceNonDigits [] = []"
| "replaceNonDigits (c # cs) =
     (if isDigit c then c # replaceNonDigits cs
      else replaceNonDigits (dropWhile (\<lambda>d. \<not> isDigit d) cs))"
  by pat_completeness auto
termination
  by (relation "measure length") (auto simp: less_Suc_eq_le length_dropWhile_le)

text \<open>
  \<^verbatim>\<open>
  export const normalizePhoneDigits = (phone: string): string => {
    if (!phone || typeof phone !== 'string') { return ''; }
    return phone.replace(/\D+/g, '');
  };
  \<close>
  The parameter is declared a string, but the guard answers for every runtime value.
\<close>

fun normalizePhoneDigits :: "js_value \<Rightarrow> string" where
  "normalizePhoneDigits (JStr phone) = (if phone = [] then [] else replaceNonDigits phone)"
| "normalizePhoneDigits v = []"

section \<open>Errors, the world and asynchronous operations\<close>

text \<open>
  An error object, with the optional properties the code reads from it:
  \<^verbatim>\<open>error as { code?: string; httpCode?: number; message?: string }\<close> in
  \<^verbatim>\<open>isRetryableError\<close>, and \<^verbatim>\<open>response\<close> (status, body, data) and \<^verbatim>\<open>errors\<close> (the issues
  of a schema validation error) in the error handler. \<^verbatim>\<open>description\<close> is set on the
  errors the handler builds.
\<close>

record http_response =
  status :: "int option"
  body :: js_value
  data :: js_value

record zod_issue =
  path :: "string list"
  issueMessage :: string

record js_error =
  message :: string
  code :: "string option"
  httpCode :: "int option"
  response :: "http_response option"
  errors :: "zod_issue list option"
  description :: "string option"

text \<open>\<^verbatim>\<open>new Error(msg)\<close>.\<close>

definition Error :: "string \<Rightarrow> js_error" where
  "Error msg = \<lparr>message = msg, code = None, httpCode = None, response = None,
     errors = None, description = None\<rparr>"

text \<open>
  \<^verbatim>\<open>new NodeApiError(node, cause, { message, description })\<close>. The class belongs to the
  workflow host's library and is not part of this repository. The model records the
  constructor call: \<open>message\<close> and \<open>description\<close> are the two options that the adapter
  passes. What the host's object shows of them afterwards, and what the constructor
  answers when the cause is such an error already, is the host's and is not described.
\<close>

definition NodeApiError :: "js_error \<Rightarrow> string \<Rightarrow> string \<Rightarrow> js_error" where
  "NodeApiError cause msg desc = \<lparr>message = msg, code = None, httpCode = None,
     response = None, errors = None, description = Some desc\<rparr>"

text \<open>A promise settles with a value or with an error.\<close>

datatype 'a outcome = Resolved 'a | Rejected js_error

fun isRejected :: "'a outcome \<Rightarrow> bool" where
  "isRejected (Rejected e) = True"
| "isRejected (Resolved v) = False"

fun isResolved :: "'a outcome \<Rightarrow> bool" where
  "isResolved (Resolved v) = True"
| "isResolved (Rejected e) = False"

text \<open>The error a promise was rejected with, and the value it was resolved with.\<close>

fun rejectionOf :: "'a outcome \<Rightarrow> js_error option" where
  "rejectionOf (Rejected e) = Some e"
| "rejectionOf (Resolved v) = None"

fun valueOf :: "'a outcome \<Rightarrow> 'a option" where
  "valueOf (Resolved v) = Some v"
| "valueOf (Rejected e) = None"

text \<open>The HTTP request the client hands to the host's \<^verbatim>\<open>httpRequest\<close> helper: the URL,
  the fields of the form body (the payload and the token), the idempotency header when
  there is one, the timeout and the TLS flag.\<close>

record http_request =
  url :: string
  bodyFields :: data_object
  idempotencyHeader :: "string option"
  timeout :: int
  rejectUnauthorized :: bool

text \<open>What a run does to the outside: the HTTP requests it issues and the timers it
  sleeps on (milliseconds), in order.\<close>

datatype event = HttpRequest http_request | Sleep real

section \<open>Circuit breaker\<close>

datatype breaker_state = CLOSED | OPEN | HALF_OPEN

record CircuitBreaker =
  state :: breaker_state
  failures :: nat
  lastFailureTime :: int
  failureThreshold :: int
  resetTimeout :: int
  halfOpenMaxAttempts :: int
  halfOpenAttempts :: nat
  successCount :: nat

definition CIRCUIT_BREAKER_RESET_TIMEOUT_MS :: int where
  "CIRCUIT_BREAKER_RESET_TIMEOUT_MS = 60000"

text \<open>The constructor, and the constructor called with its default arguments.\<close>

definition CircuitBreaker_new :: "int \<Rightarrow> int \<Rightarrow> int \<Rightarrow> CircuitBreaker" where
  "CircuitBreaker_new threshold resetMs maxAttempts =
     \<lparr>state = CLOSED, failures = 0, lastFailureTime = 0,
      failureThreshold = threshold, resetTimeout = resetMs,
      halfOpenMaxAttempts = maxAttempts, halfOpenAttempts = 0, successCount = 0\<rparr>"

definition CircuitBreaker_default :: CircuitBreaker where
  "CircuitBreaker_default = CircuitBreaker_new 5 CIRCUIT_BREAKER_RESET_TIMEOUT_MS 3"

text \<open>An entry of the throttling manager's map: the time the last operation under the
  key was started and the promise of the operation in flight (\<^verbatim>\<open>null\<close> when none is).
  A promise is known by its identity.\<close>

record ThrottleEntry =
  lastRequestTime :: int
  pending :: "nat option"

text \<open>
  The world a call runs in: the clock that \<^verbatim>\<open>Date.now()\<close> reads (milliseconds), what
  the run has done to the outside so far, and the process-wide registries, which are
  the static map of \<^verbatim>\<open>CircuitBreakerFactory\<close> and the map of the \<^verbatim>\<open>ThrottlingManager\<close>
  singleton. \<open>promiseCount\<close> numbers the promises the throttle has created.
\<close>

record world =
  clock :: int
  events :: "event list"
  breakers :: "string \<rightharpoonup> CircuitBreaker"
  throttleMap :: "string \<rightharpoonup> ThrottleEntry"
  promiseCount :: nat

text \<open>An asynchronous operation \<^verbatim>\<open>() => Promise<T>\<close>: invoked in a world, it settles with
  an outcome and leaves the world as it is then.\<close>

type_synonym 'a operation = "world \<Rightarrow> 'a outcome \<times> world"

definition circuitOpenError :: js_error where
  "circuitOpenError = Error
     ''Circuit breaker is OPEN. Requests to LiraX API are temporarily blocked due to repeated failures.''"

definition halfOpenExceededError :: js_error where
  "halfOpenExceededError = Error
     ''Circuit breaker half-open attempts exceeded. Going back to OPEN state.''"

text \<open>
  \<^verbatim>\<open>
  private onSuccess(): void {
    this.failures = 0;
    this.halfOpenAttempts = 0;
    this.successCount++;
    if (this.state === 'HALF_OPEN' && this.successCount >= 3) {
      this.state = 'CLOSED';
      this.successCount = 0;
    } else if (this.state === 'HALF_OPEN') {
      this.halfOpenAttempts++;
    }
  }
  \<close>
\<close>

definition onSuccess :: "CircuitBreaker \<Rightarrow> CircuitBreaker" where
  "onSuccess cb =
     (let cb1 = cb\<lparr>failures := 0, halfOpenAttempts := 0, successCount := successCount cb + 1\<rparr>
      in if state cb1 = HALF_OPEN \<and> successCount cb1 \<ge> 3
         then cb1\<lparr>state := CLOSED, successCount := 0\<rparr>
         else if state cb1 = HALF_OPEN
         then cb1\<lparr>halfOpenAttempts := halfOpenAttempts cb1 + 1\<rparr>
         else cb1)"

text \<open>
  \<^verbatim>\<open>
  private onFailure(): void {
    this.failures++;
    this.halfOpenAttempts++;
    this.successCount = 0;
    if (this.state === 'HALF_OPEN' || this.failures >= this.failureThreshold) {
      this.state = 'OPEN';
      this.lastFailureTime = Date.now();
    }
  }
  \<close>
  The second argument is the reading of \<^verbatim>\<open>Date.now()\<close>.
\<close>

definition onFailure :: "CircuitBreaker \<Rightarrow> int \<Rightarrow> CircuitBreaker" where
  "onFailure cb now =
     (let cb1 = cb\<lparr>failures := failures cb + 1, halfOpenAttempts := halfOpenAttempts cb + 1,
                    successCount := 0\<rparr>
      in if state cb1 = HALF_OPEN \<or> int (failures cb1) \<ge> failureThreshold cb1
         then cb1\<lparr>state := OPEN, lastFailureTime := now\<rparr>
         else cb1)"

text \<open>
  \<^verbatim>\<open>
  async execute<T>(operation: () => Promise<T>): Promise<T> {
    if (this.state === 'OPEN') {
      if (Date.now() - this.lastFailureTime > this.resetTimeout) {
        this.state = 'HALF_OPEN';
        this.halfOpenAttempts = 0;
        this.successCount = 0;
      } else {
        throw new Error('Circuit breaker is OPEN. ...');
      }
    }
    if (this.state === 'HALF_OPEN' && this.halfOpenAttempts >= this.halfOpenMaxAttempts) {
      this.state = 'OPEN';
      this.lastFailureTime = Date.now();
      throw new Error('Circuit breaker half-open attempts exceeded. ...');
    }
    try {
      const result = await operation();
      this.onSuccess();
      return result;
    } catch (error) {
      this.onFailure();
      throw error;
    }
  }
  \<close>
  The call is entered in world \<open>w\<close>; the operation, when it is invoked, is invoked in
  that world, and \<^verbatim>\<open>onSuccess\<close> or \<^verbatim>\<open>onFailure\<close> runs in the world it leaves. The result
  is the outcome of the call, the breaker after it and the world after it.
\<close>

definition execute ::
  "CircuitBreaker \<Rightarrow> world \<Rightarrow> 'a operation \<Rightarrow> 'a outcome \<times> CircuitBreaker \<times> world" where
  "execute cb w operation =
     (if state cb = OPEN \<and> \<not> (clock w - lastFailureTime cb > resetTimeout cb)
      then (Rejected circuitOpenError, cb, w)
      else
        let cb1 = (if state cb = OPEN
                   then cb\<lparr>state := HALF_OPEN, halfOpenAttempts := 0, successCount := 0\<rparr>
                   else cb)
        in if state cb1 = HALF_OPEN \<and> int (halfOpenAttempts cb1) \<ge> halfOpenMaxAttempts cb1
           then (Rejected halfOpenExceededError,
                 cb1\<lparr>state := OPEN, lastFailureTime := clock w\<rparr>, w)
           else (case operation w of
                   (Resolved result, w') \<Rightarrow> (Resolved result, onSuccess cb1, w')
                 | (Rejected error, w') \<Rightarrow> (Rejected error, onFailure cb1 (clock w'), w')))"

text \<open>
  A caller that makes one call after another on the same breaker, each call entered in
  its own world with its own operation: the outcomes in order, and the breaker at the end.
\<close>

fun executeAll ::
  "CircuitBreaker \<Rightarrow> (world \<times> 'a operation) list \<Rightarrow> 'a outcome list \<times> CircuitBreaker" where
  "executeAll cb [] = ([], cb)"
| "executeAll cb ((w, operation) # rest) =
     (case execute cb w operation of
        (r, cb1, w') \<Rightarrow> (case executeAll cb1 rest of (rs, cb2) \<Rightarrow> (r # rs, cb2)))"

text \<open>The breaker as the first call on an open breaker after the cool-down leaves it
  for the operation: half-open, both probe counters reset.\<close>

definition halfOpened :: "CircuitBreaker \<Rightarrow> CircuitBreaker" where
  "halfOpened cb = cb\<lparr>state := HALF_OPEN, halfOpenAttempts := 0, successCount := 0\<rparr>"

text \<open>
  \<^verbatim>\<open>
  static getBreaker(credentialsId: string): CircuitBreaker {
    if (!this.breakers.has(credentialsId)) {
      this.breakers.set(credentialsId, new CircuitBreaker());
    }
    return this.breakers.get(credentialsId)!;
  }
  \<close>
\<close>

definition getBreaker :: "(string \<rightharpoonup> CircuitBreaker) \<Rightarrow> string
    \<Rightarrow> CircuitBreaker \<times> (string \<rightharpoonup> CircuitBreaker)" where
  "getBreaker reg credentialsId =
     (case reg credentialsId of
        None \<Rightarrow> (CircuitBreaker_default, reg(credentialsId \<mapsto> CircuitBreaker_default))
      | Some cb \<Rightarrow> (cb, reg))"

section \<open>Error handler\<close>

text \<open>The context the adapter hands to the error handler (the host's node object is
  not modelled).\<close>

record ErrorContext =
  ctxOperation :: string
  ctxPayload :: "data_object option"
  ctxMessage :: "string option"
  ctxResource :: "string option"

text \<open>The local \<^verbatim>\<open>details\<close> object of the handler. \<open>detResponseBody\<close> holds the
  response body as it was found on the error (\<^verbatim>\<open>undefined\<close> when there is none).\<close>

record error_details =
  detOperation :: string
  detResource :: "string option"
  detTimestamp :: string
  detRequestPayload :: "data_object option"
  detHttpCode :: "int option"
  detResponseBody :: js_value
  detErrorCode :: "string option"

text \<open>
  \<^verbatim>\<open>
  const value = String(masked[field]);
  if (value.length > 4) {
    masked[field] = `${'*'.repeat(value.length - 4)}${value.slice(-4)}`;
  } else {
    masked[field] = '****';
  }
  \<close>
\<close>

definition maskValue :: "string \<Rightarrow> string" where
  "maskValue v =
     (if length v > 4 then replicate (length v - 4) CHR ''*'' @ drop (length v - 4) v
      else ''****'')"

definition sensitiveFields :: "string list" where
  "sensitiveFields = [''token'', ''phone'', ''ani'', ''dnis'', ''to'', ''to1'', ''to2'',
     ''provider'', ''ext'', ''newext'', ''client'', ''from_LiraX_token'']"

definition maskField :: "string \<Rightarrow> data_object \<Rightarrow> data_object" where
  "maskField field masked =
     (if truthy (getProp masked field)
      then setProp field (JStr (maskValue (jsString (getProp masked field)))) masked
      else masked)"

text \<open>
  \<^verbatim>\<open>
  private static maskSensitiveData(payload: IDataObject): IDataObject {
    const masked = { ...payload };
    const sensitiveFields = ['token', 'phone', 'ani', 'dnis', 'to', 'to1', 'to2',
      'provider', 'ext', 'newext', 'client', 'from_LiraX_token'];
    sensitiveFields.forEach(field => { if (masked[field]) { ... } });
    return masked;
  }
  \<close>
\<close>

definition maskSensitiveData :: "data_object \<Rightarrow> data_object" where
  "maskSensitiveData payload = foldl (\<lambda>masked field. maskField field masked) payload sensitiveFields"

text \<open>
  The response body section of the description. The handler stores a string body as it
  is and any other body as \<^verbatim>\<open>JSON.stringify(body)\<close>; the formatter parses the stored
  string and prints the parsed value with indentation, or prints the string itself when
  it does not parse. Parsing what \<^verbatim>\<open>JSON.stringify\<close> wrote gives the value back, so a
  non-string body is printed directly; for a string body the parser is a parameter.
\<close>

definition formatResponseBody :: "(string \<Rightarrow> js_value option) \<Rightarrow> js_value \<Rightarrow> string" where
  "formatResponseBody parse responseBody =
     (case responseBody of
        JStr s \<Rightarrow> (case parse s of Some parsed \<Rightarrow> stringify 0 parsed | None \<Rightarrow> s)
      | v \<Rightarrow> stringify 0 v)"

text \<open>
  \<^verbatim>\<open>
  private static formatErrorDescription(details: IDataObject): string {
    const lines = ['LiraX API Error Details:'];
    if (details.operation) { lines.push(`Operation: ${details.operation}`); }
    if (details.resource) { lines.push(`Resource: ${details.resource}`); }
    if (details.httpCode) { lines.push(`HTTP Code: ${details.httpCode}`); }
    if (details.errorCode) { lines.push(`Error Code: ${details.errorCode}`); }
    if (details.timestamp) { lines.push(`Timestamp: ${details.timestamp}`); }
    if (details.requestPayload) {
      lines.push('', 'Request Payload (sensitive data masked):');
      lines.push(JSON.stringify(details.requestPayload, null, 2));
    }
    if (details.responseBody) { lines.push('', 'Response Body:'); ... }
    return lines.join('\n');
  }
  \<close>
\<close>

definition formatErrorDescription ::
  "(string \<Rightarrow> js_value option) \<Rightarrow> error_details \<Rightarrow> string" where
  "formatErrorDescription parse details =
     join [CHR 0x0A]
       ([''LiraX API Error Details:'']
        @ (if detOperation details \<noteq> [] then [''Operation: '' @ detOperation details] else [])
        @ (case detResource details of
             Some r \<Rightarrow> (if r \<noteq> [] then [''Resource: '' @ r] else [])
           | None \<Rightarrow> [])
        @ (case detHttpCode details of
             Some h \<Rightarrow> (if h \<noteq> 0 then [''HTTP Code: '' @ intToString h] else [])
           | None \<Rightarrow> [])
        @ (case detErrorCode details of
             Some c \<Rightarrow> (if c \<noteq> [] then [''Error Code: '' @ c] else [])
           | None \<Rightarrow> [])
        @ (if detTimestamp details \<noteq> [] then [''Timestamp: '' @ detTimestamp details] else [])
        @ (case detRequestPayload details of
             Some p \<Rightarrow> ['''', ''Request Payload (sensitive data masked):'', stringify 0 (JObj p)]
           | None \<Rightarrow> [])
        @ (if truthy (detResponseBody details)
           then ['''', ''Response Body:'', formatResponseBody parse (detResponseBody details)]
           else []))"

text \<open>\<^verbatim>\<open>errorObj.response?.data?.error\<close>.\<close>

definition responseDataError :: "js_error \<Rightarrow> js_value" where
  "responseDataError e =
     (case response e of
        None \<Rightarrow> JUndefined
      | Some r \<Rightarrow> (case data r of JObj fs \<Rightarrow> getProp fs ''error'' | v \<Rightarrow> JUndefined))"

text \<open>
  \<^verbatim>\<open>generateUserFriendlyMessage(error, operation, httpCode)\<close>: the known HTTP status
  codes first, then the network error codes, then schema validation errors, then an
  error text of the vendor's response, then the error's own message.
\<close>

definition generateUserFriendlyMessage :: "js_error \<Rightarrow> string \<Rightarrow> int option \<Rightarrow> string" where
  "generateUserFriendlyMessage e opName httpCodeArg =
     (let failed = ''Operation '' @ [CHR 0x27] @ opName @ [CHR 0x27] @ '' failed: '' in
      if httpCodeArg = Some 401
      then failed @ ''Invalid LiraX API Token. Check your credentials.''
      else if httpCodeArg = Some 400
      then failed @ ''Invalid parameters sent to LiraX. Check node inputs and validation.''
      else if httpCodeArg = Some 403
      then (if strIncludes (message e) ''modem busy''
            then failed @ ''LiraX modem is busy. Please try again later.''
            else failed @ ''Access forbidden. Check your permissions.'')
      else if httpCodeArg = Some 404
      then failed @ ''Resource not found. Check if the operation exists in your LiraX version.''
      else if httpCodeArg = Some 500
      then failed @ ''LiraX server internal error.''
      else if httpCodeArg = Some 502
      then failed @ ''LiraX server is temporarily unavailable.''
      else if httpCodeArg = Some 503
      then failed @ ''LiraX service is temporarily overloaded.''
      else if code e = Some ''ETIMEDOUT''
      then failed @ ''Connection to LiraX timed out.''
      else if code e = Some ''ECONNREFUSED''
      then failed @ ''Connection to LiraX refused. Check base URL and network connectivity.''
      else if code e = Some ''ENOTFOUND''
      then failed @ ''LiraX server not found. Check base URL.''
      else if code e = Some ''ECONNRESET''
      then failed @ ''Connection to LiraX was reset.''
      else (case errors e of
              Some (issue # issues) \<Rightarrow>
                failed @ ''Invalid input parameters. ''
                  @ join '', '' (map (\<lambda>err. join ''.'' (path err) @ '': '' @ issueMessage err)
                                   (issue # issues))
            | _ \<Rightarrow>
                if truthy (responseDataError e)
                then failed @ jsString (responseDataError e)
                else if strIncludes (message e) ''modem busy''
                then failed @ ''LiraX modem is busy. Please try again later.''
                else failed @ (if message e \<noteq> [] then message e else ''Unknown error occurred'')))"

text \<open>
  The first half of \<^verbatim>\<open>handle\<close>, which builds \<^verbatim>\<open>details\<close>:
  \<^verbatim>\<open>
  const sanitizedPayload = context.payload ? { ...context.payload } : {};
  if (sanitizedPayload.token) { delete sanitizedPayload.token; }
  const details = { operation: context.operation, resource: context.resource,
                    timestamp: new Date().toISOString() };
  if (sanitizedPayload && Object.keys(sanitizedPayload).length > 0) {
    details.requestPayload = this.maskSensitiveData(sanitizedPayload);
  }
  const httpCode = (error as any).httpCode || (error as any).response?.status;
  const responseBody = (error as any).response?.body || (error as any).response?.data;
  if (httpCode) { details.httpCode = httpCode; }
  if (responseBody) { details.responseBody = ...; }
  if ((error as any).code) { details.errorCode = (error as any).code; }
  \<close>
\<close>

definition sanitizePayload :: "data_object option \<Rightarrow> data_object" where
  "sanitizePayload p =
     (let sanitizedPayload = (case p of Some fs \<Rightarrow> fs | None \<Rightarrow> [])
      in if truthy (getProp sanitizedPayload ''token'')
         then deleteProp ''token'' sanitizedPayload
         else sanitizedPayload)"

definition errorHttpCode :: "js_error \<Rightarrow> int option" where
  "errorHttpCode e =
     (let responseStatus = (case response e of Some r \<Rightarrow> status r | None \<Rightarrow> None)
      in case httpCode e of
           Some h \<Rightarrow> (if h \<noteq> 0 then Some h else responseStatus)
         | None \<Rightarrow> responseStatus)"

definition errorResponseBody :: "js_error \<Rightarrow> js_value" where
  "errorResponseBody e =
     (case response e of
        None \<Rightarrow> JUndefined
      | Some r \<Rightarrow> (if truthy (body r) then body r else data r))"

definition handleDetails :: "js_error \<Rightarrow> ErrorContext \<Rightarrow> string \<Rightarrow> error_details" where
  "handleDetails e context isoNow =
     (let sanitizedPayload = sanitizePayload (ctxPayload context)
      in \<lparr>detOperation = ctxOperation context,
          detResource = ctxResource context,
          detTimestamp = isoNow,
          detRequestPayload =
            (if sanitizedPayload \<noteq> [] then Some (maskSensitiveData sanitizedPayload) else None),
          detHttpCode = (case errorHttpCode e of
                           Some h \<Rightarrow> (if h \<noteq> 0 then Some h else None) | None \<Rightarrow> None),
          detResponseBody =
            (if truthy (errorResponseBody e) then errorResponseBody e else JUndefined),
          detErrorCode = (case code e of
                            Some c \<Rightarrow> (if c \<noteq> [] then Some c else None) | None \<Rightarrow> None)\<rparr>)"

text \<open>
  \<^verbatim>\<open>
  public static handle(error: unknown, context: ErrorContext): NodeApiError {
    ...
    const userFriendlyMessage =
      this.generateUserFriendlyMessage(error, context.operation, httpCode);
    return new NodeApiError(context.node, error as Error, {
      message: userFriendlyMessage,
      description: this.formatErrorDescription(details),
    });
  }
  \<close>
  \<open>parse\<close> is \<^verbatim>\<open>JSON.parse\<close> and \<open>isoNow\<close> is \<^verbatim>\<open>new Date().toISOString()\<close>.
\<close>

definition handle ::
  "(string \<Rightarrow> js_value option) \<Rightarrow> string \<Rightarrow> js_error \<Rightarrow> ErrorContext \<Rightarrow> js_error" where
  "handle parse isoNow e context =
     NodeApiError e
       (generateUserFriendlyMessage e (ctxOperation context) (errorHttpCode e))
       (formatErrorDescription parse (handleDetails e context isoNow))"

text \<open>
  \<^verbatim>\<open>
  public static handleFailoverError(errors: Error[], context: ErrorContext): NodeApiError {
    const details = { operation: context.operation, resource: context.resource,
      timestamp: new Date().toISOString(), failoverAttempts: errors.length,
      errors: errors.map(...) };
    return new NodeApiError(context.node, errors[errors.length - 1], {
      message: `All failover attempts failed for operation '${context.operation}'`,
      description: this.formatErrorDescription(details),
    });
  }
  \<close>
  The formatter prints neither \<^verbatim>\<open>failoverAttempts\<close> nor \<^verbatim>\<open>errors\<close>. The cause, the last
  error of the list, is what the constructor is given.
\<close>

definition handleFailoverError ::
  "(string \<Rightarrow> js_value option) \<Rightarrow> string \<Rightarrow> js_error list \<Rightarrow> ErrorContext \<Rightarrow> js_error" where
  "handleFailoverError parse isoNow errs context =
     NodeApiError (case errs of [] \<Rightarrow> Error [] | _ \<Rightarrow> last errs)
       (''All failover attempts failed for operation '' @ [CHR 0x27] @ ctxOperation context
          @ [CHR 0x27])
       (formatErrorDescription parse
          \<lparr>detOperation = ctxOperation context, detResource = ctxResource context,
           detTimestamp = isoNow, detRequestPayload = None, detHttpCode = None,
           detResponseBody = JUndefined, detErrorCode = None\<rparr>)"

text \<open>
  The texts that \<^verbatim>\<open>handle\<close> copies as they are from the error and from the context
  into the message or the description that it computes: the operation name and the
  time stamp, the error's own message, the error text of the vendor's response, the
  response body as the description prints it, the resource, the HTTP code, the error
  code, and the messages and path segments of the validation issues.
\<close>

definition copiedTexts ::
  "(string \<Rightarrow> js_value option) \<Rightarrow> string \<Rightarrow> js_error \<Rightarrow> ErrorContext \<Rightarrow> string list" where
  "copiedTexts parse isoNow e context =
     [ctxOperation context, isoNow, message e, jsString (responseDataError e),
      formatResponseBody parse (errorResponseBody e)]
     @ (case ctxResource context of Some r \<Rightarrow> [r] | None \<Rightarrow> [])
     @ (case errorHttpCode e of Some h \<Rightarrow> [intToString h] | None \<Rightarrow> [])
     @ (case code e of Some c \<Rightarrow> [c] | None \<Rightarrow> [])
     @ (case errors e of
          Some issues \<Rightarrow> concat (map (\<lambda>issue. issueMessage issue # path issue) issues)
        | None \<Rightarrow> [])"

section \<open>The request path: retries, failover, circuit breaker, throttle\<close>

text \<open>The HTTP requests among the events of a run, in order.\<close>

fun httpRequestsOf :: "event list \<Rightarrow> http_request list" where
  "httpRequestsOf [] = []"
| "httpRequestsOf (HttpRequest r # evs) = r # httpRequestsOf evs"
| "httpRequestsOf (Sleep ms # evs) = httpRequestsOf evs"

text \<open>The timers among the events of a run, in order.\<close>

fun sleepsOf :: "event list \<Rightarrow> real list" where
  "sleepsOf [] = []"
| "sleepsOf (HttpRequest r # evs) = sleepsOf evs"
| "sleepsOf (Sleep ms # evs) = ms # sleepsOf evs"

definition SMS_THROTTLE_DELAY_MS :: int where
  "SMS_THROTTLE_DELAY_MS = 5000"

definition DEFAULT_TIMEOUT_MS :: int where
  "DEFAULT_TIMEOUT_MS = 30000"

definition DEFAULT_RETRY_ATTEMPTS :: int where
  "DEFAULT_RETRY_ATTEMPTS = 3"

text \<open>
  The credentials record. The fields are those of the \<^verbatim>\<open>LiraXCredentials\<close> interface
  that the request path reads; \<open>credId\<close> is the property \<^verbatim>\<open>credentials.id\<close>, which the
  request path reads although the interface does not declare it (\<open>None\<close> when the
  object has no such property).
\<close>

record LiraXCredentials =
  baseUrl :: string
  secondaryBaseUrl :: "string option"
  token :: string
  incomingToken :: string
  sslVerify :: bool
  timeoutMs :: int
  retries :: int
  backoffBaseMs :: int
  credId :: "string option"

text \<open>The options of \<^verbatim>\<open>liraxRequest\<close> (the abort signal is part of the environment).\<close>

record request_options =
  useCache :: bool
  cacheKey :: "string option"
  cacheTTL :: int
  idempotencyKey :: "string option"
  bypassCircuitBreaker :: bool
  throttleKey :: "string option"

text \<open>\<^verbatim>\<open>liraxRequest(context, credentials, payload)\<close> with the options left out.\<close>

definition defaultOptions :: request_options where
  "defaultOptions = \<lparr>useCache = False, cacheKey = None, cacheTTL = 3600,
     idempotencyKey = None, bypassCircuitBreaker = False, throttleKey = None\<rparr>"

text \<open>
  What the adapter does not decide: the answer of the host's HTTP helper to a request
  (with the milliseconds it takes), whether the caller's abort signal is set, the
  draws of \<^verbatim>\<open>Math.random()\<close>, the rendering of a time by \<^verbatim>\<open>toISOString\<close>, \<^verbatim>\<open>JSON.parse\<close>,
  and the schema registry's \<^verbatim>\<open>getSchema(operation).parse(payload)\<close> (the registry can
  be changed at run time with \<^verbatim>\<open>registerSchema\<close>). The first three may depend on
  everything that has happened so far.
\<close>

record environment =
  httpRequest :: "world \<Rightarrow> http_request \<Rightarrow> js_value outcome \<times> nat"
  aborted :: "world \<Rightarrow> bool"
  mathRandom :: "world \<Rightarrow> real"
  toISOString :: "int \<Rightarrow> string"
  jsonParse :: "string \<Rightarrow> js_value option"
  schemaParse :: "string \<Rightarrow> data_object \<Rightarrow> js_error + data_object"

text \<open>\<^verbatim>\<open>await sleep(ms)\<close>: the timer fires when it is due.\<close>

definition sleep :: "real \<Rightarrow> world \<Rightarrow> world" where
  "sleep ms w = w\<lparr>clock := clock w + \<lceil>ms\<rceil>, events := events w @ [Sleep ms]\<rparr>"

text \<open>
  \<^verbatim>\<open>
  const calculateRetryDelay = (attempt: number, credentials: LiraXCredentials): number => {
    const baseDelay = credentials.backoffBaseMs || 1000;
    const expDelay = baseDelay * Math.pow(2, attempt);
    const jitteredExp = expDelay * (0.8 + Math.random() * 0.4);
    return Math.min(jitteredExp, 30000);
  };
  \<close>
  The first argument is the draw of \<^verbatim>\<open>Math.random()\<close>.
\<close>

definition calculateRetryDelay :: "real \<Rightarrow> nat \<Rightarrow> LiraXCredentials \<Rightarrow> real" where
  "calculateRetryDelay rnd attempt credentials =
     (let baseDelay = (if backoffBaseMs credentials \<noteq> 0 then backoffBaseMs credentials else 1000);
          expDelay = real_of_int baseDelay * 2 ^ attempt;
          jitteredExp = expDelay * (0.8 + rnd * 0.4)
      in min jitteredExp 30000)"

text \<open>
  \<^verbatim>\<open>
  const isRetryableError = (error: unknown): boolean => {
    if (!error) return false;
    const errorObj = error as { code?: string; httpCode?: number; message?: string };
    if (errorObj.code === 'ETIMEDOUT' || errorObj.code === 'ECONNRESET'
        || errorObj.code === 'ECONNREFUSED') { return true; }
    if (errorObj.httpCode && errorObj.httpCode >= 500 && errorObj.httpCode < 600) { return true; }
    if (errorObj.httpCode === 429) { return true; }
    if (errorObj.message?.includes('modem busy') || errorObj.message?.includes('timeout')
        || errorObj.message?.includes('temporarily unavailable')) { return true; }
    return false;
  };
  \<close>
\<close>

definition isRetryableError :: "js_error \<Rightarrow> bool" where
  "isRetryableError e =
     (if code e = Some ''ETIMEDOUT'' \<or> code e = Some ''ECONNRESET''
         \<or> code e = Some ''ECONNREFUSED''
      then True
      else if (case httpCode e of Some h \<Rightarrow> h \<noteq> 0 \<and> h \<ge> 500 \<and> h < 600 | None \<Rightarrow> False)
      then True
      else if httpCode e = Some 429
      then True
      else if strIncludes (message e) ''modem busy'' \<or> strIncludes (message e) ''timeout''
              \<or> strIncludes (message e) ''temporarily unavailable''
      then True
      else False)"

text \<open>\<^verbatim>\<open>(payload as { cmd?: string }).cmd || 'unknown'\<close>.\<close>

definition operationOf :: "data_object \<Rightarrow> string" where
  "operationOf payload =
     (if truthy (getProp payload ''cmd'') then jsString (getProp payload ''cmd'')
      else ''unknown'')"

text \<open>
  \<^verbatim>\<open>
  const validUrls = urls.filter(url =>
    url && url.length > 5 && (url.startsWith('http://') || url.startsWith('https://')));
  \<close>
\<close>

definition validUrl :: "string \<Rightarrow> bool" where
  "validUrl u = (u \<noteq> [] \<and> length u > 5 \<and> (prefix ''http://'' u \<or> prefix ''https://'' u))"

definition candidateUrls :: "LiraXCredentials \<Rightarrow> string list" where
  "candidateUrls credentials =
     baseUrl credentials #
       (case secondaryBaseUrl credentials of
          Some u \<Rightarrow> (if u \<noteq> [] then [u] else [])
        | None \<Rightarrow> [])"

text \<open>\<^verbatim>\<open>`${baseUrl.replace(/\/+$/, '')}/general`\<close>: the trailing slashes are removed.\<close>

definition endpointUrl :: "string \<Rightarrow> string" where
  "endpointUrl base = rev (dropWhile (\<lambda>c. c = CHR ''/'') (rev base)) @ ''/general''"

text \<open>The request of one attempt. The body is the payload with the token added; the
  generated request id, the content type and the user agent are not modelled.\<close>

definition buildRequest ::
  "LiraXCredentials \<Rightarrow> data_object \<Rightarrow> request_options \<Rightarrow> string \<Rightarrow> http_request" where
  "buildRequest credentials payload options base =
     \<lparr>url = endpointUrl base,
      bodyFields = setProp ''token'' (JStr (token credentials)) payload,
      idempotencyHeader =
        (case idempotencyKey options of
           Some k \<Rightarrow> (if k \<noteq> [] then Some k else None)
         | None \<Rightarrow> None),
      timeout = (if timeoutMs credentials \<noteq> 0 then timeoutMs credentials else DEFAULT_TIMEOUT_MS),
      rejectUnauthorized = sslVerify credentials\<rparr>"

text \<open>
  The body of the \<^verbatim>\<open>try\<close> block: one attempt against one base URL. It ends with the
  response, or with the error that the \<^verbatim>\<open>catch\<close> block receives.
  \<^verbatim>\<open>
  if (signal?.aborted) { throw new Error('Request aborted by signal'); }
  ...
  const response = await context.helpers.httpRequest(requestOptions);
  if (response && typeof response === 'object' && 'error' in response) {
    throw new Error(`LiraX API error: ${(response as { error: string }).error}`);
  }
  return response;
  \<close>
\<close>

definition attemptOnce ::
  "environment \<Rightarrow> LiraXCredentials \<Rightarrow> data_object \<Rightarrow> request_options \<Rightarrow> string \<Rightarrow> world
    \<Rightarrow> (js_error + js_value) \<times> world" where
  "attemptOnce env credentials payload options base w =
     (if aborted env w then (Inl (Error ''Request aborted by signal''), w)
      else
        let req = buildRequest credentials payload options base;
            w1 = w\<lparr>clock := clock w + int (snd (httpRequest env w req)),
                   events := events w @ [HttpRequest req]\<rparr>
        in case fst (httpRequest env w req) of
             Rejected e \<Rightarrow> (Inl e, w1)
           | Resolved (JObj fs) \<Rightarrow>
               (if ''error'' \<in> fst ` set fs
                then (Inl (Error (''LiraX API error: '' @ jsString (getProp fs ''error''))), w1)
                else (Inr (JObj fs), w1))
           | Resolved v \<Rightarrow> (Inr v, w1))"

text \<open>
  The \<^verbatim>\<open>while (attempt < maxAttempts)\<close> loop on one base URL, with the \<^verbatim>\<open>catch\<close> block:
  \<^verbatim>\<open>
  } catch (error) {
    allErrors.push(typedError);
    if (!isRetryableError(error)) { break; }
    if (attempt === maxAttempts - 1) { break; }
    const delay = calculateRetryDelay(attempt, credentials);
    if (delay > 0) { await sleep(delay); }
    attempt++;
  }
  \<close>
  The result is the response when an attempt returned one, the errors collected so far
  and the world.
\<close>

function attemptLoop ::
  "environment \<Rightarrow> LiraXCredentials \<Rightarrow> data_object \<Rightarrow> request_options \<Rightarrow> string \<Rightarrow> nat
    \<Rightarrow> nat \<Rightarrow> js_error list \<Rightarrow> world \<Rightarrow> js_value option \<times> js_error list \<times> world" where
  "attemptLoop env credentials payload options base maxAttempts attempt allErrors w =
     (if attempt < maxAttempts
      then (case attemptOnce env credentials payload options base w of
              (Inr resp, w1) \<Rightarrow> (Some resp, allErrors, w1)
            | (Inl e, w1) \<Rightarrow>
                (if \<not> isRetryableError e then (None, allErrors @ [e], w1)
                 else if int attempt = int maxAttempts - 1 then (None, allErrors @ [e], w1)
                 else attemptLoop env credentials payload options base maxAttempts
                        (attempt + 1) (allErrors @ [e])
                        (if calculateRetryDelay (mathRandom env w1) attempt credentials > 0
                         then sleep (calculateRetryDelay (mathRandom env w1) attempt credentials) w1
                         else w1)))
      else (None, allErrors, w))"
  by pat_completeness auto
termination
  by (relation "measure (\<lambda>(env, credentials, payload, options, base, maxAttempts, attempt,
        allErrors, w). maxAttempts - attempt)") auto

declare attemptLoop.simps [simp del]

text \<open>A response passes the test \<^verbatim>\<open>'error' in response\<close> of the attempt when it is not
  an object with a top-level \<^verbatim>\<open>error\<close> property.\<close>

definition noErrorField :: "js_value \<Rightarrow> bool" where
  "noErrorField v = (case v of JObj fs \<Rightarrow> ''error'' \<notin> fst ` set fs | _ \<Rightarrow> True)"

text \<open>\<^verbatim>\<open>Math.max(0, credentials.retries || DEFAULT_RETRY_ATTEMPTS) + 1\<close>.\<close>

definition maxAttemptsOf :: "LiraXCredentials \<Rightarrow> nat" where
  "maxAttemptsOf credentials =
     nat (max 0 (if retries credentials \<noteq> 0 then retries credentials
                 else DEFAULT_RETRY_ATTEMPTS)) + 1"

text \<open>The \<^verbatim>\<open>for (const baseUrl of validUrls)\<close> loop: the first response ends the call.\<close>

fun endpointLoop ::
  "environment \<Rightarrow> LiraXCredentials \<Rightarrow> data_object \<Rightarrow> request_options \<Rightarrow> string list
    \<Rightarrow> js_error list \<Rightarrow> world \<Rightarrow> js_value option \<times> js_error list \<times> world" where
  "endpointLoop env credentials payload options [] allErrors w = (None, allErrors, w)"
| "endpointLoop env credentials payload options (base # rest) allErrors w =
     (case attemptLoop env credentials payload options base (maxAttemptsOf credentials) 0
             allErrors w of
        (Some resp, errs, w1) \<Rightarrow> (Some resp, errs, w1)
      | (None, errs, w1) \<Rightarrow> endpointLoop env credentials payload options rest errs w1)"

text \<open>
  \<^verbatim>\<open>executeRequestWithRetry\<close>: no valid URL is a configuration error raised through the
  handler; otherwise the endpoints are tried in order, and when none answered the
  collected errors are raised through \<^verbatim>\<open>handleFailoverError\<close>.
\<close>

definition executeRequestWithRetry ::
  "environment \<Rightarrow> LiraXCredentials \<Rightarrow> data_object \<Rightarrow> request_options \<Rightarrow> js_value operation" where
  "executeRequestWithRetry env credentials payload options w =
     (let validUrls = filter validUrl (candidateUrls credentials)
      in if validUrls = []
         then (Rejected (handle (jsonParse env) (toISOString env (clock w))
                           (Error ''No valid base URLs configured'')
                           \<lparr>ctxOperation = operationOf payload, ctxPayload = Some payload,
                            ctxMessage = Some ''LiraX API configuration error'',
                            ctxResource = None\<rparr>), w)
         else (case endpointLoop env credentials payload options validUrls [] w of
                 (Some resp, errs, w1) \<Rightarrow> (Resolved resp, w1)
               | (None, errs, w1) \<Rightarrow>
                   (Rejected (handleFailoverError (jsonParse env) (toISOString env (clock w1)) errs
                      \<lparr>ctxOperation = operationOf payload, ctxPayload = Some payload,
                       ctxMessage = Some (''LiraX API request failed on all endpoints (''
                          @ natToString (length validUrls) @ '') after all retries''),
                       ctxResource = None\<rparr>), w1)))"

text \<open>\<^verbatim>\<open>credentials.id || 'default'\<close>, the key of the breaker registry.\<close>

definition breakerKey :: "LiraXCredentials \<Rightarrow> string" where
  "breakerKey credentials =
     (case credId credentials of
        Some i \<Rightarrow> (if i \<noteq> [] then i else ''default'')
      | None \<Rightarrow> ''default'')"

text \<open>
  \<^verbatim>\<open>
  async function executeLiraxRequest(): Promise<unknown> {
    if (!bypassCircuitBreaker) {
      const circuitBreaker = CircuitBreakerFactory.getBreaker(credentials.id || 'default');
      try {
        return await circuitBreaker.execute(async () => { return await executeRequestWithRetry(); });
      } catch (error) {
        throw LiraXErrorHandler.handle(error as Error, { ..., payload,
          message: 'Circuit breaker blocked request due to repeated failures' });
      }
    }
    return await executeRequestWithRetry();
  }
  \<close>
  The breaker is an object of the registry: what \<^verbatim>\<open>execute\<close> does to it is written back
  under its key.
\<close>

definition executeLiraxRequest ::
  "environment \<Rightarrow> LiraXCredentials \<Rightarrow> data_object \<Rightarrow> request_options \<Rightarrow> js_value operation" where
  "executeLiraxRequest env credentials payload options w =
     (if \<not> bypassCircuitBreaker options
      then
        (case getBreaker (breakers w) (breakerKey credentials) of
           (circuitBreaker, reg) \<Rightarrow>
             (case execute circuitBreaker (w\<lparr>breakers := reg\<rparr>)
                     (executeRequestWithRetry env credentials payload options) of
                (Resolved result, cb', w1) \<Rightarrow>
                  (Resolved result,
                   w1\<lparr>breakers := (breakers w1)(breakerKey credentials \<mapsto> cb')\<rparr>)
              | (Rejected e, cb', w1) \<Rightarrow>
                  (Rejected (handle (jsonParse env) (toISOString env (clock w1)) e
                     \<lparr>ctxOperation = operationOf payload, ctxPayload = Some payload,
                      ctxMessage = Some ''Circuit breaker blocked request due to repeated failures'',
                      ctxResource = None\<rparr>),
                   w1\<lparr>breakers := (breakers w1)(breakerKey credentials \<mapsto> cb')\<rparr>)))
      else executeRequestWithRetry env credentials payload options w)"

text \<open>
  \<^verbatim>\<open>ThrottlingManager.throttle(key, operation, delayMs)\<close>:
  \<^verbatim>\<open>
  const now = Date.now();
  const entry = this.throttleMap.get(key);
  if (entry && entry.pending) { await entry.pending; }
  if (entry && now - entry.lastRequestTime < delayMs) {
    const waitTime = delayMs - (now - entry.lastRequestTime);
    await this.delay(waitTime);
  }
  const promise = operation();
  this.throttleMap.set(key, { lastRequestTime: Date.now(), pending: promise });
  try { const result = await promise; return result; }
  finally {
    const currentEntry = this.throttleMap.get(key);
    if (currentEntry?.pending === promise) {
      this.throttleMap.set(key, { ...currentEntry, pending: null });
    }
  }
  \<close>
  The method reads the clock and the map once, at entry, and decides from that reading
  what it waits for: the promise that is pending under the key, if any, and then a
  timer, if the last operation under the key was started less than \<open>delayMs\<close> ago. It
  writes the map twice: when it starts the operation, and when the operation settles.
\<close>

definition throttleEntryPlan :: "ThrottleEntry option \<Rightarrow> int \<Rightarrow> int \<Rightarrow> nat option \<times> int option" where
  "throttleEntryPlan entry now delayMs =
     (case entry of
        None \<Rightarrow> (None, None)
      | Some en \<Rightarrow>
          (pending en,
           if now - lastRequestTime en < delayMs
           then Some (delayMs - (now - lastRequestTime en))
           else None))"

definition throttleRegister ::
  "(string \<rightharpoonup> ThrottleEntry) \<Rightarrow> string \<Rightarrow> int \<Rightarrow> nat \<Rightarrow> (string \<rightharpoonup> ThrottleEntry)" where
  "throttleRegister tm key now promise =
     tm(key \<mapsto> \<lparr>lastRequestTime = now, pending = Some promise\<rparr>)"

definition throttleRelease ::
  "(string \<rightharpoonup> ThrottleEntry) \<Rightarrow> string \<Rightarrow> nat \<Rightarrow> (string \<rightharpoonup> ThrottleEntry)" where
  "throttleRelease tm key promise =
     (case tm key of
        Some currentEntry \<Rightarrow>
          (if pending currentEntry = Some promise
           then tm(key \<mapsto> currentEntry\<lparr>pending := None\<rparr>)
           else tm)
      | None \<Rightarrow> tm)"

text \<open>
  The method for a call that runs from its entry to its end with no other call of the
  process in between. A promise found pending at entry has then settled when the call
  looks at it, so awaiting it takes no time.
\<close>

definition throttle :: "string \<Rightarrow> 'a operation \<Rightarrow> int \<Rightarrow> 'a operation" where
  "throttle key operation delayMs w =
     (let w1 = (case snd (throttleEntryPlan (throttleMap w key) (clock w) delayMs) of
                  Some waitTime \<Rightarrow> sleep (real_of_int waitTime) w
                | None \<Rightarrow> w);
          promise = promiseCount w1;
          w2 = w1\<lparr>promiseCount := promise + 1,
                  throttleMap := throttleRegister (throttleMap w1) key (clock w1) promise\<rparr>
      in case operation w2 of
           (result, w3) \<Rightarrow>
             (result, w3\<lparr>throttleMap := throttleRelease (throttleMap w3) key promise\<rparr>))"

text \<open>
  Two calls under one key that may overlap. The first call enters at \<open>n1\<close>, finds the
  map \<open>tm\<close> with nothing pending under the key, and its operation runs for \<open>d1\<close>
  milliseconds; the second enters at \<open>n2\<close>, not before the first, and its operation
  runs for \<open>d2\<close>. A timer fires when it is due and a promise is awaited until it
  settles. The second call reads the map as the first has left it by then: untouched
  while the first is still waiting, with the first's promise pending while its
  operation runs, and released after that. The result gives the start and the end of
  the two operations.
\<close>

definition throttleStartTime :: "(nat \<Rightarrow> int) \<Rightarrow> ThrottleEntry option \<Rightarrow> int \<Rightarrow> int \<Rightarrow> int" where
  "throttleStartTime settleTime entry now delayMs =
     (case throttleEntryPlan entry now delayMs of
        (awaited, waitTime) \<Rightarrow>
          (case awaited of Some promise \<Rightarrow> max now (settleTime promise) | None \<Rightarrow> now)
          + (case waitTime of Some ms \<Rightarrow> ms | None \<Rightarrow> 0))"

definition twoThrottledCalls ::
  "(string \<rightharpoonup> ThrottleEntry) \<Rightarrow> string \<Rightarrow> int \<Rightarrow> int \<Rightarrow> int \<Rightarrow> int \<Rightarrow> int
    \<Rightarrow> int \<times> int \<times> int \<times> int" where
  "twoThrottledCalls tm key delayMs n1 d1 n2 d2 =
     (let start1 = throttleStartTime (\<lambda>p. n1) (tm key) n1 delayMs;
          end1 = start1 + d1;
          seen = (if n2 < start1 then tm
                  else if n2 < end1 then throttleRegister tm key start1 0
                  else throttleRelease (throttleRegister tm key start1 0) key 0);
          start2 = throttleStartTime (\<lambda>p. end1) (seen key) n2 delayMs
      in (start1, end1, start2, start2 + d2))"

text \<open>
  \<^verbatim>\<open>
  if (throttleKey) {
    const throttlingManager = ThrottlingManager.getInstance();
    return await throttlingManager.throttle(throttleKey, async () => {
      return await executeLiraxRequest();
    });
  }
  return await executeLiraxRequest();
  \<close>
\<close>

definition liraxRequest ::
  "environment \<Rightarrow> LiraXCredentials \<Rightarrow> data_object \<Rightarrow> request_options \<Rightarrow> js_value operation" where
  "liraxRequest env credentials payload options w =
     (case throttleKey options of
        Some k \<Rightarrow>
          (if k \<noteq> []
           then throttle k (executeLiraxRequest env credentials payload options)
                  SMS_THROTTLE_DELAY_MS w
           else executeLiraxRequest env credentials payload options w)
      | None \<Rightarrow> executeLiraxRequest env credentials payload options w)"

text \<open>Requests made one after another: each call is entered in the world the call before
  it has left.\<close>

fun liraxRequests ::
  "environment \<Rightarrow> (LiraXCredentials \<times> data_object \<times> request_options) list \<Rightarrow> world
    \<Rightarrow> js_value outcome list \<times> world" where
  "liraxRequests env [] w = ([], w)"
| "liraxRequests env ((credentials, payload, options) # rest) w =
     (case liraxRequest env credentials payload options w of
        (r, w1) \<Rightarrow> (case liraxRequests env rest w1 of (rs, w2) \<Rightarrow> (r # rs, w2)))"


section \<open>The node's SMS operations\<close>

text \<open>\<^verbatim>\<open>createSMSThrottleKey\<close> of the shared utilities: \<^verbatim>\<open>`sms:${provider}:${ext}`\<close>.\<close>

definition createSMSThrottleKey :: "string \<Rightarrow> string \<Rightarrow> string" where
  "createSMSThrottleKey provider ext = ''sms:'' @ provider @ '':'' @ ext"

text \<open>
  The exported \<^verbatim>\<open>throttledSMSRequest\<close> of the shared utilities:
  \<^verbatim>\<open>
  const throttleKey = createSMSThrottleKey(provider, ext);
  return await liraxRequest(context, credentials, payload, { ...options, throttleKey });
  \<close>
\<close>

definition throttledSMSRequest ::
  "environment \<Rightarrow> LiraXCredentials \<Rightarrow> data_object \<Rightarrow> string \<Rightarrow> string \<Rightarrow> request_options
    \<Rightarrow> js_value operation" where
  "throttledSMSRequest env credentials payload provider ext options =
     liraxRequest env credentials payload
       (options\<lparr>throttleKey := Some (createSMSThrottleKey provider ext)\<rparr>)"

text \<open>
  The node's \<^verbatim>\<open>RequestOptions\<close>, which it builds for every item and hands to
  \<^verbatim>\<open>liraxRequest\<close>. The interface has no throttle key and no cache key, so
  \<^verbatim>\<open>liraxRequest\<close> finds both \<^verbatim>\<open>undefined\<close>.
\<close>

record RequestOptions =
  optUseCache :: bool
  optCacheTTL :: int
  optIdempotencyKey :: "string option"
  optIdempotencyTTL :: int
  optBypassCircuitBreaker :: bool
  optTimeoutOverride :: "int option"
  optDisableRetry :: bool

definition asRequestOptions :: "RequestOptions \<Rightarrow> request_options" where
  "asRequestOptions options =
     \<lparr>useCache = optUseCache options, cacheKey = None, cacheTTL = optCacheTTL options,
      idempotencyKey = optIdempotencyKey options,
      bypassCircuitBreaker = optBypassCircuitBreaker options, throttleKey = None\<rparr>"

text \<open>
  The node file's own helper of the same name, which the node's SMS cases call:
  \<^verbatim>\<open>
  const throttledSMSRequest = async (context, credentials, payload, provider, ext, options) => {
    // (comment: implementation of the throttling for SMS requests)
    return await liraxRequest(context, credentials, payload, options);
  };
  \<close>
\<close>

definition nodeThrottledSMSRequest ::
  "environment \<Rightarrow> LiraXCredentials \<Rightarrow> data_object \<Rightarrow> string \<Rightarrow> string \<Rightarrow> RequestOptions
    \<Rightarrow> js_value operation" where
  "nodeThrottledSMSRequest env credentials payload provider ext options =
     liraxRequest env credentials payload (asRequestOptions options)"

text \<open>The node parameters of the two SMS operations of \<^verbatim>\<open>executeMessagingOperation\<close>.\<close>

datatype sms_operation =
    SendSMS (smsExt: string) (smsProvider: string) (smsPhone: string) (smsText: string)
  | CheckSMS (smsExt: string) (smsProvider: string) (smsId: int)

text \<open>
  \<^verbatim>\<open>
  case 'sendSMS': {
    ...
    const normalizedPhone = normalizePhoneDigits(phone);
    const payload = { cmd: 'sendSMS' as const, ext, provider, phone: normalizedPhone, text };
    const validatedPayload = SchemaRegistry.getSchema('sendSMS').parse(payload);
    return await throttledSMSRequest(this, credentials, validatedPayload, provider, ext, options);
  }
  case 'checkSMS': {
    ...
    const payload = { cmd: 'checkSMS' as const, ext, provider, id_sms: id_sms.toString() };
    const validatedPayload = SchemaRegistry.getSchema('checkSMS').parse(payload);
    return await throttledSMSRequest(this, credentials, validatedPayload, provider, ext, options);
  }
  \<close>
  A payload that the schema rejects ends the operation with the schema's error.
\<close>

fun executeMessagingOperation ::
  "environment \<Rightarrow> sms_operation \<Rightarrow> LiraXCredentials \<Rightarrow> RequestOptions \<Rightarrow> js_value operation" where
  "executeMessagingOperation env (SendSMS ext provider phone text') credentials options w =
     (case schemaParse env ''sendSMS''
             [(''cmd'', JStr ''sendSMS''), (''ext'', JStr ext), (''provider'', JStr provider),
              (''phone'', JStr (normalizePhoneDigits (JStr phone))), (''text'', JStr text')] of
        Inl e \<Rightarrow> (Rejected e, w)
      | Inr validatedPayload \<Rightarrow>
          nodeThrottledSMSRequest env credentials validatedPayload provider ext options w)"
| "executeMessagingOperation env (CheckSMS ext provider id_sms) credentials options w =
     (case schemaParse env ''checkSMS''
             [(''cmd'', JStr ''checkSMS''), (''ext'', JStr ext), (''provider'', JStr provider),
              (''id_sms'', JStr (intToString id_sms))] of
        Inl e \<Rightarrow> (Rejected e, w)
      | Inr validatedPayload \<Rightarrow>
          nodeThrottledSMSRequest env credentials validatedPayload provider ext options w)"

section \<open>The shipped schema registry\<close>

text \<open>
  The schemas are built from the combinators of the validation library. The kinds of
  field schema written out here are a literal command name, \<^verbatim>\<open>z.literal(s)\<close>, and
  \<^verbatim>\<open>
  export const phoneSchema = z.string().min(1).max(20).transform((val) =>
    val.replace(/[^\d]/g, ''));
  export const extSchema = z.string().min(1).max(10).regex(/^\d+$/);
  export const numberToStringSchema = z.union([
    z.string().min(1), z.number().transform(n => n.toString()) ]);
  export const optionalNumberToStringSchema = z.union([
    z.string().min(1).optional(), z.number().transform(n => n.toString()).optional() ]);
  \<close>
  and \<^verbatim>\<open>z.string().min(1)\<close>.
\<close>

datatype zod_schema =
    zLiteral string
  | extSchema
  | phoneSchema
  | zStringMin1
  | numberToStringSchema
  | optionalNumberToStringSchema

text \<open>The name the library gives to the type of a value it did not expect.\<close>

fun parsedType :: "js_value \<Rightarrow> string" where
  "parsedType JUndefined = ''undefined''"
| "parsedType JNull = ''null''"
| "parsedType (JBool b) = ''boolean''"
| "parsedType (JNum n) = ''number''"
| "parsedType (JStr s) = ''string''"
| "parsedType (JArr xs) = ''array''"
| "parsedType (JObj fs) = ''object''"

text \<open>
  The issues of \<^verbatim>\<open>z.string().min(lo)\<close>, with \<^verbatim>\<open>.max(hi)\<close> and \<^verbatim>\<open>.regex(re)\<close> when they are
  given, on a value: the texts are the library's. A value that is not a string gives
  the type issue only; on a string every check is run.
\<close>

definition stringIssues ::
  "nat \<Rightarrow> nat option \<Rightarrow> (string \<Rightarrow> bool) option \<Rightarrow> js_value \<Rightarrow> string list" where
  "stringIssues lo hi re v =
     (case v of
        JStr s \<Rightarrow>
          (if length s < lo
           then [''String must contain at least '' @ natToString lo @ '' character(s)'']
           else [])
          @ (case hi of
               Some h \<Rightarrow>
                 (if h < length s
                  then [''String must contain at most '' @ natToString h @ '' character(s)'']
                  else [])
             | None \<Rightarrow> [])
          @ (case re of
               Some matches \<Rightarrow> (if matches s then [] else [''Invalid''])
             | None \<Rightarrow> [])
      | JUndefined \<Rightarrow> [''Required'']
      | other \<Rightarrow> [''Expected string, received '' @ parsedType other])"

text \<open>\<^verbatim>\<open>/^\d+$/\<close>.\<close>

definition digitsOnly :: "string \<Rightarrow> bool" where
  "digitsOnly s = (s \<noteq> [] \<and> list_all isDigit s)"

text \<open>
  A field schema on the value of a field (\<^verbatim>\<open>undefined\<close> for a field that is absent):
  the texts of the issues, or the parsed value. A union takes its first member that
  accepts the value and otherwise reports one issue.
\<close>

fun parseField :: "zod_schema \<Rightarrow> js_value \<Rightarrow> string list + js_value" where
  "parseField (zLiteral s) v =
     (if v = JStr s then Inr v else Inl [''Invalid literal value, expected '' @ quote s])"
| "parseField extSchema v =
     (if stringIssues 1 (Some 10) (Some digitsOnly) v = [] then Inr v
      else Inl (stringIssues 1 (Some 10) (Some digitsOnly) v))"
| "parseField phoneSchema v =
     (case v of
        JStr s \<Rightarrow>
          (if stringIssues 1 (Some 20) None v = [] then Inr (JStr (filter isDigit s))
           else Inl (stringIssues 1 (Some 20) None v))
      | other \<Rightarrow> Inl (stringIssues 1 (Some 20) None v))"
| "parseField zStringMin1 v =
     (if stringIssues 1 None None v = [] then Inr v else Inl (stringIssues 1 None None v))"
| "parseField numberToStringSchema v =
     (case v of
        JStr s \<Rightarrow> (if s \<noteq> [] then Inr v else Inl [''Invalid input''])
      | JNum n \<Rightarrow> Inr (JStr (intToString n))
      | other \<Rightarrow> Inl [''Invalid input''])"
| "parseField optionalNumberToStringSchema v =
     (case v of
        JUndefined \<Rightarrow> Inr JUndefined
      | JStr s \<Rightarrow> (if s \<noteq> [] then Inr v else Inl [''Invalid input''])
      | JNum n \<Rightarrow> Inr (JStr (intToString n))
      | other \<Rightarrow> Inl [''Invalid input''])"

text \<open>
  \<^verbatim>\<open>z.object(shape).parse(params)\<close>. Every field of the shape is parsed, in the order
  of the shape, and the issues of all fields are collected, each under the path of
  its field. Without issues the result has the fields of the shape only (a field of
  \<^verbatim>\<open>params\<close> that the shape does not name is dropped), and a field that is absent
  from \<^verbatim>\<open>params\<close> and parses to \<^verbatim>\<open>undefined\<close> stays absent.
\<close>

type_synonym object_schema = "(string \<times> zod_schema) list"

definition objectIssues :: "object_schema \<Rightarrow> data_object \<Rightarrow> zod_issue list" where
  "objectIssues shape params =
     concat (map (\<lambda>field.
                    case parseField (snd field) (getProp params (fst field)) of
                      Inl texts \<Rightarrow>
                        map (\<lambda>t. \<lparr>path = [fst field], issueMessage = t\<rparr>) texts
                    | Inr v \<Rightarrow> [])
               shape)"

definition objectValue :: "object_schema \<Rightarrow> data_object \<Rightarrow> data_object" where
  "objectValue shape params =
     concat (map (\<lambda>field.
                    case parseField (snd field) (getProp params (fst field)) of
                      Inl texts \<Rightarrow> []
                    | Inr v \<Rightarrow>
                        (if v \<noteq> JUndefined \<or> fst field \<in> fst ` set params
                         then [(fst field, v)] else []))
               shape)"

text \<open>
  The error that \<^verbatim>\<open>parse\<close> throws: its \<^verbatim>\<open>errors\<close> are the issues, and its message is
  the issues printed as JSON. Of an issue only the path and the message are kept.
\<close>

definition ZodError :: "zod_issue list \<Rightarrow> js_error" where
  "ZodError issues =
     \<lparr>message = stringify 0
        (JArr (map (\<lambda>issue. JObj [(''path'', JArr (map JStr (path issue))),
                                   (''message'', JStr (issueMessage issue))]) issues)),
      code = None, httpCode = None, response = None, errors = Some issues,
      description = None\<rparr>"

definition parseObject :: "object_schema \<Rightarrow> data_object \<Rightarrow> js_error + data_object" where
  "parseObject shape params =
     (if objectIssues shape params = [] then Inr (objectValue shape params)
      else Inl (ZodError (objectIssues shape params)))"

text \<open>
  The entries of the registry, in its order, whose fields are of the kinds above:
  \<^verbatim>\<open>
  export const makeCallSchema = z.object({
    cmd: z.literal('makeCall'), from: extSchema, to: phoneSchema,
    idshop: optionalNumberToStringSchema });
  export const sendSMSSchema = z.object({
    cmd: z.literal('sendSMS'), ext: extSchema, provider: z.string().min(1),
    phone: phoneSchema, text: z.string().min(1) });
  export const checkSMSSchema = z.object({
    cmd: z.literal('checkSMS'), ext: extSchema, provider: z.string().min(1),
    id_sms: numberToStringSchema });
  export const getUsersSchema = z.object({ cmd: z.literal('getUsers') });
  \<close>
  and so on. The entries that have a field of another kind are not written out
  (make2Calls, AskQuestion, set_call_lost, get_calls, checkContact, getContact,
  createTask, createDeal, updateDeal, AddTaskResult, getStatInfo, send_cloud_message,
  getUserSips, addBlackIP, delBlackIP, AddCampaign); no operation below uses them.
\<close>

definition schemas :: "(string \<times> object_schema) list" where
  "schemas =
     [(''makeCall'', [(''cmd'', zLiteral ''makeCall''), (''from'', extSchema),
                      (''to'', phoneSchema), (''idshop'', optionalNumberToStringSchema)]),
      (''killCall'', [(''cmd'', zLiteral ''killCall''), (''Call_id'', zStringMin1)]),
      (''get_makecall_data'', [(''cmd'', zLiteral ''get_makecall_data''),
                               (''id_makecall'', numberToStringSchema)]),
      (''createNote'', [(''cmd'', zLiteral ''createNote''), (''ext'', extSchema),
                        (''ani'', phoneSchema), (''text'', zStringMin1)]),
      (''AddTag'', [(''cmd'', zLiteral ''AddTag''), (''ani'', phoneSchema),
                    (''tag'', zStringMin1)]),
      (''DelTag'', [(''cmd'', zLiteral ''DelTag''), (''ani'', phoneSchema),
                    (''tag'', zStringMin1)]),
      (''getUsers'', [(''cmd'', zLiteral ''getUsers'')]),
      (''getShops'', [(''cmd'', zLiteral ''getShops'')]),
      (''getStages'', [(''cmd'', zLiteral ''getStages'')]),
      (''getUserStatuses'', [(''cmd'', zLiteral ''getUserStatuses'')]),
      (''sendSMS'', [(''cmd'', zLiteral ''sendSMS''), (''ext'', extSchema),
                     (''provider'', zStringMin1), (''phone'', phoneSchema),
                     (''text'', zStringMin1)]),
      (''checkSMS'', [(''cmd'', zLiteral ''checkSMS''), (''ext'', extSchema),
                      (''provider'', zStringMin1), (''id_sms'', numberToStringSchema)]),
      (''sendMsg'', [(''cmd'', zLiteral ''sendMsg''), (''ext'', extSchema),
                     (''ani'', phoneSchema), (''text'', zStringMin1)]),
      (''IsFreeUsers'', [(''cmd'', zLiteral ''IsFreeUsers''), (''phones'', zStringMin1)]),
      (''IsCalling'', [(''cmd'', zLiteral ''IsCalling''), (''phones'', zStringMin1)]),
      (''initStatuses'', [(''cmd'', zLiteral ''initStatuses'')]),
      (''get_sip_route_in'', [(''cmd'', zLiteral ''get_sip_route_in''),
                              (''phone'', phoneSchema)]),
      (''set_sip_route_in'', [(''cmd'', zLiteral ''set_sip_route_in''),
                              (''phone'', phoneSchema), (''sip_number'', zStringMin1),
                              (''priority'', numberToStringSchema),
                              (''time_plan'', numberToStringSchema)]),
      (''addBlackPhone'', [(''cmd'', zLiteral ''addBlackPhone''), (''phone'', phoneSchema)]),
      (''delBlackPhone'', [(''cmd'', zLiteral ''delBlackPhone''), (''phone'', phoneSchema)]),
      (''listBlackPhone'', [(''cmd'', zLiteral ''listBlackPhone'')]),
      (''listBlackIP'', [(''cmd'', zLiteral ''listBlackIP'')]),
      (''AddPhoneCampaign'', [(''cmd'', zLiteral ''AddPhoneCampaign''), (''from'', extSchema),
                              (''phones'', zStringMin1)]),
      (''EncodePhone'', [(''cmd'', zLiteral ''EncodePhone''), (''phone'', phoneSchema)]),
      (''DecodePhone'', [(''cmd'', zLiteral ''DecodePhone''), (''phone'', phoneSchema)])]"

text \<open>
  \<^verbatim>\<open>
  public static getSchema(operation: string): z.ZodSchema<any> {
    const schema = this.schemas.get(operation);
    if (!schema) { throw new Error(`No schema found for operation: ${operation}`); }
    return schema;
  }
  public static validate(operation: string, data: IDataObject): LiraXApiParams {
    const schema = this.getSchema(operation);
    return schema.parse(data);
  }
  \<close>
\<close>

definition SchemaRegistry_getSchema :: "string \<Rightarrow> js_error + object_schema" where
  "SchemaRegistry_getSchema operation =
     (case map_of schemas operation of
        Some schema \<Rightarrow> Inr schema
      | None \<Rightarrow> Inl (Error (''No schema found for operation: '' @ operation)))"

definition SchemaRegistry_validate :: "string \<Rightarrow> data_object \<Rightarrow> js_error + data_object" where
  "SchemaRegistry_validate operation data' =
     (case SchemaRegistry_getSchema operation of
        Inl e \<Rightarrow> Inl e
      | Inr schema \<Rightarrow> parseObject schema data')"

section \<open>Cache providers and the core\<close>

text \<open>An entry of the in-memory provider's map: \<^verbatim>\<open>{ data: unknown; expires: number }\<close>.\<close>

record cache_entry =
  entryData :: js_value
  expires :: int

text \<open>
  \<^verbatim>\<open>
  export class MemoryCacheProvider implements ICacheProvider {
    private cache = new Map<string, { data: unknown; expires: number }>();
    private stats = { hits: 0, misses: 0 };
    private defaultTTL: number;
    private keyPrefix: string;
    constructor(options: CacheProviderOptions = {}) {
      this.defaultTTL = options.ttl ?? 3600;
      this.keyPrefix = options.keyPrefix ?? 'lirax';
    }
  \<close>
\<close>

record MemoryCacheProvider =
  cache :: "string \<rightharpoonup> cache_entry"
  hits :: nat
  misses :: nat
  defaultTTL :: int
  keyPrefix :: string

text \<open>The options of a provider that the in-memory provider reads.\<close>

record CacheProviderOptions =
  ttl :: "int option"
  optKeyPrefix :: "string option"

definition MemoryCacheProvider_new :: "CacheProviderOptions \<Rightarrow> MemoryCacheProvider" where
  "MemoryCacheProvider_new options =
     \<lparr>cache = Map.empty, hits = 0, misses = 0,
      defaultTTL = (case ttl options of Some t \<Rightarrow> t | None \<Rightarrow> 3600),
      keyPrefix = (case optKeyPrefix options of Some p \<Rightarrow> p | None \<Rightarrow> ''lirax'')\<rparr>"

definition makeKey :: "MemoryCacheProvider \<Rightarrow> string \<Rightarrow> string" where
  "makeKey p key = keyPrefix p @ '':'' @ key"

definition MAX_SAFE_INTEGER :: int where
  "MAX_SAFE_INTEGER = 9007199254740991"

text \<open>
  \<^verbatim>\<open>
  async get<T>(key: string): Promise<T | null> {
    const entry = this.cache.get(this.makeKey(key));
    if (!entry) { this.stats.misses++; return null; }
    if (Date.now() > entry.expires) {
      this.cache.delete(this.makeKey(key));
      this.stats.misses++;
      return null;
    }
    this.stats.hits++;
    return entry.data as T;
  }
  \<close>
\<close>

definition MemoryCacheProvider_get ::
  "MemoryCacheProvider \<Rightarrow> string \<Rightarrow> int \<Rightarrow> js_value \<times> MemoryCacheProvider" where
  "MemoryCacheProvider_get p key now =
     (case cache p (makeKey p key) of
        None \<Rightarrow> (JNull, p\<lparr>misses := misses p + 1\<rparr>)
      | Some entry \<Rightarrow>
          (if now > expires entry
           then (JNull, p\<lparr>cache := (cache p)(makeKey p key := None), misses := misses p + 1\<rparr>)
           else (entryData entry, p\<lparr>hits := hits p + 1\<rparr>)))"

text \<open>
  \<^verbatim>\<open>
  async set<T>(key: string, value: T, ttlSeconds?: number): Promise<void> {
    const ttl = ttlSeconds ?? this.defaultTTL;
    const expires = ttl > 0 ? Date.now() + (ttl * 1000) : Number.MAX_SAFE_INTEGER;
    this.cache.set(this.makeKey(key), { data: value, expires });
  }
  \<close>
\<close>

definition MemoryCacheProvider_set ::
  "MemoryCacheProvider \<Rightarrow> string \<Rightarrow> js_value \<Rightarrow> int option \<Rightarrow> int \<Rightarrow> MemoryCacheProvider" where
  "MemoryCacheProvider_set p key val ttlSeconds now =
     (let ttl' = (case ttlSeconds of Some t \<Rightarrow> t | None \<Rightarrow> defaultTTL p);
          expires' = (if ttl' > 0 then now + ttl' * 1000 else MAX_SAFE_INTEGER)
      in p\<lparr>cache := (cache p)(makeKey p key \<mapsto> \<lparr>entryData = val, expires = expires'\<rparr>)\<rparr>)"

text \<open>
  \<^verbatim>\<open>CacheFactory.create(providerType, options)\<close>. The Redis and the file provider keep
  their entries outside the process and are not modelled: the factory answers with a
  new in-memory provider for the type \<^verbatim>\<open>'memory'\<close> (the default) and whenever the
  requested external provider cannot be constructed (the fallback of
  \<^verbatim>\<open>createRedisProvider\<close> and \<^verbatim>\<open>createFileProvider\<close>), and with \<open>None\<close> when an external
  provider is constructed. The first argument says, for each external type, whether
  its construction succeeds.
\<close>

datatype CacheProviderType = memory | redis | file'

definition CacheFactory_create ::
  "(CacheProviderType \<Rightarrow> bool) \<Rightarrow> CacheProviderType \<Rightarrow> CacheProviderOptions
    \<Rightarrow> MemoryCacheProvider option" where
  "CacheFactory_create constructs providerType options =
     (case providerType of
        memory \<Rightarrow> Some (MemoryCacheProvider_new options)
      | external \<Rightarrow>
          (if constructs external then None else Some (MemoryCacheProvider_new options)))"

text \<open>
  The objects of the process that are in-memory providers, by address: \<^verbatim>\<open>new\<close> puts
  the new object at a fresh address. An instance of the core holds the address of its
  provider (\<^verbatim>\<open>private readonly cache: ICacheProvider\<close>) and its credentials.
\<close>

type_synonym provider_heap = "MemoryCacheProvider list"

record LiraXCore =
  coreCache :: nat
  coreCredentials :: LiraXCredentials

text \<open>
  The constructor, given the provider type and the options that it has read from the
  node's performance settings and the process environment:
  \<^verbatim>\<open>this.cache = CacheFactory.create(provider, options);\<close>
\<close>

definition LiraXCore_new ::
  "(CacheProviderType \<Rightarrow> bool) \<Rightarrow> CacheProviderType \<Rightarrow> CacheProviderOptions
    \<Rightarrow> LiraXCredentials \<Rightarrow> provider_heap \<Rightarrow> (LiraXCore \<times> provider_heap) option" where
  "LiraXCore_new constructs providerType options credentials heap =
     (case CacheFactory_create constructs providerType options of
        None \<Rightarrow> None
      | Some p \<Rightarrow> Some (\<lparr>coreCache = length heap, coreCredentials = credentials\<rparr>, heap @ [p]))"

text \<open>The options of \<^verbatim>\<open>executeOperation\<close>, with their defaults.\<close>

record operation_options =
  opIdempotencyKey :: "string option"
  opIdempotencyTTL :: int
  opUseCache :: bool
  opCacheKey :: "string option"
  opCacheTTL :: int

definition operationDefaults :: operation_options where
  "operationDefaults = \<lparr>opIdempotencyKey = None, opIdempotencyTTL = 86400,
     opUseCache = False, opCacheKey = None, opCacheTTL = 3600\<rparr>"

text \<open>The own enumerable properties that an object spread \<^verbatim>\<open>{ ...v }\<close> copies.\<close>

fun spreadProps :: "js_value \<Rightarrow> data_object" where
  "spreadProps (JObj fs) = fs"
| "spreadProps (JArr xs) = zip (map natToString [0..<length xs]) xs"
| "spreadProps (JStr s) = zip (map natToString [0..<length s]) (map (\<lambda>c. JStr [c]) s)"
| "spreadProps v = []"

text \<open>\<^verbatim>\<open>{ ...cached, _meta: { fromCache: true } }\<close> and
  \<^verbatim>\<open>{ ...cachedResult, _meta: { fromCache: true, idempotencyHit: true } }\<close>.\<close>

definition tagFromCache :: "js_value \<Rightarrow> js_value" where
  "tagFromCache cached =
     JObj (setProp ''_meta'' (JObj [(''fromCache'', JBool True)]) (spreadProps cached))"

definition tagIdempotencyHit :: "js_value \<Rightarrow> js_value" where
  "tagIdempotencyHit cachedResult =
     JObj (setProp ''_meta'' (JObj [(''fromCache'', JBool True), (''idempotencyHit'', JBool True)])
             (spreadProps cachedResult))"

definition truthyKey :: "string option \<Rightarrow> bool" where
  "truthyKey k = (case k of Some s \<Rightarrow> s \<noteq> [] | None \<Rightarrow> False)"

text \<open>The string of an optional key (after the key has been tested to be there).\<close>

definition keyOf :: "string option \<Rightarrow> string" where
  "keyOf k = (case k of Some s \<Rightarrow> s | None \<Rightarrow> [])"

definition idempotencyStoreKey :: "string \<Rightarrow> string" where
  "idempotencyStoreKey k = ''idempotency:'' @ k"

text \<open>
  \<^verbatim>\<open>
  if (useCache && cacheKey) {
    const cached = await this.cache.get<IDataObject>(cacheKey);
    if (cached) { return { ...cached, _meta: { fromCache: true } }; }
  }
  if (idempotencyKey) {
    const cachedResult = await this.cache.get<IDataObject>(`idempotency:${idempotencyKey}`);
    if (cachedResult) {
      return { ...cachedResult, _meta: { fromCache: true, idempotencyHit: true } };
    }
  }
  const schema = SchemaRegistry.getSchema(operation);
  const validatedParams = schema.parse(params);
  const payload = { ...validatedParams, cmd: operation };
  const result = await liraxRequest(this.context, this.credentials, payload);
  if (useCache && cacheKey) { await this.cache.set(cacheKey, result, cacheTTL); }
  if (idempotencyKey) {
    await this.cache.set(`idempotency:${idempotencyKey}`, result, idempotencyTTL);
  }
  return result as IDataObject;
  \<close>
  The method on the provider \<open>p\<close> of the instance: the outcome, the provider after the
  call and the world after it.
\<close>

definition executeOperationOn ::
  "environment \<Rightarrow> MemoryCacheProvider \<Rightarrow> LiraXCredentials \<Rightarrow> string \<Rightarrow> data_object
    \<Rightarrow> operation_options \<Rightarrow> world \<Rightarrow> js_value outcome \<times> MemoryCacheProvider \<times> world" where
  "executeOperationOn env p credentials opName params options w =
     (let readCache = (opUseCache options \<and> truthyKey (opCacheKey options));
          lookup1 = (if readCache
                     then MemoryCacheProvider_get p (keyOf (opCacheKey options)) (clock w)
                     else (JNull, p))
      in if readCache \<and> truthy (fst lookup1)
         then (Resolved (tagFromCache (fst lookup1)), snd lookup1, w)
         else
           let p1 = snd lookup1;
               idem = truthyKey (opIdempotencyKey options);
               lookup2 = (if idem
                          then MemoryCacheProvider_get p1
                                 (idempotencyStoreKey (keyOf (opIdempotencyKey options)))
                                 (clock w)
                          else (JNull, p1))
           in if idem \<and> truthy (fst lookup2)
              then (Resolved (tagIdempotencyHit (fst lookup2)), snd lookup2, w)
              else
                let p2 = snd lookup2
                in case schemaParse env opName params of
                     Inl e \<Rightarrow> (Rejected e, p2, w)
                   | Inr validatedParams \<Rightarrow>
                       (case liraxRequest env credentials
                               (setProp ''cmd'' (JStr opName) validatedParams) defaultOptions w of
                          (Rejected e, w1) \<Rightarrow> (Rejected e, p2, w1)
                        | (Resolved result, w1) \<Rightarrow>
                            let p3 = (if readCache
                                      then MemoryCacheProvider_set p2
                                             (keyOf (opCacheKey options)) result
                                             (Some (opCacheTTL options)) (clock w1)
                                      else p2);
                                p4 = (if idem
                                      then MemoryCacheProvider_set p3
                                             (idempotencyStoreKey
                                                (keyOf (opIdempotencyKey options)))
                                             result (Some (opIdempotencyTTL options)) (clock w1)
                                      else p3)
                            in (Resolved result, p4, w1)))"

text \<open>The method on an instance: it works on the provider at the instance's address.\<close>

definition executeOperation ::
  "environment \<Rightarrow> provider_heap \<Rightarrow> LiraXCore \<Rightarrow> string \<Rightarrow> data_object \<Rightarrow> operation_options
    \<Rightarrow> world \<Rightarrow> js_value outcome \<times> provider_heap \<times> world" where
  "executeOperation env heap core opName params options w =
     (case executeOperationOn env (heap ! coreCache core) (coreCredentials core) opName params
             options w of
        (r, p', w') \<Rightarrow> (r, heap[coreCache core := p'], w'))"

text \<open>Calls of \<^verbatim>\<open>executeOperation\<close> on one provider, one after another, each entered in
  its own world: for each call the provider as the call finds it, the outcome and the
  world the call leaves; and the provider at the end.\<close>

fun executeOperationsOn ::
  "environment \<Rightarrow> MemoryCacheProvider \<Rightarrow> LiraXCredentials
    \<Rightarrow> (string \<times> data_object \<times> operation_options \<times> world) list
    \<Rightarrow> (MemoryCacheProvider \<times> js_value outcome \<times> world) list \<times> MemoryCacheProvider" where
  "executeOperationsOn env p credentials [] = ([], p)"
| "executeOperationsOn env p credentials ((opName, params, options, w) # rest) =
     (case executeOperationOn env p credentials opName params options w of
        (r, p1, w1) \<Rightarrow>
          (case executeOperationsOn env p1 credentials rest of
             (rs, p2) \<Rightarrow> ((p, r, w1) # rs, p2)))"

text \<open>What the read cache of the provider \<open>p\<close> answers to a call with these options that is
  entered in the world \<open>w\<close>: the entry under the call's \<^verbatim>\<open>cacheKey\<close> when the call has
  \<^verbatim>\<open>useCache\<close> and a \<^verbatim>\<open>cacheKey\<close> and the entry is there and has not expired, and
  \<^verbatim>\<open>null\<close> otherwise.\<close>

definition readCacheAnswer :: "MemoryCacheProvider \<Rightarrow> operation_options \<Rightarrow> world \<Rightarrow> js_value" where
  "readCacheAnswer p options w =
     (if opUseCache options \<and> truthyKey (opCacheKey options)
      then fst (MemoryCacheProvider_get p (keyOf (opCacheKey options)) (clock w))
      else JNull)"

text \<open>A later call with the idempotency key is served from the store, where \<open>r\<close> is the
  result stored under the key: it leaves the world as it found it and it resolves,
  with the stored result under the idempotency tag, or, when the read cache has a
  truthy answer for the call, with that answer under the tag of the read cache.\<close>

definition servedFromStore ::
  "js_value \<Rightarrow> string \<times> data_object \<times> operation_options \<times> world
    \<Rightarrow> MemoryCacheProvider \<times> js_value outcome \<times> world \<Rightarrow> bool" where
  "servedFromStore r call run =
     (case call of
        (opName, params, options, w) \<Rightarrow>
          (case run of
             (p, answer, w') \<Rightarrow>
               w' = w
               \<and> answer = Resolved (if truthy (readCacheAnswer p options w)
                                    then tagFromCache (readCacheAnswer p options w)
                                    else tagIdempotencyHit r)))"

text \<open>\<^verbatim>\<open>this.cache.get(key)\<close> and \<^verbatim>\<open>this.cache.set(key, value, ttl)\<close> as an instance runs
  them: on the provider at the instance's address.\<close>

definition core_cache_get ::
  "provider_heap \<Rightarrow> LiraXCore \<Rightarrow> string \<Rightarrow> int \<Rightarrow> js_value \<times> provider_heap" where
  "core_cache_get heap core key now =
     (case MemoryCacheProvider_get (heap ! coreCache core) key now of
        (v, p') \<Rightarrow> (v, heap[coreCache core := p']))"

definition core_cache_set ::
  "provider_heap \<Rightarrow> LiraXCore \<Rightarrow> string \<Rightarrow> js_value \<Rightarrow> int option \<Rightarrow> int \<Rightarrow> provider_heap" where
  "core_cache_set heap core key val ttlSeconds now =
     heap[coreCache core := MemoryCacheProvider_set (heap ! coreCache core) key val ttlSeconds now]"

section \<open>Example configurations\<close>

text \<open>An idle process at time 0: nothing has happened, and both registries are empty.\<close>

definition idleWorld :: world where
  "idleWorld = \<lparr>clock = 0, events = [], breakers = Map.empty, throttleMap = Map.empty,
     promiseCount = 0\<rparr>"

text \<open>An error as the HTTP helper raises it for a response with the given status.\<close>

definition httpError :: "int \<Rightarrow> string \<Rightarrow> js_error" where
  "httpError st msg = \<lparr>message = msg, code = None, httpCode = Some st, response = None,
     errors = None, description = None\<rparr>"

text \<open>A vendor with two endpoints: every request to \<^verbatim>\<open>https://a.example\<close> is answered by
  the first argument, every other request by the second, each after 100 ms. No abort
  signal, the jitter draw is always one half, and the schema registry is the shipped
  one.\<close>

definition twoEndpoints :: "js_value outcome \<Rightarrow> js_value outcome \<Rightarrow> environment" where
  "twoEndpoints answerA answerB =
     \<lparr>httpRequest = (\<lambda>w req. if url req = ''https://a.example/general''
                               then (answerA, 100) else (answerB, 100)),
      aborted = (\<lambda>w. False),
      mathRandom = (\<lambda>w. 1 / 2),
      toISOString = (\<lambda>t. ''2024-01-01T00:00:00.000Z''),
      jsonParse = (\<lambda>s. None),
      schemaParse = SchemaRegistry_validate\<rparr>"

definition exampleCredentials :: "int \<Rightarrow> string option \<Rightarrow> LiraXCredentials" where
  "exampleCredentials n second =
     \<lparr>baseUrl = ''https://a.example'', secondaryBaseUrl = second, token = ''abc123xyz'',
      incomingToken = ''in-token'', sslVerify = True, timeoutMs = 30000, retries = n,
      backoffBaseMs = 1000, credId = None\<rparr>"

text \<open>The request options the node builds with its default settings.\<close>

definition nodeDefaultOptions :: RequestOptions where
  "nodeDefaultOptions = \<lparr>optUseCache = True, optCacheTTL = 3600,
     optIdempotencyKey = Some ''exec-1-0'', optIdempotencyTTL = 86400,
     optBypassCircuitBreaker = False, optTimeoutOverride = None, optDisableRetry = False\<rparr>"

text \<open>A vendor whose first request of the process fails with HTTP 400 and which answers
  every later request.\<close>

definition failsOnceVendor :: "js_value \<Rightarrow> environment" where
  "failsOnceVendor answer =
     \<lparr>httpRequest = (\<lambda>w req. if events w = []
                               then (Rejected (httpError 400 ''Bad Request''), 100)
                               else (Resolved answer, 100)),
      aborted = (\<lambda>w. False),
      mathRandom = (\<lambda>w. 1 / 2),
      toISOString = (\<lambda>t. ''2024-01-01T00:00:00.000Z''),
      jsonParse = (\<lambda>s. None),
      schemaParse = SchemaRegistry_validate\<rparr>"

text \<open>The provider options of an instance that is configured with nothing.\<close>

definition noCacheOptions :: CacheProviderOptions where
  "noCacheOptions = \<lparr>ttl = None, optKeyPrefix = None\<rparr>"

section \<open>Properties: phone normalisation\<close>

lemma replaceNonDigits_filter: "replaceNonDigits s = filter isDigit s"
proof (induction s rule: replaceNonDigits.induct)
  case 1
  show ?case by simp
next
  case (2 c cs)
  show ?case
  proof (cases "isDigit c")
    case True
    with 2 show ?thesis by simp
  next
    case False
    have "filter isDigit (dropWhile (\<lambda>d. \<not> isDigit d) cs) = filter isDigit cs"
      by (induction cs) auto
    with False 2 show ?thesis by simp
  qed
qed

lemma normalizePhoneDigits_str: "normalizePhoneDigits (JStr s) = filter isDigit s"
  by (simp add: replaceNonDigits_filter)

text \<open>
  C10: for every input, normalizePhoneDigits returns a string of decimal digits only
  (the empty string for the empty string and for every non-string input), and it is
  idempotent: normalising its own output changes nothing.
\<close>

theorem normalizePhoneDigits_digits_idempotent:
  "list_all isDigit (normalizePhoneDigits v)
   \<and> normalizePhoneDigits (JStr []) = []
   \<and> ((case v of JStr s \<Rightarrow> False | _ \<Rightarrow> True) \<longrightarrow> normalizePhoneDigits v = [])
   \<and> normalizePhoneDigits (JStr (normalizePhoneDigits (JStr s))) = normalizePhoneDigits (JStr s)"
proof -
  have digits: "list_all isDigit (normalizePhoneDigits v)"
    by (cases v) (simp_all add: replaceNonDigits_filter list_all_iff)
  have nonstr: "(case v of JStr s \<Rightarrow> False | _ \<Rightarrow> True) \<longrightarrow> normalizePhoneDigits v = []"
    by (cases v) simp_all
  have idem: "normalizePhoneDigits (JStr (normalizePhoneDigits (JStr s))) = normalizePhoneDigits (JStr s)"
    by (simp only: normalizePhoneDigits_str filter_filter) simp
  from digits nonstr idem show ?thesis by simp
qed

theorem normalizePhoneDigits_witness:
  "normalizePhoneDigits (JStr ''+38 (050) 123-45-67'') = ''380501234567''
   \<and> normalizePhoneDigits (JNum 380501234567) = []
   \<and> normalizePhoneDigits (JStr (normalizePhoneDigits (JStr ''+38 (050) 123-45-67'')))
       = normalizePhoneDigits (JStr ''+38 (050) 123-45-67'')"
  using normalizePhoneDigits_digits_idempotent [of "JNum 380501234567" "''+38 (050) 123-45-67''"]
  by (simp add: isDigit_def)

section \<open>Properties: the circuit breaker's state machine\<close>

lemma execute_rejected_step:
  assumes "execute cb w op = (Rejected e, cb', w')"
  shows "failureThreshold cb' = failureThreshold cb"
    and "resetTimeout cb' = resetTimeout cb"
    and "state cb \<noteq> CLOSED \<Longrightarrow> state cb' = OPEN"
    and "state cb = CLOSED \<Longrightarrow> failures cb' = failures cb + 1"
    and "state cb = CLOSED \<Longrightarrow>
           state cb' = OPEN \<or> (state cb' = CLOSED \<and> int (failures cb') < failureThreshold cb)"
  using assms
  by (cases "state cb"; auto simp: execute_def onFailure_def onSuccess_def Let_def
      split: if_splits prod.splits outcome.splits)+

text \<open>
  After \<open>k\<close> failed calls a breaker that started closed is open, or it is still closed
  and has counted at least \<open>k\<close> failures, fewer than the threshold.
\<close>

lemma executeAll_rejected_inv:
  assumes "failureThreshold cb = T" and "resetTimeout cb = R"
    and "state cb = OPEN \<or> (state cb = CLOSED \<and> k \<le> failures cb \<and> (0 < k \<longrightarrow> int (failures cb) < T))"
    and "list_all isRejected (fst (executeAll cb calls))"
  shows "failureThreshold (snd (executeAll cb calls)) = T
    \<and> resetTimeout (snd (executeAll cb calls)) = R
    \<and> (state (snd (executeAll cb calls)) = OPEN
       \<or> (state (snd (executeAll cb calls)) = CLOSED
          \<and> k + length calls \<le> failures (snd (executeAll cb calls))
          \<and> (0 < k + length calls \<longrightarrow> int (failures (snd (executeAll cb calls))) < T)))"
  using assms
proof (induction calls arbitrary: cb k)
  case Nil
  then show ?case by simp
next
  case (Cons c calls)
  obtain w op where c: "c = (w, op)" by (cases c)
  obtain r cb1 w' where ex: "execute cb w op = (r, cb1, w')"
    by (cases "execute cb w op")
  obtain rs cb2 where rest: "executeAll cb1 calls = (rs, cb2)"
    by (cases "executeAll cb1 calls")
  from Cons.prems(4) c ex rest
  have rej: "isRejected r" and rejs: "list_all isRejected (fst (executeAll cb1 calls))"
    by simp_all
  from rej obtain e where r: "r = Rejected e" by (cases r) simp_all
  note st = execute_rejected_step[OF ex[unfolded r]]
  have T1: "failureThreshold cb1 = T" and R1: "resetTimeout cb1 = R"
    using st(1,2) Cons.prems(1,2) by simp_all
  have inv1: "state cb1 = OPEN
      \<or> (state cb1 = CLOSED \<and> Suc k \<le> failures cb1 \<and> (0 < Suc k \<longrightarrow> int (failures cb1) < T))"
    using Cons.prems(1,3) st(3,4,5) by (cases "state cb") auto
  from Cons.IH[OF T1 R1 inv1 rejs] show ?case using c ex rest by simp
qed

lemma threshold_failures_open:
  assumes "state cb = CLOSED" and "1 \<le> failureThreshold cb"
    and "length calls = nat (failureThreshold cb)"
    and "list_all isRejected (fst (executeAll cb calls))"
  shows "state (snd (executeAll cb calls)) = OPEN"
    and "resetTimeout (snd (executeAll cb calls)) = resetTimeout cb"
proof -
  have "state cb = OPEN \<or> (state cb = CLOSED \<and> 0 \<le> failures cb
      \<and> (0 < (0::nat) \<longrightarrow> int (failures cb) < failureThreshold cb))"
    using assms(1) by simp
  from executeAll_rejected_inv[OF refl refl this assms(4)] assms(2,3)
  show "state (snd (executeAll cb calls)) = OPEN"
    and "resetTimeout (snd (executeAll cb calls)) = resetTimeout cb"
    by auto
qed

lemma open_rejects:
  "state cb = OPEN \<Longrightarrow> clock w - lastFailureTime cb \<le> resetTimeout cb \<Longrightarrow>
     execute cb w op = (Rejected circuitOpenError, cb, w)"
  by (simp add: execute_def)

lemma open_lets_through:
  "state cb = OPEN \<Longrightarrow> resetTimeout cb < clock w - lastFailureTime cb \<Longrightarrow>
   1 \<le> halfOpenMaxAttempts cb \<Longrightarrow>
     execute cb w op =
       (case op w of
          (Resolved result, w') \<Rightarrow> (Resolved result, onSuccess (halfOpened cb), w')
        | (Rejected error, w') \<Rightarrow> (Rejected error, onFailure (halfOpened cb) (clock w'), w'))"
  unfolding halfOpened_def execute_def by (simp add: Let_def)

lemma half_open_failure:
  "state cb = HALF_OPEN \<Longrightarrow> execute cb w op = (Rejected e, cb', w') \<Longrightarrow>
     state cb' = OPEN \<and> lastFailureTime cb' = clock w'"
  by (auto simp: execute_def onFailure_def onSuccess_def Let_def
      split: if_splits prod.splits outcome.splits)

lemma three_successes_close:
  assumes "state cb = OPEN" and "resetTimeout cb < clock w1 - lastFailureTime cb"
    and "2 \<le> halfOpenMaxAttempts cb"
    and "op1 w1 = (Resolved v1, s1)" and "op2 w2 = (Resolved v2, s2)"
    and "op3 w3 = (Resolved v3, s3)"
  shows "executeAll cb [(w1, op1), (w2, op2), (w3, op3)] =
     ([Resolved v1, Resolved v2, Resolved v3],
      (halfOpened cb)\<lparr>state := CLOSED, failures := 0, halfOpenAttempts := 0, successCount := 0\<rparr>)"
  using assms by (simp add: execute_def onSuccess_def halfOpened_def Let_def)

text \<open>
  C1: a breaker that is CLOSED and then sees failureThreshold (at least 1; 5 by default)
  consecutive failed execute calls is OPEN, and the next call, made no later than
  resetTimeout (60000 ms by default) after the last failure, is rejected with the
  circuit-open error whatever its operation is: the operation is not invoked, and the
  breaker and the world are unchanged. A call on an OPEN breaker made more than
  resetTimeout after the last failure is let through with the breaker HALF_OPEN and
  both probe counters reset (the probe budget being at least 1); three consecutive
  successful calls from there leave the breaker CLOSED (probe budget at least 2; 3 by
  default); and any failed call on a HALF_OPEN breaker leaves it OPEN with
  lastFailureTime the time of that failure.
\<close>

theorem circuit_breaker_lifecycle:
  "(state cb = CLOSED \<and> 1 \<le> failureThreshold cb
      \<and> length calls = nat (failureThreshold cb)
      \<and> list_all isRejected (fst (executeAll cb calls))
    \<longrightarrow> state (snd (executeAll cb calls)) = OPEN
        \<and> (clock w - lastFailureTime (snd (executeAll cb calls)) \<le> resetTimeout cb
            \<longrightarrow> execute (snd (executeAll cb calls)) w op
                = (Rejected circuitOpenError, snd (executeAll cb calls), w)))
   \<and> (state ob = OPEN \<and> resetTimeout ob < clock w - lastFailureTime ob
        \<and> 1 \<le> halfOpenMaxAttempts ob
      \<longrightarrow> execute ob w op =
          (case op w of
             (Resolved result, w') \<Rightarrow> (Resolved result, onSuccess (halfOpened ob), w')
           | (Rejected error, w') \<Rightarrow>
               (Rejected error, onFailure (halfOpened ob) (clock w'), w'))
        \<and> state (halfOpened ob) = HALF_OPEN
        \<and> halfOpenAttempts (halfOpened ob) = 0 \<and> successCount (halfOpened ob) = 0)
   \<and> (state ob = OPEN \<and> resetTimeout ob < clock w1 - lastFailureTime ob
        \<and> 2 \<le> halfOpenMaxAttempts ob
        \<and> op1 w1 = (Resolved v1, s1) \<and> op2 w2 = (Resolved v2, s2) \<and> op3 w3 = (Resolved v3, s3)
      \<longrightarrow> fst (executeAll ob [(w1, op1), (w2, op2), (w3, op3)])
            = [Resolved v1, Resolved v2, Resolved v3]
        \<and> state (snd (executeAll ob [(w1, op1), (w2, op2), (w3, op3)])) = CLOSED)
   \<and> (state hb = HALF_OPEN \<and> execute hb w op = (Rejected e, hb', w')
      \<longrightarrow> state hb' = OPEN \<and> lastFailureTime hb' = clock w')
   \<and> state CircuitBreaker_default = CLOSED
   \<and> failureThreshold CircuitBreaker_default = 5
   \<and> resetTimeout CircuitBreaker_default = 60000
   \<and> halfOpenMaxAttempts CircuitBreaker_default = 3"
proof -
  have a: "state cb = CLOSED \<and> 1 \<le> failureThreshold cb
      \<and> length calls = nat (failureThreshold cb)
      \<and> list_all isRejected (fst (executeAll cb calls))
    \<longrightarrow> state (snd (executeAll cb calls)) = OPEN
        \<and> (clock w - lastFailureTime (snd (executeAll cb calls)) \<le> resetTimeout cb
            \<longrightarrow> execute (snd (executeAll cb calls)) w op
                = (Rejected circuitOpenError, snd (executeAll cb calls), w))"
  proof (intro impI, elim conjE)
    assume h: "state cb = CLOSED" "1 \<le> failureThreshold cb"
      "length calls = nat (failureThreshold cb)"
      "list_all isRejected (fst (executeAll cb calls))"
    note o = threshold_failures_open[OF h]
    show "state (snd (executeAll cb calls)) = OPEN
        \<and> (clock w - lastFailureTime (snd (executeAll cb calls)) \<le> resetTimeout cb
            \<longrightarrow> execute (snd (executeAll cb calls)) w op
                = (Rejected circuitOpenError, snd (executeAll cb calls), w))"
      using o open_rejects[of "snd (executeAll cb calls)" w op] by simp
  qed
  have b: "state ob = OPEN \<and> resetTimeout ob < clock w - lastFailureTime ob
        \<and> 1 \<le> halfOpenMaxAttempts ob
      \<longrightarrow> execute ob w op =
          (case op w of
             (Resolved result, w') \<Rightarrow> (Resolved result, onSuccess (halfOpened ob), w')
           | (Rejected error, w') \<Rightarrow>
               (Rejected error, onFailure (halfOpened ob) (clock w'), w'))
        \<and> state (halfOpened ob) = HALF_OPEN
        \<and> halfOpenAttempts (halfOpened ob) = 0 \<and> successCount (halfOpened ob) = 0"
    using open_lets_through[of ob w op] by (simp add: halfOpened_def)
  have c: "state ob = OPEN \<and> resetTimeout ob < clock w1 - lastFailureTime ob
        \<and> 2 \<le> halfOpenMaxAttempts ob
        \<and> op1 w1 = (Resolved v1, s1) \<and> op2 w2 = (Resolved v2, s2) \<and> op3 w3 = (Resolved v3, s3)
      \<longrightarrow> fst (executeAll ob [(w1, op1), (w2, op2), (w3, op3)])
            = [Resolved v1, Resolved v2, Resolved v3]
        \<and> state (snd (executeAll ob [(w1, op1), (w2, op2), (w3, op3)])) = CLOSED"
    using three_successes_close[of ob w1 op1 v1 s1 op2 w2 v2 s2 op3 w3 v3 s3] by simp
  have d: "state hb = HALF_OPEN \<and> execute hb w op = (Rejected e, hb', w')
      \<longrightarrow> state hb' = OPEN \<and> lastFailureTime hb' = clock w'"
    using half_open_failure[of hb w op e hb' w'] by simp
  have e: "state CircuitBreaker_default = CLOSED
   \<and> failureThreshold CircuitBreaker_default = 5
   \<and> resetTimeout CircuitBreaker_default = 60000
   \<and> halfOpenMaxAttempts CircuitBreaker_default = 3"
    by (simp add: CircuitBreaker_default_def CircuitBreaker_new_def
        CIRCUIT_BREAKER_RESET_TIMEOUT_MS_def)
  from a b c d e show ?thesis by (intro conjI) (simp_all only:)
qed

theorem circuit_breaker_lifecycle_witness:
  "state CircuitBreaker_default = CLOSED
   \<and> list_all isRejected (fst (executeAll CircuitBreaker_default
        (replicate 5
          (\<lparr>clock = 0, events = [], breakers = Map.empty, throttleMap = Map.empty,
             promiseCount = 0\<rparr>,
           \<lambda>w. (Rejected (Error ''ECONNRESET'') :: js_value outcome, w\<lparr>clock := 90\<rparr>)))))
   \<and> (let opened = snd (executeAll CircuitBreaker_default
        (replicate 5
          (\<lparr>clock = 0, events = [], breakers = Map.empty, throttleMap = Map.empty,
             promiseCount = 0\<rparr>,
           \<lambda>w. (Rejected (Error ''ECONNRESET'') :: js_value outcome, w\<lparr>clock := 90\<rparr>))))
      in state opened = OPEN \<and> lastFailureTime opened = 90
       \<and> execute opened
            \<lparr>clock = 60090, events = [], breakers = Map.empty, throttleMap = Map.empty,
              promiseCount = 0\<rparr>
            (\<lambda>w. (Resolved JNull, w))
           = (Rejected circuitOpenError, opened,
              \<lparr>clock = 60090, events = [], breakers = Map.empty, throttleMap = Map.empty,
                promiseCount = 0\<rparr>)
       \<and> fst (execute opened
            \<lparr>clock = 60091, events = [], breakers = Map.empty, throttleMap = Map.empty,
              promiseCount = 0\<rparr>
            (\<lambda>w. (Resolved JNull, w))) = Resolved JNull
       \<and> state (snd (executeAll opened
            (replicate 3
              (\<lparr>clock = 60091, events = [], breakers = Map.empty, throttleMap = Map.empty,
                 promiseCount = 0\<rparr>,
               \<lambda>w. (Resolved JNull, w))))) = CLOSED
       \<and> state (halfOpened opened) = HALF_OPEN
       \<and> execute (halfOpened opened)
            \<lparr>clock = 60091, events = [], breakers = Map.empty, throttleMap = Map.empty,
              promiseCount = 0\<rparr>
            (\<lambda>w. (Rejected (Error ''ECONNRESET''), w\<lparr>clock := 60101\<rparr>))
           = (Rejected (Error ''ECONNRESET'') :: js_value outcome,
              onFailure (halfOpened opened) 60101,
              \<lparr>clock = 60101, events = [], breakers = Map.empty, throttleMap = Map.empty,
                promiseCount = 0\<rparr>)
       \<and> state (onFailure (halfOpened opened) 60101) = OPEN
       \<and> lastFailureTime (onFailure (halfOpened opened) 60101) = 60101)"
  using
    circuit_breaker_lifecycle [of CircuitBreaker_default
        "replicate 5
          (\<lparr>clock = 0, events = [], breakers = Map.empty, throttleMap = Map.empty,
             promiseCount = 0\<rparr>,
           \<lambda>w. (Rejected (Error ''ECONNRESET'') :: js_value outcome, w\<lparr>clock := 90\<rparr>))"
        "\<lparr>clock = 60090, events = [], breakers = Map.empty, throttleMap = Map.empty,
              promiseCount = 0\<rparr>"
        "\<lambda>w. (Resolved JNull, w)"]
  by (simp add: CircuitBreaker_default_def CircuitBreaker_new_def
        CIRCUIT_BREAKER_RESET_TIMEOUT_MS_def execute_def onFailure_def onSuccess_def
        halfOpened_def Let_def numeral_3_eq_3 eval_nat_numeral)

section \<open>Properties: retries and failover\<close>

lemma httpRequestsOf_append [simp]:
  "httpRequestsOf (xs @ ys) = httpRequestsOf xs @ httpRequestsOf ys"
  by (induction xs rule: httpRequestsOf.induct) simp_all

lemma sleepsOf_append [simp]:
  "sleepsOf (xs @ ys) = sleepsOf xs @ sleepsOf ys"
  by (induction xs rule: sleepsOf.induct) simp_all

lemma events_sleep [simp]: "events (sleep d w) = events w @ [Sleep d]"
  by (simp add: sleep_def)

lemma attemptOnce_rejected:
  assumes "\<not> aborted env w"
    and "fst (httpRequest env w (buildRequest credentials payload options base)) = Rejected e"
  shows "\<exists>w1. attemptOnce env credentials payload options base w = (Inl e, w1)
     \<and> events w1 = events w @ [HttpRequest (buildRequest credentials payload options base)]"
  using assms by (simp add: attemptOnce_def Let_def)

lemma attemptOnce_resolved:
  assumes "\<not> aborted env w"
    and "fst (httpRequest env w (buildRequest credentials payload options base)) = Resolved resp"
    and "noErrorField resp"
  shows "\<exists>w1. attemptOnce env credentials payload options base w = (Inr resp, w1)
     \<and> events w1 = events w @ [HttpRequest (buildRequest credentials payload options base)]"
  using assms by (cases resp) (auto simp add: attemptOnce_def Let_def noErrorField_def)

lemma retryable_500: "httpCode e = Some 500 \<Longrightarrow> isRetryableError e"
  by (simp add: isRetryableError_def)

text \<open>When every attempt on a base URL fails with a retryable error, the loop entered
  at attempt \<open>k\<close> makes the remaining \<open>M - k\<close> attempts and ends without a response.\<close>

lemma attemptLoop_all_retryable:
  assumes ab: "\<forall>w. \<not> aborted env w"
    and fail: "\<forall>w. \<exists>e. fst (httpRequest env w (buildRequest credentials payload options base))
                  = Rejected e \<and> isRetryableError e"
  shows "k < M \<Longrightarrow>
     \<exists>errs w'. attemptLoop env credentials payload options base M k allErrors w = (None, errs, w')
       \<and> httpRequestsOf (events w') = httpRequestsOf (events w)
            @ replicate (M - k) (buildRequest credentials payload options base)"
proof (induction "M - k" arbitrary: k allErrors w)
  case 0
  then show ?case by simp
next
  case (Suc n)
  let ?req = "buildRequest credentials payload options base"
  from fail obtain e where e: "fst (httpRequest env w ?req) = Rejected e"
    and re: "isRetryableError e" by blast
  from attemptOnce_rejected[OF ab[rule_format] e] obtain w1 where
    a1: "attemptOnce env credentials payload options base w = (Inl e, w1)"
    and ev1: "events w1 = events w @ [HttpRequest ?req]"
    by blast
  show ?case
  proof (cases "int k = int M - 1")
    case True
    then have "M - k = 1" using Suc.prems by linarith
    with True a1 re ev1 Suc.prems show ?thesis
      by (subst attemptLoop.simps) simp
  next
    case False
    then have lt: "k + 1 < M" using Suc.prems by linarith
    have n: "n = M - (k + 1)" using Suc.hyps(2) by linarith
    let ?w2 = "(if calculateRetryDelay (mathRandom env w1) k credentials > 0
                then sleep (calculateRetryDelay (mathRandom env w1) k credentials) w1
                else w1)"
    from Suc.hyps(1)[OF n lt, of "allErrors @ [e]" ?w2]
    obtain errs w' where
      r: "attemptLoop env credentials payload options base M (k + 1) (allErrors @ [e]) ?w2
            = (None, errs, w')"
      and ev: "httpRequestsOf (events w') = httpRequestsOf (events ?w2)
                 @ replicate (M - (k + 1)) ?req"
      by blast
    have ev2: "httpRequestsOf (events ?w2) = httpRequestsOf (events w) @ [?req]"
      using ev1 by simp
    have "M - k = Suc (M - (k + 1))" using lt by linarith
    then have rep: "replicate (M - k) ?req = ?req # replicate (M - (k + 1)) ?req"
      by simp
    show ?thesis
      using a1 re False Suc.prems r ev ev2 rep
      by (subst attemptLoop.simps) simp
  qed
qed

lemma attemptLoop_first_resolved:
  assumes "\<not> aborted env w"
    and "fst (httpRequest env w (buildRequest credentials payload options base)) = Resolved resp"
    and "noErrorField resp" and "0 < M"
  shows "\<exists>w'. attemptLoop env credentials payload options base M 0 allErrors w
           = (Some resp, allErrors, w')
     \<and> events w' = events w @ [HttpRequest (buildRequest credentials payload options base)]"
proof -
  from attemptOnce_resolved[OF assms(1,2,3)] obtain w1 where
    "attemptOnce env credentials payload options base w = (Inr resp, w1)"
    and "events w1 = events w @ [HttpRequest (buildRequest credentials payload options base)]"
    by blast
  with assms(4) show ?thesis by (subst attemptLoop.simps) simp
qed

lemma attemptLoop_first_not_retryable:
  assumes "\<not> aborted env w"
    and "fst (httpRequest env w (buildRequest credentials payload options base)) = Rejected e"
    and "\<not> isRetryableError e" and "0 < M"
  shows "\<exists>w'. attemptLoop env credentials payload options base M 0 allErrors w
           = (None, allErrors @ [e], w')
     \<and> events w' = events w @ [HttpRequest (buildRequest credentials payload options base)]"
proof -
  from attemptOnce_rejected[OF assms(1,2)] obtain w1 where
    "attemptOnce env credentials payload options base w = (Inl e, w1)"
    and "events w1 = events w @ [HttpRequest (buildRequest credentials payload options base)]"
    by blast
  with assms(3,4) show ?thesis by (subst attemptLoop.simps) simp
qed

lemma maxAttemptsOf_retries: "1 \<le> retries credentials \<Longrightarrow>
    maxAttemptsOf credentials = nat (retries credentials) + 1"
  by (simp add: maxAttemptsOf_def)

lemma failover_to_second_endpoint:
  assumes r: "1 \<le> retries credentials"
    and urls: "baseUrl credentials = A" "secondaryBaseUrl credentials = Some B"
      "validUrl A" "validUrl B"
    and ab: "\<forall>w. \<not> aborted env w"
    and failA: "\<forall>w. \<exists>e. fst (httpRequest env w (buildRequest credentials payload options A))
                  = Rejected e \<and> isRetryableError e"
    and okB: "\<forall>w. fst (httpRequest env w (buildRequest credentials payload options B))
                  = Resolved resp"
    and ne: "noErrorField resp"
  shows "\<exists>w'. executeRequestWithRetry env credentials payload options w = (Resolved resp, w')
     \<and> httpRequestsOf (events w') = httpRequestsOf (events w)
          @ replicate (nat (retries credentials) + 1) (buildRequest credentials payload options A)
          @ [buildRequest credentials payload options B]"
proof -
  have valid: "filter validUrl (candidateUrls credentials) = [A, B]"
    using urls by (auto simp: candidateUrls_def validUrl_def)
  have M: "maxAttemptsOf credentials = nat (retries credentials) + 1"
    using r by (rule maxAttemptsOf_retries)
  from attemptLoop_all_retryable[OF ab failA, of 0 "maxAttemptsOf credentials" "[]" w] M
  obtain errs w1 where
    la: "attemptLoop env credentials payload options A (maxAttemptsOf credentials) 0 [] w
           = (None, errs, w1)"
    and eva: "httpRequestsOf (events w1) = httpRequestsOf (events w)
          @ replicate (nat (retries credentials) + 1) (buildRequest credentials payload options A)"
    by auto
  from attemptLoop_first_resolved[OF ab[rule_format] okB[rule_format] ne,
      of "maxAttemptsOf credentials" errs w1] M
  obtain w2 where
    lb: "attemptLoop env credentials payload options B (maxAttemptsOf credentials) 0 errs w1
           = (Some resp, errs, w2)"
    and evb: "events w2 = events w1 @ [HttpRequest (buildRequest credentials payload options B)]"
    by auto
  have "executeRequestWithRetry env credentials payload options w = (Resolved resp, w2)"
    using valid la lb by (simp add: executeRequestWithRetry_def)
  moreover have "httpRequestsOf (events w2) = httpRequestsOf (events w)
          @ replicate (nat (retries credentials) + 1) (buildRequest credentials payload options A)
          @ [buildRequest credentials payload options B]"
    using eva evb by simp
  ultimately show ?thesis by blast
qed

text \<open>
  C3 (as amended): for every configured retry count of at least 1, with the endpoint
  list [A, B] (both well-formed), no abort, every attempt against A failing with a
  retryable error (HTTP 500 is one) and B answering with a response that has no
  top-level error field: the call makes exactly retries + 1 attempts against A, then
  one attempt against B, and resolves with B's response; these are all its HTTP
  requests.
\<close>

theorem failover_after_retries:
  "1 \<le> retries credentials
   \<and> baseUrl credentials = A \<and> secondaryBaseUrl credentials = Some B
   \<and> validUrl A \<and> validUrl B
   \<and> (\<forall>w. \<not> aborted env w)
   \<and> (\<forall>w. \<exists>e. fst (httpRequest env w (buildRequest credentials payload options A))
                  = Rejected e \<and> httpCode e = Some 500)
   \<and> (\<forall>w. fst (httpRequest env w (buildRequest credentials payload options B)) = Resolved resp)
   \<and> noErrorField resp
   \<longrightarrow> (\<exists>w'. executeRequestWithRetry env credentials payload options w = (Resolved resp, w')
        \<and> httpRequestsOf (events w') = httpRequestsOf (events w)
             @ replicate (nat (retries credentials) + 1)
                 (buildRequest credentials payload options A)
             @ [buildRequest credentials payload options B])"
proof (intro impI, elim conjE)
  assume h: "1 \<le> retries credentials" "baseUrl credentials = A"
    "secondaryBaseUrl credentials = Some B" "validUrl A" "validUrl B"
    "\<forall>w. \<not> aborted env w"
    "\<forall>w. fst (httpRequest env w (buildRequest credentials payload options B)) = Resolved resp"
    "noErrorField resp"
  assume f: "\<forall>w. \<exists>e. fst (httpRequest env w (buildRequest credentials payload options A))
                  = Rejected e \<and> httpCode e = Some 500"
  have failA: "\<forall>w. \<exists>e. fst (httpRequest env w (buildRequest credentials payload options A))
                  = Rejected e \<and> isRetryableError e"
    using f retryable_500 by blast
  from failover_to_second_endpoint[OF h(1-6) failA h(7,8)]
  show "\<exists>w'. executeRequestWithRetry env credentials payload options w = (Resolved resp, w')
        \<and> httpRequestsOf (events w') = httpRequestsOf (events w)
             @ replicate (nat (retries credentials) + 1)
                 (buildRequest credentials payload options A)
             @ [buildRequest credentials payload options B]" .
qed

lemmas fixture_defs = twoEndpoints_def exampleCredentials_def idleWorld_def httpError_def
  defaultOptions_def

lemmas schema_defs = SchemaRegistry_validate_def SchemaRegistry_getSchema_def schemas_def
  parseObject_def objectIssues_def objectValue_def stringIssues_def digitsOnly_def
  isDigit_def getProp_def

lemmas request_defs = executeRequestWithRetry_def candidateUrls_def validUrl_def
  maxAttemptsOf_def DEFAULT_RETRY_ATTEMPTS_def DEFAULT_TIMEOUT_MS_def attemptLoop.simps
  attemptOnce_def buildRequest_def endpointUrl_def isRetryableError_def
  calculateRetryDelay_def sleep_def Let_def

theorem failover_after_retries_witness:
  "1 \<le> retries (exampleCredentials 2 (Some ''https://b.example''))
   \<and> validUrl ''https://a.example'' \<and> validUrl ''https://b.example''
   \<and> noErrorField (JObj [(''result'', JStr ''ok'')])
   \<and> (\<exists>w'. executeRequestWithRetry
        (twoEndpoints (Rejected (httpError 500 ''Internal Server Error''))
                      (Resolved (JObj [(''result'', JStr ''ok'')])))
        (exampleCredentials 2 (Some ''https://b.example''))
        [(''cmd'', JStr ''getShops'')] defaultOptions idleWorld
          = (Resolved (JObj [(''result'', JStr ''ok'')]), w')
      \<and> map url (httpRequestsOf (events w'))
          = [''https://a.example/general'', ''https://a.example/general'',
             ''https://a.example/general'', ''https://b.example/general''])"
proof -
  have h: "1 \<le> retries (exampleCredentials 2 (Some ''https://b.example''))
   \<and> baseUrl (exampleCredentials 2 (Some ''https://b.example'')) = ''https://a.example''
   \<and> secondaryBaseUrl (exampleCredentials 2 (Some ''https://b.example''))
       = Some ''https://b.example''
   \<and> validUrl ''https://a.example'' \<and> validUrl ''https://b.example''
   \<and> (\<forall>w. \<not> aborted (twoEndpoints (Rejected (httpError 500 ''Internal Server Error''))
                      (Resolved (JObj [(''result'', JStr ''ok'')]))) w)
   \<and> (\<forall>w. \<exists>e. fst (httpRequest
            (twoEndpoints (Rejected (httpError 500 ''Internal Server Error''))
                          (Resolved (JObj [(''result'', JStr ''ok'')]))) w
            (buildRequest (exampleCredentials 2 (Some ''https://b.example''))
               [(''cmd'', JStr ''getShops'')] defaultOptions ''https://a.example''))
          = Rejected e \<and> httpCode e = Some 500)
   \<and> (\<forall>w. fst (httpRequest
            (twoEndpoints (Rejected (httpError 500 ''Internal Server Error''))
                          (Resolved (JObj [(''result'', JStr ''ok'')]))) w
            (buildRequest (exampleCredentials 2 (Some ''https://b.example''))
               [(''cmd'', JStr ''getShops'')] defaultOptions ''https://b.example''))
          = Resolved (JObj [(''result'', JStr ''ok'')]))
   \<and> noErrorField (JObj [(''result'', JStr ''ok'')])"
    by (simp add: fixture_defs validUrl_def noErrorField_def buildRequest_def endpointUrl_def)
  from failover_after_retries[rule_format, OF h, of idleWorld]
  obtain w' where r: "executeRequestWithRetry
        (twoEndpoints (Rejected (httpError 500 ''Internal Server Error''))
                      (Resolved (JObj [(''result'', JStr ''ok'')])))
        (exampleCredentials 2 (Some ''https://b.example''))
        [(''cmd'', JStr ''getShops'')] defaultOptions idleWorld
          = (Resolved (JObj [(''result'', JStr ''ok'')]), w')"
    and ev: "httpRequestsOf (events w') = httpRequestsOf (events idleWorld)
             @ replicate (nat (retries (exampleCredentials 2 (Some ''https://b.example''))) + 1)
                 (buildRequest (exampleCredentials 2 (Some ''https://b.example''))
                    [(''cmd'', JStr ''getShops'')] defaultOptions ''https://a.example'')
             @ [buildRequest (exampleCredentials 2 (Some ''https://b.example''))
                    [(''cmd'', JStr ''getShops'')] defaultOptions ''https://b.example'']"
    by blast
  have "map url (httpRequestsOf (events w'))
          = [''https://a.example/general'', ''https://a.example/general'',
             ''https://a.example/general'', ''https://b.example/general'']"
    unfolding ev
    by (simp add: exampleCredentials_def buildRequest_def endpointUrl_def idleWorld_def
        numeral_3_eq_3)
  with r h show ?thesis by simp
qed

text \<open>
  The claim as it was stated fails at two inputs. With a configured retry count of 0
  the endpoint A is attempted four times, not once, before B is tried. And with a retry
  count of 2, when B answers HTTP 200 with a body that has a top-level error field, the
  call is rejected.
\<close>

theorem failover_after_retries_counterexample:
  "retries (exampleCredentials 0 (Some ''https://b.example'')) = 0
   \<and> map url (httpRequestsOf (events (snd (executeRequestWithRetry
        (twoEndpoints (Rejected (httpError 500 ''Internal Server Error''))
                      (Resolved (JObj [(''result'', JStr ''ok'')])))
        (exampleCredentials 0 (Some ''https://b.example''))
        [(''cmd'', JStr ''getShops'')] defaultOptions idleWorld))))
     = [''https://a.example/general'', ''https://a.example/general'',
        ''https://a.example/general'', ''https://a.example/general'',
        ''https://b.example/general'']
   \<and> isRejected (fst (executeRequestWithRetry
        (twoEndpoints (Rejected (httpError 500 ''Internal Server Error''))
                      (Resolved (JObj [(''error'', JStr ''Invalid token'')])))
        (exampleCredentials 2 (Some ''https://b.example''))
        [(''cmd'', JStr ''getShops'')] defaultOptions idleWorld))"
  by (simp add: fixture_defs request_defs getProp_def)

section \<open>Properties: a non-retryable failure\<close>

lemma single_non_retryable:
  assumes urls: "secondaryBaseUrl credentials = None" "validUrl (baseUrl credentials)"
    and ab: "\<not> aborted env w"
    and rej: "fst (httpRequest env w
                (buildRequest credentials payload options (baseUrl credentials))) = Rejected e"
    and nr: "\<not> isRetryableError e"
  shows "\<exists>w'. executeRequestWithRetry env credentials payload options w
       = (Rejected (handleFailoverError (jsonParse env) (toISOString env (clock w')) [e]
            \<lparr>ctxOperation = operationOf payload, ctxPayload = Some payload,
             ctxMessage = Some (''LiraX API request failed on all endpoints (''
                @ natToString 1 @ '') after all retries''),
             ctxResource = None\<rparr>), w')
     \<and> events w' = events w
          @ [HttpRequest (buildRequest credentials payload options (baseUrl credentials))]"
proof -
  have valid: "filter validUrl (candidateUrls credentials) = [baseUrl credentials]"
    using urls by (simp add: candidateUrls_def)
  have "0 < maxAttemptsOf credentials" by (simp add: maxAttemptsOf_def)
  from attemptLoop_first_not_retryable[OF ab rej nr this, of "[]"]
  obtain w' where
    l: "attemptLoop env credentials payload options (baseUrl credentials)
          (maxAttemptsOf credentials) 0 [] w = (None, [e], w')"
    and ev: "events w' = events w
          @ [HttpRequest (buildRequest credentials payload options (baseUrl credentials))]"
    by auto
  show ?thesis
    using valid l ev by (simp add: executeRequestWithRetry_def)
qed

lemma handleFailoverError_message:
  "message (handleFailoverError parse isoNow errs context)
     = ''All failover attempts failed for operation '' @ [CHR 0x27] @ ctxOperation context
         @ [CHR 0x27]"
  by (simp add: handleFailoverError_def NodeApiError_def)

text \<open>
  C6 (as amended): with a single configured endpoint whose first attempt fails with
  HTTP 400, a non-retryable error, exactly one HTTP attempt is made, with no retry and
  no backoff sleep, and executeRequestWithRetry fails with the aggregated failover
  error, whose message is "All failover attempts failed for operation '<operation>'".
  With the circuit breaker bypassed and no throttle key, that is the error the caller
  of liraxRequest receives.
\<close>

theorem non_retryable_single_attempt:
  "secondaryBaseUrl credentials = None \<and> validUrl (baseUrl credentials) \<and> \<not> aborted env w
   \<and> fst (httpRequest env w
        (buildRequest credentials payload options (baseUrl credentials))) = Rejected e
   \<and> httpCode e = Some 400 \<and> \<not> isRetryableError e
   \<longrightarrow> (\<exists>failure w'.
          executeRequestWithRetry env credentials payload options w = (Rejected failure, w')
        \<and> events w' = events w
             @ [HttpRequest (buildRequest credentials payload options (baseUrl credentials))]
        \<and> message failure
            = ''All failover attempts failed for operation '' @ [CHR 0x27]
                @ operationOf payload @ [CHR 0x27]
        \<and> (bypassCircuitBreaker options \<and> throttleKey options = None
            \<longrightarrow> liraxRequest env credentials payload options w = (Rejected failure, w')))"
proof (intro impI, elim conjE)
  assume h: "secondaryBaseUrl credentials = None" "validUrl (baseUrl credentials)"
    "\<not> aborted env w"
    "fst (httpRequest env w
        (buildRequest credentials payload options (baseUrl credentials))) = Rejected e"
    and nr: "\<not> isRetryableError e"
  from single_non_retryable[OF h nr] obtain w' where
    r: "executeRequestWithRetry env credentials payload options w
       = (Rejected (handleFailoverError (jsonParse env) (toISOString env (clock w')) [e]
            \<lparr>ctxOperation = operationOf payload, ctxPayload = Some payload,
             ctxMessage = Some (''LiraX API request failed on all endpoints (''
                @ natToString 1 @ '') after all retries''),
             ctxResource = None\<rparr>), w')"
    and ev: "events w' = events w
          @ [HttpRequest (buildRequest credentials payload options (baseUrl credentials))]"
    by blast
  have by_pass: "bypassCircuitBreaker options \<and> throttleKey options = None
      \<longrightarrow> liraxRequest env credentials payload options w
          = executeRequestWithRetry env credentials payload options w"
    by (simp add: liraxRequest_def executeLiraxRequest_def)
  show "\<exists>failure w'.
          executeRequestWithRetry env credentials payload options w = (Rejected failure, w')
        \<and> events w' = events w
             @ [HttpRequest (buildRequest credentials payload options (baseUrl credentials))]
        \<and> message failure
            = ''All failover attempts failed for operation '' @ [CHR 0x27]
                @ operationOf payload @ [CHR 0x27]
        \<and> (bypassCircuitBreaker options \<and> throttleKey options = None
            \<longrightarrow> liraxRequest env credentials payload options w = (Rejected failure, w'))"
    using r ev by_pass handleFailoverError_message
    by (intro exI[of _ "handleFailoverError (jsonParse env) (toISOString env (clock w')) [e]
            \<lparr>ctxOperation = operationOf payload, ctxPayload = Some payload,
             ctxMessage = Some (''LiraX API request failed on all endpoints (''
                @ natToString 1 @ '') after all retries''),
             ctxResource = None\<rparr>"] exI[of _ w']) simp
qed

theorem non_retryable_single_attempt_witness:
  "validUrl ''https://a.example''
   \<and> \<not> isRetryableError (httpError 400 ''Bad Request'')
   \<and> (\<exists>failure w'.
        liraxRequest (twoEndpoints (Rejected (httpError 400 ''Bad Request'')) (Resolved JNull))
          (exampleCredentials 3 None) [(''cmd'', JStr ''sendSMS'')]
          (defaultOptions\<lparr>bypassCircuitBreaker := True\<rparr>) idleWorld = (Rejected failure, w')
      \<and> map url (httpRequestsOf (events w')) = [''https://a.example/general'']
      \<and> sleepsOf (events w') = []
      \<and> message failure = ''All failover attempts failed for operation '' @ [CHR 0x27]
                @ ''sendSMS'' @ [CHR 0x27])"
proof -
  have h: "secondaryBaseUrl (exampleCredentials 3 None) = None
   \<and> validUrl (baseUrl (exampleCredentials 3 None))
   \<and> \<not> aborted (twoEndpoints (Rejected (httpError 400 ''Bad Request'')) (Resolved JNull))
         idleWorld
   \<and> fst (httpRequest (twoEndpoints (Rejected (httpError 400 ''Bad Request'')) (Resolved JNull))
        idleWorld
        (buildRequest (exampleCredentials 3 None) [(''cmd'', JStr ''sendSMS'')]
           (defaultOptions\<lparr>bypassCircuitBreaker := True\<rparr>) (baseUrl (exampleCredentials 3 None))))
       = Rejected (httpError 400 ''Bad Request'')
   \<and> httpCode (httpError 400 ''Bad Request'') = Some 400
   \<and> \<not> isRetryableError (httpError 400 ''Bad Request'')"
    by (simp add: fixture_defs validUrl_def buildRequest_def endpointUrl_def
        isRetryableError_def)
  from non_retryable_single_attempt[rule_format, OF h]
  obtain failure w' where
    r: "events w' = events idleWorld
             @ [HttpRequest (buildRequest (exampleCredentials 3 None) [(''cmd'', JStr ''sendSMS'')]
                  (defaultOptions\<lparr>bypassCircuitBreaker := True\<rparr>)
                  (baseUrl (exampleCredentials 3 None)))]"
      "message failure = ''All failover attempts failed for operation '' @ [CHR 0x27]
                @ operationOf [(''cmd'', JStr ''sendSMS'')] @ [CHR 0x27]"
      "bypassCircuitBreaker (defaultOptions\<lparr>bypassCircuitBreaker := True\<rparr>)
         \<and> throttleKey (defaultOptions\<lparr>bypassCircuitBreaker := True\<rparr>) = None
       \<longrightarrow> liraxRequest (twoEndpoints (Rejected (httpError 400 ''Bad Request'')) (Resolved JNull))
          (exampleCredentials 3 None) [(''cmd'', JStr ''sendSMS'')]
          (defaultOptions\<lparr>bypassCircuitBreaker := True\<rparr>) idleWorld = (Rejected failure, w')"
    by blast
  have l: "liraxRequest (twoEndpoints (Rejected (httpError 400 ''Bad Request'')) (Resolved JNull))
          (exampleCredentials 3 None) [(''cmd'', JStr ''sendSMS'')]
          (defaultOptions\<lparr>bypassCircuitBreaker := True\<rparr>) idleWorld = (Rejected failure, w')"
    using r(3) by (simp add: defaultOptions_def)
  have u: "map url (httpRequestsOf (events w')) = [''https://a.example/general'']"
    and s: "sleepsOf (events w') = []"
    unfolding r(1)
    by (simp_all add: exampleCredentials_def buildRequest_def endpointUrl_def idleWorld_def)
  have m: "message failure = ''All failover attempts failed for operation '' @ [CHR 0x27]
                @ ''sendSMS'' @ [CHR 0x27]"
    unfolding r(2) by (simp add: operationOf_def getProp_def)
  from h l u s m show ?thesis
    by (intro conjI exI[of _ failure] exI[of _ w']) (simp_all add: exampleCredentials_def)
qed

text \<open>
  The claim as it was stated fails here: a single endpoint answers HTTP 400, the
  circuit breaker is bypassed, and the error the caller receives carries the failover
  message, which is not the handler's message for a request the vendor found invalid.
\<close>

theorem non_retryable_single_attempt_counterexample:
  "map_option message (rejectionOf (fst
      (liraxRequest (twoEndpoints (Rejected (httpError 400 ''Bad Request'')) (Resolved JNull))
         (exampleCredentials 3 None) [(''cmd'', JStr ''sendSMS'')]
         (defaultOptions\<lparr>bypassCircuitBreaker := True\<rparr>) idleWorld)))
     = Some (''All failover attempts failed for operation '' @ [CHR 0x27] @ ''sendSMS''
              @ [CHR 0x27])
   \<and> generateUserFriendlyMessage (httpError 400 ''Bad Request'') ''sendSMS'' (Some 400)
     = ''Operation '' @ [CHR 0x27] @ ''sendSMS'' @ [CHR 0x27]
        @ '' failed: Invalid parameters sent to LiraX. Check node inputs and validation.''
   \<and> map_option message (rejectionOf (fst
      (liraxRequest (twoEndpoints (Rejected (httpError 400 ''Bad Request'')) (Resolved JNull))
         (exampleCredentials 3 None) [(''cmd'', JStr ''sendSMS'')]
         (defaultOptions\<lparr>bypassCircuitBreaker := True\<rparr>) idleWorld)))
     \<noteq> Some (generateUserFriendlyMessage (httpError 400 ''Bad Request'') ''sendSMS'' (Some 400))"
  by (simp add: fixture_defs request_defs liraxRequest_def executeLiraxRequest_def
      handleFailoverError_def NodeApiError_def operationOf_def getProp_def
      generateUserFriendlyMessage_def)

section \<open>Properties: one breaker per registry key\<close>

lemma attemptOnce_breakers:
  "breakers (snd (attemptOnce env credentials payload options base w)) = breakers w"
  by (simp add: attemptOnce_def Let_def split: outcome.splits js_value.splits)

lemma attemptLoop_breakers:
  "breakers (snd (snd (attemptLoop env credentials payload options base M k allErrors w)))
     = breakers w"
proof (induction env credentials payload options base M k allErrors w
    rule: attemptLoop.induct)
  case (1 env credentials payload options base maxAttempts attempt allErrors w)
  show ?case
  proof (cases "attempt < maxAttempts")
    case False
    then show ?thesis by (subst attemptLoop.simps) simp
  next
    case True
    obtain res w1 where a: "attemptOnce env credentials payload options base w = (res, w1)"
      by (cases "attemptOnce env credentials payload options base w")
    have b1: "breakers w1 = breakers w"
      using attemptOnce_breakers[of env credentials payload options base w] a by simp
    show ?thesis
    proof (cases res)
      case (Inr resp)
      with True a b1 show ?thesis by (subst attemptLoop.simps) simp
    next
      case (Inl e)
      show ?thesis
      proof (cases "\<not> isRetryableError e \<or> int attempt = int maxAttempts - 1")
        case True
        with \<open>attempt < maxAttempts\<close> a b1 Inl show ?thesis
          by (subst attemptLoop.simps) auto
      next
        case False
        then have re: "isRetryableError e" and nl: "int attempt \<noteq> int maxAttempts - 1"
          by simp_all
        have ih: "breakers (snd (snd (attemptLoop env credentials payload options base
              maxAttempts (attempt + 1) (allErrors @ [e])
              (if calculateRetryDelay (mathRandom env w1) attempt credentials > 0
               then sleep (calculateRetryDelay (mathRandom env w1) attempt credentials) w1
               else w1))))
            = breakers (if calculateRetryDelay (mathRandom env w1) attempt credentials > 0
               then sleep (calculateRetryDelay (mathRandom env w1) attempt credentials) w1
               else w1)"
          using "1.IH"[OF True a[symmetric] Inl _ nl] re by simp
        have "breakers (if calculateRetryDelay (mathRandom env w1) attempt credentials > 0
               then sleep (calculateRetryDelay (mathRandom env w1) attempt credentials) w1
               else w1) = breakers w"
          using b1 by (simp add: sleep_def)
        with ih True a Inl re nl show ?thesis
          by (subst attemptLoop.simps) simp
      qed
    qed
  qed
qed

lemma endpointLoop_breakers:
  "breakers (snd (snd (endpointLoop env credentials payload options bases allErrors w)))
     = breakers w"
proof (induction bases arbitrary: allErrors w)
  case Nil
  show ?case by simp
next
  case (Cons base rest)
  obtain r errs w1 where
    a: "attemptLoop env credentials payload options base (maxAttemptsOf credentials) 0
          allErrors w = (r, errs, w1)"
    by (cases "attemptLoop env credentials payload options base (maxAttemptsOf credentials) 0
          allErrors w")
  have b1: "breakers w1 = breakers w"
    using attemptLoop_breakers[of env credentials payload options base
        "maxAttemptsOf credentials" 0 allErrors w] a by simp
  show ?case
    using a b1 Cons.IH[of errs w1] by (cases r) simp_all
qed

lemma executeRequestWithRetry_breakers:
  "breakers (snd (executeRequestWithRetry env credentials payload options w)) = breakers w"
proof -
  obtain r errs w1 where
    e: "endpointLoop env credentials payload options
          (filter validUrl (candidateUrls credentials)) [] w = (r, errs, w1)"
    by (cases "endpointLoop env credentials payload options
          (filter validUrl (candidateUrls credentials)) [] w")
  have "breakers w1 = breakers w"
    using endpointLoop_breakers[of env credentials payload options
        "filter validUrl (candidateUrls credentials)" "[]" w] e by simp
  with e show ?thesis
    by (cases r) (simp_all add: executeRequestWithRetry_def Let_def)
qed

lemma execute_world:
  "snd (snd (execute cb w op)) = w \<or> snd (snd (execute cb w op)) = snd (op w)"
  by (auto simp: execute_def Let_def split: prod.splits outcome.splits)

lemma getBreaker_other:
  "k \<noteq> key \<Longrightarrow> snd (getBreaker reg key) k = reg k"
  by (simp add: getBreaker_def split: option.splits)

lemma executeLiraxRequest_frame:
  assumes "breakerKey credentials \<noteq> k"
  shows "breakers (snd (executeLiraxRequest env credentials payload options w)) k = breakers w k"
proof (cases "bypassCircuitBreaker options")
  case True
  then show ?thesis
    by (simp add: executeLiraxRequest_def executeRequestWithRetry_breakers)
next
  case False
  obtain cb reg where g: "getBreaker (breakers w) (breakerKey credentials) = (cb, reg)"
    by (cases "getBreaker (breakers w) (breakerKey credentials)")
  have regk: "reg k = breakers w k"
    using getBreaker_other[of k "breakerKey credentials" "breakers w"] assms g by simp
  obtain r cb' w1 where
    x: "execute cb (w\<lparr>breakers := reg\<rparr>)
          (executeRequestWithRetry env credentials payload options) = (r, cb', w1)"
    by (cases "execute cb (w\<lparr>breakers := reg\<rparr>)
          (executeRequestWithRetry env credentials payload options)")
  have "breakers w1 = reg"
    using execute_world[of cb "w\<lparr>breakers := reg\<rparr>"
        "executeRequestWithRetry env credentials payload options"] x
      executeRequestWithRetry_breakers[of env credentials payload options "w\<lparr>breakers := reg\<rparr>"]
    by auto
  with regk assms False g x show ?thesis
    by (cases r) (simp_all add: executeLiraxRequest_def)
qed

lemma throttle_breakers:
  assumes "\<And>w0. breakers (snd (op w0)) k = breakers w0 k"
  shows "breakers (snd (throttle key op delayMs w)) k = breakers w k"
proof -
  let ?w1 = "(case snd (throttleEntryPlan (throttleMap w key) (clock w) delayMs) of
                  Some waitTime \<Rightarrow> sleep (real_of_int waitTime) w
                | None \<Rightarrow> w)"
  let ?w2 = "?w1\<lparr>promiseCount := promiseCount ?w1 + 1,
                  throttleMap := throttleRegister (throttleMap ?w1) key (clock ?w1)
                                   (promiseCount ?w1)\<rparr>"
  have b2: "breakers ?w2 k = breakers w k"
    by (simp add: sleep_def split: option.splits)
  obtain r w3 where o: "op ?w2 = (r, w3)" by (cases "op ?w2")
  have "breakers w3 k = breakers w k"
    using assms[of ?w2] o b2 by simp
  with o show ?thesis
    by (simp add: throttle_def Let_def)
qed

lemma liraxRequest_frame:
  assumes "breakerKey credentials \<noteq> k"
  shows "breakers (snd (liraxRequest env credentials payload options w)) k = breakers w k"
proof -
  have t: "breakers (snd (throttle key (executeLiraxRequest env credentials payload options)
             SMS_THROTTLE_DELAY_MS w)) k = breakers w k" for key
    by (rule throttle_breakers) (rule executeLiraxRequest_frame[OF assms])
  show ?thesis
    using t executeLiraxRequest_frame[OF assms]
    by (simp add: liraxRequest_def split: option.splits)
qed

lemma liraxRequests_frame:
  "list_all (\<lambda>c. breakerKey (fst c) \<noteq> k) calls \<Longrightarrow>
     breakers (snd (liraxRequests env calls w)) k = breakers w k"
proof (induction calls arbitrary: w)
  case Nil
  show ?case by simp
next
  case (Cons c calls)
  obtain credentials payload options where c: "c = (credentials, payload, options)"
    by (cases c)
  obtain r w1 where l: "liraxRequest env credentials payload options w = (r, w1)"
    by (cases "liraxRequest env credentials payload options w")
  have "breakers w1 k = breakers w k"
    using liraxRequest_frame[of credentials k env payload options w] Cons.prems c l by simp
  moreover have "breakers (snd (liraxRequests env calls w1)) k = breakers w1 k"
    using Cons.IH Cons.prems by simp
  ultimately show ?case
    using c l by (auto split: prod.splits)
qed

text \<open>
  C4 (as amended): the breaker of a request is the one registered under
  credentials.id, or under the fixed key 'default' when the credentials carry no id.
  Requests made with credentials of a different registry key never change the breaker
  registered under a key: whatever such requests do, and however many of them fail,
  the breaker that requests with the other credentials find is the one they left.
  Credentials with two distinct non-empty ids have different keys; credentials without
  an id all share the key 'default'.
\<close>

theorem breaker_isolation_by_key:
  "(list_all (\<lambda>c. breakerKey (fst c) \<noteq> breakerKey other) calls
      \<longrightarrow> breakers (snd (liraxRequests env calls w)) (breakerKey other)
          = breakers w (breakerKey other))
   \<and> (credId c1 = Some i \<and> credId c2 = Some j \<and> i \<noteq> [] \<and> j \<noteq> [] \<and> i \<noteq> j
      \<longrightarrow> breakerKey c1 \<noteq> breakerKey c2)
   \<and> (credId c1 = None \<and> credId c2 = None
      \<longrightarrow> breakerKey c1 = ''default'' \<and> breakerKey c2 = ''default'')"
  using liraxRequests_frame[of "breakerKey other" calls env w]
  by (simp add: breakerKey_def)

theorem breaker_isolation_by_key_witness:
  "list_all (\<lambda>c. breakerKey (fst c)
        \<noteq> breakerKey ((exampleCredentials 3 None)\<lparr>credId := Some ''tenant-b''\<rparr>))
     (replicate 5 ((exampleCredentials 3 None)\<lparr>credId := Some ''tenant-a''\<rparr>,
                   [(''cmd'', JStr ''getShops'')], defaultOptions))
   \<and> breakers (snd (liraxRequests
         (twoEndpoints (Rejected (httpError 400 ''Bad Request'')) (Resolved JNull))
         (replicate 5 ((exampleCredentials 3 None)\<lparr>credId := Some ''tenant-a''\<rparr>,
                       [(''cmd'', JStr ''getShops'')], defaultOptions))
         idleWorld)) ''tenant-b'' = None
   \<and> breakerKey ((exampleCredentials 3 None)\<lparr>credId := Some ''tenant-a''\<rparr>)
       \<noteq> breakerKey ((exampleCredentials 3 None)\<lparr>credId := Some ''tenant-b''\<rparr>)
   \<and> breakerKey (exampleCredentials 3 None) = ''default''"
  using breaker_isolation_by_key
    [of "(exampleCredentials 3 None)\<lparr>credId := Some ''tenant-b''\<rparr>"
        "replicate 5 ((exampleCredentials 3 None)\<lparr>credId := Some ''tenant-a''\<rparr>,
                      [(''cmd'', JStr ''getShops'')], defaultOptions)"
        "twoEndpoints (Rejected (httpError 400 ''Bad Request'')) (Resolved JNull)"
        idleWorld
        "(exampleCredentials 3 None)\<lparr>credId := Some ''tenant-a''\<rparr>" "''tenant-a''"
        "(exampleCredentials 3 None)\<lparr>credId := Some ''tenant-b''\<rparr>" "''tenant-b''"]
  by (simp add: breakerKey_def exampleCredentials_def idleWorld_def list_all_iff)

text \<open>
  The claim as it was stated fails for two different credential records that carry no
  id, which is every record of the declared credentials type: both use the breaker
  registered under 'default'. The second record reaches a healthy endpoint when it is
  used alone; after five failed calls with the first record the shared breaker is open,
  and the call with the second record is rejected without any HTTP request.
\<close>

theorem breaker_isolation_counterexample:
  "(let credA = exampleCredentials 3 None;
        credB = (exampleCredentials 3 None)
                  \<lparr>baseUrl := ''https://b.example'', token := ''zzz999''\<rparr>;
        env = twoEndpoints (Rejected (httpError 400 ''Bad Request''))
                (Resolved (JObj [(''result'', JStr ''ok'')]));
        payload = [(''cmd'', JStr ''getShops'')];
        w5 = snd (liraxRequests env
               [(credA, payload, defaultOptions), (credA, payload, defaultOptions),
                (credA, payload, defaultOptions), (credA, payload, defaultOptions),
                (credA, payload, defaultOptions)] idleWorld)
    in credA \<noteq> credB \<and> breakerKey credA = breakerKey credB
     \<and> isResolved (fst (liraxRequest env credB payload defaultOptions idleWorld))
     \<and> map_option state (breakers w5 ''default'') = Some OPEN
     \<and> isRejected (fst (liraxRequest env credB payload defaultOptions w5))
     \<and> events (snd (liraxRequest env credB payload defaultOptions w5)) = events w5)"
  by (simp add: fixture_defs request_defs liraxRequest_def executeLiraxRequest_def
      breakerKey_def getBreaker_def execute_def onFailure_def onSuccess_def
      CircuitBreaker_default_def CircuitBreaker_new_def CIRCUIT_BREAKER_RESET_TIMEOUT_MS_def)

section \<open>Properties: the node's SMS operations and the throttle\<close>

text \<open>
  C5 (what the code does instead): the node's sendSMS and checkSMS cases call the node
  file's own throttledSMSRequest, which drops the provider and the extension and calls
  liraxRequest with the node's options, and these have no throttle key: the request
  goes straight to executeLiraxRequest. Two sendSMS operations for the same provider
  and extension, one right after the other, issue their two HTTP requests 100 ms
  apart, with no timer in between and no entry under sms:gsm1:101 in the throttle map.
  The exported throttledSMSRequest of the shared utilities, given the same two
  requests, sleeps 4900 ms before the second and starts it at 5000 ms.
\<close>

theorem node_sms_not_throttled:
  "throttleKey (asRequestOptions options) = None
   \<and> nodeThrottledSMSRequest env credentials payload provider ext options w
       = executeLiraxRequest env credentials payload (asRequestOptions options) w
   \<and> (let vendor = twoEndpoints (Resolved (JObj [(''id_sms'', JNum 1)])) (Resolved JNull);
          send = executeMessagingOperation vendor
                   (SendSMS ''101'' ''gsm1'' ''+38 (050) 123-45-67'' ''hello'')
                   (exampleCredentials 3 None) nodeDefaultOptions;
          w1 = snd (send idleWorld);
          w2 = snd (send w1)
      in isResolved (fst (send idleWorld)) \<and> isResolved (fst (send w1))
       \<and> length (httpRequestsOf (events w2)) = 2
       \<and> sleepsOf (events w2) = []
       \<and> clock w1 = 100 \<and> clock w2 = 200
       \<and> throttleMap w2 (createSMSThrottleKey ''gsm1'' ''101'') = None)
   \<and> (let vendor = twoEndpoints (Resolved (JObj [(''id_sms'', JNum 1)])) (Resolved JNull);
          send = throttledSMSRequest vendor (exampleCredentials 3 None)
                   [(''cmd'', JStr ''sendSMS''), (''ext'', JStr ''101''),
                    (''provider'', JStr ''gsm1''), (''phone'', JStr ''380501234567''),
                    (''text'', JStr ''hello'')]
                   ''gsm1'' ''101'' defaultOptions;
          v1 = snd (send idleWorld);
          v2 = snd (send v1)
      in sleepsOf (events v2) = [4900]
       \<and> map_option lastRequestTime (throttleMap v2 (createSMSThrottleKey ''gsm1'' ''101''))
           = Some 5000)"
proof -
  have a: "throttleKey (asRequestOptions options) = None
   \<and> nodeThrottledSMSRequest env credentials payload provider ext options w
       = executeLiraxRequest env credentials payload (asRequestOptions options) w"
    by (simp add: asRequestOptions_def nodeThrottledSMSRequest_def liraxRequest_def)
  have b: "(let vendor = twoEndpoints (Resolved (JObj [(''id_sms'', JNum 1)])) (Resolved JNull);
          send = executeMessagingOperation vendor
                   (SendSMS ''101'' ''gsm1'' ''+38 (050) 123-45-67'' ''hello'')
                   (exampleCredentials 3 None) nodeDefaultOptions;
          w1 = snd (send idleWorld);
          w2 = snd (send w1)
      in isResolved (fst (send idleWorld)) \<and> isResolved (fst (send w1))
       \<and> length (httpRequestsOf (events w2)) = 2
       \<and> sleepsOf (events w2) = []
       \<and> clock w1 = 100 \<and> clock w2 = 200
       \<and> throttleMap w2 (createSMSThrottleKey ''gsm1'' ''101'') = None)"
    by (simp add: fixture_defs schema_defs request_defs liraxRequest_def
        executeLiraxRequest_def
        nodeThrottledSMSRequest_def asRequestOptions_def nodeDefaultOptions_def
        breakerKey_def getBreaker_def execute_def onFailure_def onSuccess_def
        CircuitBreaker_default_def CircuitBreaker_new_def isDigit_def
        CIRCUIT_BREAKER_RESET_TIMEOUT_MS_def)
  have c: "(let vendor = twoEndpoints (Resolved (JObj [(''id_sms'', JNum 1)])) (Resolved JNull);
          send = throttledSMSRequest vendor (exampleCredentials 3 None)
                   [(''cmd'', JStr ''sendSMS''), (''ext'', JStr ''101''),
                    (''provider'', JStr ''gsm1''), (''phone'', JStr ''380501234567''),
                    (''text'', JStr ''hello'')]
                   ''gsm1'' ''101'' defaultOptions;
          v1 = snd (send idleWorld);
          v2 = snd (send v1)
      in sleepsOf (events v2) = [4900]
       \<and> map_option lastRequestTime (throttleMap v2 (createSMSThrottleKey ''gsm1'' ''101''))
           = Some 5000)"
    by (simp add: fixture_defs request_defs liraxRequest_def executeLiraxRequest_def
        throttledSMSRequest_def createSMSThrottleKey_def throttle_def throttleEntryPlan_def
        throttleRegister_def throttleRelease_def SMS_THROTTLE_DELAY_MS_def
        breakerKey_def getBreaker_def execute_def onFailure_def onSuccess_def
        CircuitBreaker_default_def CircuitBreaker_new_def
        CIRCUIT_BREAKER_RESET_TIMEOUT_MS_def)
  from a b c show ?thesis by (intro conjI) (simp_all only:)
qed

text \<open>
  C8 (what the code does instead): a call that finds nothing pending under its key
  registers itself only when its timer has fired, so a second call that enters while
  the first is still waiting sees the same map entry and is not held back by the
  first. With the entry of an operation that was started at time 0 and has ended, a
  minimum interval of 5000 ms and operations of 300 ms, calls entering at 1000 and at
  2000 both start their operation at 5000: the two execution windows coincide, and the
  second starts 0 ms after the first. On a key with no entry the same two calls are
  serialized (the second starts at 5300); calls under a key are not delayed by the
  entries of another key.
\<close>

theorem throttle_concurrent_calls_overlap:
  "twoThrottledCalls
      (Map.empty(''sms:gsm1:101'' \<mapsto> \<lparr>lastRequestTime = 0, pending = None\<rparr>))
      ''sms:gsm1:101'' SMS_THROTTLE_DELAY_MS 1000 300 2000 300
     = (5000, 5300, 5000, 5300)
   \<and> twoThrottledCalls Map.empty ''sms:gsm1:101'' SMS_THROTTLE_DELAY_MS 1000 300 1100 300
     = (1000, 1300, 6200, 6500)
   \<and> twoThrottledCalls
      (Map.empty(''sms:gsm2:102'' \<mapsto> \<lparr>lastRequestTime = 900, pending = Some 7\<rparr>))
      ''sms:gsm1:101'' SMS_THROTTLE_DELAY_MS 1000 300 1100 300
     = (1000, 1300, 6200, 6500)"
  by (simp add: twoThrottledCalls_def throttleStartTime_def throttleEntryPlan_def
      throttleRegister_def throttleRelease_def SMS_THROTTLE_DELAY_MS_def Let_def)

section \<open>Properties: idempotent replay\<close>

lemma makeKey_inj: "makeKey p a = makeKey p b \<longleftrightarrow> a = b"
  by (simp add: makeKey_def)

lemma get_keyPrefix [simp]: "keyPrefix (snd (MemoryCacheProvider_get p c now)) = keyPrefix p"
  by (simp add: MemoryCacheProvider_get_def split: option.splits)

lemma set_keyPrefix [simp]: "keyPrefix (MemoryCacheProvider_set p c v t now) = keyPrefix p"
  by (simp add: MemoryCacheProvider_set_def Let_def)

lemma makeKey_cong: "keyPrefix p' = keyPrefix p \<Longrightarrow> makeKey p' a = makeKey p a"
  by (simp add: makeKey_def)

text \<open>An entry that has not expired survives a lookup of any key.\<close>
lemma get_keeps_live:
  assumes "cache p (makeKey p a) = Some en" and "now \<le> expires en"
  shows "cache (snd (MemoryCacheProvider_get p c now)) (makeKey p a) = Some en"
  using assms
  by (auto simp: MemoryCacheProvider_get_def makeKey_inj split: option.splits)

lemma get_live:
  assumes "cache p (makeKey p a) = Some en" and "now \<le> expires en"
  shows "fst (MemoryCacheProvider_get p a now) = entryData en"
  using assms by (simp add: MemoryCacheProvider_get_def)

lemma set_entry:
  "cache (MemoryCacheProvider_set p a v (Some t) now) (makeKey p a)
     = Some \<lparr>entryData = v, expires = (if t > 0 then now + t * 1000 else MAX_SAFE_INTEGER)\<rparr>"
  by (simp add: MemoryCacheProvider_set_def Let_def)

lemma idempotency_hit:
  assumes k: "opIdempotencyKey options = Some k" "k \<noteq> []"
    and en: "cache p (makeKey p (idempotencyStoreKey k)) = Some en"
    and live: "clock w \<le> expires en" and tr: "truthy (entryData en)"
  shows "\<exists>v p'. executeOperationOn env p credentials opName params options w = (Resolved v, p', w)
     \<and> cache p' (makeKey p (idempotencyStoreKey k)) = Some en
     \<and> keyPrefix p' = keyPrefix p
     \<and> v = (if truthy (readCacheAnswer p options w)
              then tagFromCache (readCacheAnswer p options w)
              else tagIdempotencyHit (entryData en))"
proof (cases "opUseCache options \<and> truthyKey (opCacheKey options)")
  case False
  have g: "MemoryCacheProvider_get p (idempotencyStoreKey k) (clock w)
      = (entryData en, p\<lparr>hits := hits p + 1\<rparr>)"
    using en live by (simp add: MemoryCacheProvider_get_def)
  show ?thesis
    using False k g tr en
    by (auto simp add: executeOperationOn_def readCacheAnswer_def Let_def truthyKey_def
        keyOf_def)
next
  case True
  let ?l1 = "MemoryCacheProvider_get p (keyOf (opCacheKey options)) (clock w)"
  have keep: "cache (snd ?l1) (makeKey p (idempotencyStoreKey k)) = Some en"
    using get_keeps_live[OF en live] .
  have kp: "keyPrefix (snd ?l1) = keyPrefix p" by simp
  show ?thesis
  proof (cases "truthy (fst ?l1)")
    case True
    with \<open>opUseCache options \<and> truthyKey (opCacheKey options)\<close> keep kp show ?thesis
      by (simp add: executeOperationOn_def readCacheAnswer_def Let_def)
  next
    case False
    have en1: "cache (snd ?l1) (makeKey (snd ?l1) (idempotencyStoreKey k)) = Some en"
      using keep makeKey_cong[OF kp] by simp
    have g: "MemoryCacheProvider_get (snd ?l1) (idempotencyStoreKey k) (clock w)
      = (entryData en, (snd ?l1)\<lparr>hits := hits (snd ?l1) + 1\<rparr>)"
      using en1 live by (simp add: MemoryCacheProvider_get_def)
    show ?thesis
      using False \<open>opUseCache options \<and> truthyKey (opCacheKey options)\<close> k g tr keep kp
      by (simp add: executeOperationOn_def readCacheAnswer_def Let_def truthyKey_def
          keyOf_def)
  qed
qed


lemma idempotency_store:
  assumes k: "opIdempotencyKey options = Some k" "k \<noteq> []"
    and r: "executeOperationOn env p credentials opName params options w = (Resolved r, p', w')"
    and ev: "events w' \<noteq> events w"
  shows "cache p' (makeKey p (idempotencyStoreKey k))
      = Some \<lparr>entryData = r,
              expires = (if opIdempotencyTTL options > 0
                         then clock w' + opIdempotencyTTL options * 1000
                         else MAX_SAFE_INTEGER)\<rparr>
     \<and> keyPrefix p' = keyPrefix p"
proof -
  define rc where "rc = (opUseCache options \<and> truthyKey (opCacheKey options))"
  define l1 where "l1 = (if rc
                     then MemoryCacheProvider_get p (keyOf (opCacheKey options)) (clock w)
                     else (JNull, p))"
  define l2 where "l2 = MemoryCacheProvider_get (snd l1) (idempotencyStoreKey k) (clock w)"
  have idem: "truthyKey (opIdempotencyKey options)" "keyOf (opIdempotencyKey options) = k"
    using k by (simp_all add: truthyKey_def keyOf_def)
  have kp1: "keyPrefix (snd l1) = keyPrefix p" by (simp add: l1_def)
  have kp2: "keyPrefix (snd l2) = keyPrefix p" by (simp add: l2_def kp1)
  have unfold: "executeOperationOn env p credentials opName params options w =
     (if rc \<and> truthy (fst l1) then (Resolved (tagFromCache (fst l1)), snd l1, w)
      else if truthy (fst l2) then (Resolved (tagIdempotencyHit (fst l2)), snd l2, w)
      else case schemaParse env opName params of
             Inl e \<Rightarrow> (Rejected e, snd l2, w)
           | Inr validatedParams \<Rightarrow>
               (case liraxRequest env credentials
                       (setProp ''cmd'' (JStr opName) validatedParams) defaultOptions w of
                  (Rejected e, w1) \<Rightarrow> (Rejected e, snd l2, w1)
                | (Resolved result, w1) \<Rightarrow>
                    (Resolved result,
                     MemoryCacheProvider_set
                       (if rc then MemoryCacheProvider_set (snd l2)
                                     (keyOf (opCacheKey options)) result
                                     (Some (opCacheTTL options)) (clock w1)
                        else snd l2)
                       (idempotencyStoreKey k) result (Some (opIdempotencyTTL options)) (clock w1),
                     w1)))"
    unfolding executeOperationOn_def Let_def rc_def[symmetric] l1_def[symmetric]
    by (simp only: idem l2_def[symmetric] if_True simp_thms)
  have n1: "\<not> (rc \<and> truthy (fst l1))" using r ev unfolding unfold by auto
  have n2: "\<not> truthy (fst l2)" using r ev n1 unfolding unfold by auto
  obtain v where v: "schemaParse env opName params = Inr v"
    using r n1 n2 unfolding unfold by (cases "schemaParse env opName params") auto
  obtain res w1 where l: "liraxRequest env credentials
                       (setProp ''cmd'' (JStr opName) v) defaultOptions w = (res, w1)"
    by (cases "liraxRequest env credentials (setProp ''cmd'' (JStr opName) v) defaultOptions w")
  have res: "res = Resolved r" and w1: "w1 = w'"
    and p': "p' = MemoryCacheProvider_set
                       (if rc then MemoryCacheProvider_set (snd l2)
                                     (keyOf (opCacheKey options)) r
                                     (Some (opCacheTTL options)) (clock w')
                        else snd l2)
                       (idempotencyStoreKey k) r (Some (opIdempotencyTTL options)) (clock w')"
    using r n1 n2 v l unfolding unfold by (cases res; simp)+
  let ?p3 = "(if rc then MemoryCacheProvider_set (snd l2)
                                     (keyOf (opCacheKey options)) r
                                     (Some (opCacheTTL options)) (clock w')
                        else snd l2)"
  have kp3: "keyPrefix ?p3 = keyPrefix p" using kp2 by simp
  have "cache p' (makeKey ?p3 (idempotencyStoreKey k))
      = Some \<lparr>entryData = r,
              expires = (if opIdempotencyTTL options > 0
                         then clock w' + opIdempotencyTTL options * 1000
                         else MAX_SAFE_INTEGER)\<rparr>"
    unfolding p' by (rule set_entry)
  moreover have "makeKey ?p3 (idempotencyStoreKey k) = makeKey p (idempotencyStoreKey k)"
    using kp3 by (rule makeKey_cong)
  moreover have "keyPrefix p' = keyPrefix p" unfolding p' using kp3 by simp
  ultimately show ?thesis by simp
qed


lemma later_calls_served:
  assumes "cache p (makeKey p (idempotencyStoreKey k)) = Some en"
    and "truthy (entryData en)" and "k \<noteq> []"
    and "list_all (\<lambda>c. opIdempotencyKey (fst (snd (snd c))) = Some k
                      \<and> clock (snd (snd (snd c))) \<le> expires en) calls"
  shows "list_all2 (servedFromStore (entryData en)) calls
           (fst (executeOperationsOn env p credentials calls))"
  using assms
proof (induction calls arbitrary: p)
  case Nil
  show ?case by simp
next
  case (Cons c calls)
  obtain opName params options w where c: "c = (opName, params, options, w)"
    by (cases c)
  from Cons.prems(4) c have ck: "opIdempotencyKey options = Some k"
    and live: "clock w \<le> expires en"
    and rest: "list_all (\<lambda>c. opIdempotencyKey (fst (snd (snd c))) = Some k
                      \<and> clock (snd (snd (snd c))) \<le> expires en) calls"
    by simp_all
  from idempotency_hit[OF ck Cons.prems(3) Cons.prems(1) live Cons.prems(2),
      of env credentials opName params]
  obtain v p' where
    x: "executeOperationOn env p credentials opName params options w = (Resolved v, p', w)"
    and keep: "cache p' (makeKey p (idempotencyStoreKey k)) = Some en"
    and kp: "keyPrefix p' = keyPrefix p"
    and tag: "v = (if truthy (readCacheAnswer p options w)
              then tagFromCache (readCacheAnswer p options w)
              else tagIdempotencyHit (entryData en))"
    by blast
  have keep': "cache p' (makeKey p' (idempotencyStoreKey k)) = Some en"
    using keep makeKey_cong[OF kp] by simp
  have ih: "list_all2 (servedFromStore (entryData en)) calls
           (fst (executeOperationsOn env p' credentials calls))"
    using Cons.IH[OF keep' Cons.prems(2,3) rest] .
  have here: "servedFromStore (entryData en) c (p, Resolved v, w)"
    using tag c by (simp add: servedFromStore_def)
  obtain rs p2 where e: "executeOperationsOn env p' credentials calls = (rs, p2)"
    by (cases "executeOperationsOn env p' credentials calls")
  show ?case
    using c x e ih here by simp
qed

text \<open>
  C2 (as amended): when a call of executeOperation with an idempotency key has performed
  its request and resolved with a truthy result, every later call on the same instance
  that supplies the same key within the idempotency TTL (86400 s by default), counted
  from the end of that call, performs no network request: it leaves the world
  untouched and resolves with the stored result tagged fromCache and idempotencyHit.
  The one exception is a later call that has useCache and a cacheKey under which the
  read cache holds a truthy entry that has not expired: the read cache is consulted
  first, and the call resolves with that entry tagged fromCache only. The lookup and
  the store under the idempotency key do not depend on useCache.
\<close>

theorem idempotent_replay:
  "opIdempotencyKey options0 = Some k \<and> k \<noteq> []
   \<and> executeOperationOn env p credentials opName0 params0 options0 w0 = (Resolved r, p1, w1)
   \<and> events w1 \<noteq> events w0 \<and> truthy r
   \<and> list_all (\<lambda>c. opIdempotencyKey (fst (snd (snd c))) = Some k
                  \<and> clock (snd (snd (snd c)))
                       \<le> (if opIdempotencyTTL options0 > 0
                           then clock w1 + opIdempotencyTTL options0 * 1000
                           else MAX_SAFE_INTEGER)) calls
   \<longrightarrow> list_all2 (servedFromStore r) calls
         (fst (executeOperationsOn env p1 credentials calls))"
proof (intro impI, elim conjE)
  assume k: "opIdempotencyKey options0 = Some k" "k \<noteq> []"
    and x: "executeOperationOn env p credentials opName0 params0 options0 w0 = (Resolved r, p1, w1)"
    and ev: "events w1 \<noteq> events w0" and tr: "truthy r"
    and calls: "list_all (\<lambda>c. opIdempotencyKey (fst (snd (snd c))) = Some k
                  \<and> clock (snd (snd (snd c)))
                       \<le> (if opIdempotencyTTL options0 > 0
                           then clock w1 + opIdempotencyTTL options0 * 1000
                           else MAX_SAFE_INTEGER)) calls"
  let ?en = "\<lparr>entryData = r,
              expires = (if opIdempotencyTTL options0 > 0
                         then clock w1 + opIdempotencyTTL options0 * 1000
                         else MAX_SAFE_INTEGER)\<rparr>"
  from idempotency_store[OF k x ev]
  have st: "cache p1 (makeKey p (idempotencyStoreKey k)) = Some ?en"
    and kp: "keyPrefix p1 = keyPrefix p" by simp_all
  have st': "cache p1 (makeKey p1 (idempotencyStoreKey k)) = Some ?en"
    using st makeKey_cong[OF kp] by simp
  have "list_all2 (servedFromStore (entryData ?en)) calls
         (fst (executeOperationsOn env p1 credentials calls))"
    by (rule later_calls_served[OF st' _ k(2)]) (use tr calls in simp_all)
  then show "list_all2 (servedFromStore r) calls
         (fst (executeOperationsOn env p1 credentials calls))" by simp
qed

lemmas breaker_defs = liraxRequest_def executeLiraxRequest_def
  breakerKey_def getBreaker_def execute_def onFailure_def onSuccess_def
  CircuitBreaker_default_def CircuitBreaker_new_def CIRCUIT_BREAKER_RESET_TIMEOUT_MS_def

lemmas cache_defs = executeOperationOn_def MemoryCacheProvider_get_def
  MemoryCacheProvider_set_def MemoryCacheProvider_new_def makeKey_def idempotencyStoreKey_def
  truthyKey_def keyOf_def operationDefaults_def noCacheOptions_def MAX_SAFE_INTEGER_def

theorem idempotent_replay_witness:
  "opIdempotencyKey (operationDefaults\<lparr>opIdempotencyKey := Some ''k1''\<rparr>) = Some ''k1''
   \<and> opUseCache (operationDefaults\<lparr>opIdempotencyKey := Some ''k1''\<rparr>) = False
   \<and> opIdempotencyTTL operationDefaults = 86400
   \<and> fst (executeOperationOn
          (twoEndpoints (Resolved (JObj [(''call_id'', JStr ''c-1'')])) (Resolved JNull))
          (MemoryCacheProvider_new noCacheOptions) (exampleCredentials 3 None)
          ''makeCall''
          [(''cmd'', JStr ''makeCall''), (''from'', JStr ''101''), (''to'', JStr ''380501234567'')]
          (operationDefaults\<lparr>opIdempotencyKey := Some ''k1''\<rparr>) idleWorld)
       = Resolved (JObj [(''call_id'', JStr ''c-1'')])
   \<and> length (httpRequestsOf (events (snd (snd (executeOperationOn
          (twoEndpoints (Resolved (JObj [(''call_id'', JStr ''c-1'')])) (Resolved JNull))
          (MemoryCacheProvider_new noCacheOptions) (exampleCredentials 3 None)
          ''makeCall''
          [(''cmd'', JStr ''makeCall''), (''from'', JStr ''101''), (''to'', JStr ''380501234567'')]
          (operationDefaults\<lparr>opIdempotencyKey := Some ''k1''\<rparr>) idleWorld))))) = 1
   \<and> list_all2 (servedFromStore (JObj [(''call_id'', JStr ''c-1'')]))
        [(''makeCall'',
          [(''cmd'', JStr ''makeCall''), (''from'', JStr ''101''), (''to'', JStr ''380501234567'')],
          operationDefaults\<lparr>opIdempotencyKey := Some ''k1''\<rparr>, idleWorld\<lparr>clock := 5000\<rparr>),
         (''makeCall'',
          [(''cmd'', JStr ''makeCall''), (''from'', JStr ''101''), (''to'', JStr ''380501234567'')],
          operationDefaults\<lparr>opIdempotencyKey := Some ''k1'', opUseCache := True,
                              opCacheKey := Some ''call:101''\<rparr>,
          idleWorld\<lparr>clock := 86400000\<rparr>)]
        (fst (executeOperationsOn
          (twoEndpoints (Resolved (JObj [(''call_id'', JStr ''c-1'')])) (Resolved JNull))
          (fst (snd (executeOperationOn
            (twoEndpoints (Resolved (JObj [(''call_id'', JStr ''c-1'')])) (Resolved JNull))
            (MemoryCacheProvider_new noCacheOptions) (exampleCredentials 3 None)
            ''makeCall''
            [(''cmd'', JStr ''makeCall''), (''from'', JStr ''101''),
             (''to'', JStr ''380501234567'')]
            (operationDefaults\<lparr>opIdempotencyKey := Some ''k1''\<rparr>) idleWorld)))
          (exampleCredentials 3 None)
          [(''makeCall'',
            [(''cmd'', JStr ''makeCall''), (''from'', JStr ''101''),
             (''to'', JStr ''380501234567'')],
            operationDefaults\<lparr>opIdempotencyKey := Some ''k1''\<rparr>, idleWorld\<lparr>clock := 5000\<rparr>),
           (''makeCall'',
            [(''cmd'', JStr ''makeCall''), (''from'', JStr ''101''),
             (''to'', JStr ''380501234567'')],
            operationDefaults\<lparr>opIdempotencyKey := Some ''k1'', opUseCache := True,
                                opCacheKey := Some ''call:101''\<rparr>,
            idleWorld\<lparr>clock := 86400000\<rparr>)]))
   \<and> map (\<lambda>run. (fst (snd run), events (snd (snd run))))
        (fst (executeOperationsOn
          (twoEndpoints (Resolved (JObj [(''call_id'', JStr ''c-1'')])) (Resolved JNull))
          (fst (snd (executeOperationOn
            (twoEndpoints (Resolved (JObj [(''call_id'', JStr ''c-1'')])) (Resolved JNull))
            (MemoryCacheProvider_new noCacheOptions) (exampleCredentials 3 None)
            ''makeCall''
            [(''cmd'', JStr ''makeCall''), (''from'', JStr ''101''),
             (''to'', JStr ''380501234567'')]
            (operationDefaults\<lparr>opIdempotencyKey := Some ''k1''\<rparr>) idleWorld)))
          (exampleCredentials 3 None)
          [(''makeCall'',
            [(''cmd'', JStr ''makeCall''), (''from'', JStr ''101''),
             (''to'', JStr ''380501234567'')],
            operationDefaults\<lparr>opIdempotencyKey := Some ''k1''\<rparr>, idleWorld\<lparr>clock := 5000\<rparr>),
           (''makeCall'',
            [(''cmd'', JStr ''makeCall''), (''from'', JStr ''101''),
             (''to'', JStr ''380501234567'')],
            operationDefaults\<lparr>opIdempotencyKey := Some ''k1'', opUseCache := True,
                                opCacheKey := Some ''call:101''\<rparr>,
            idleWorld\<lparr>clock := 86400000\<rparr>)]))
       = [(Resolved (JObj [(''call_id'', JStr ''c-1''),
                           (''_meta'', JObj [(''fromCache'', JBool True),
                                             (''idempotencyHit'', JBool True)])]), []),
          (Resolved (JObj [(''call_id'', JStr ''c-1''),
                           (''_meta'', JObj [(''fromCache'', JBool True),
                                             (''idempotencyHit'', JBool True)])]), [])]"
proof -
  let ?env = "twoEndpoints (Resolved (JObj [(''call_id'', JStr ''c-1'')])) (Resolved JNull)"
  let ?params = "[(''cmd'', JStr ''makeCall''), (''from'', JStr ''101''),
                  (''to'', JStr ''380501234567'')]"
  let ?opts = "operationDefaults\<lparr>opIdempotencyKey := Some ''k1''\<rparr>"
  let ?opts' = "operationDefaults\<lparr>opIdempotencyKey := Some ''k1'', opUseCache := True,
                                  opCacheKey := Some ''call:101''\<rparr>"
  let ?X = "executeOperationOn ?env (MemoryCacheProvider_new noCacheOptions)
              (exampleCredentials 3 None) ''makeCall'' ?params ?opts idleWorld"
  let ?calls = "[(''makeCall'', ?params, ?opts, idleWorld\<lparr>clock := 5000\<rparr>),
                 (''makeCall'', ?params, ?opts', idleWorld\<lparr>clock := 86400000\<rparr>)]"
  have fx: "fst ?X = Resolved (JObj [(''call_id'', JStr ''c-1'')])"
    by (simp add: fixture_defs schema_defs request_defs breaker_defs cache_defs)
  have n: "length (httpRequestsOf (events (snd (snd ?X)))) = 1"
    by (simp add: fixture_defs schema_defs request_defs breaker_defs cache_defs)
  have ck: "clock (snd (snd ?X)) = 100"
    by (simp add: fixture_defs schema_defs request_defs breaker_defs cache_defs)
  have ev: "events (snd (snd ?X)) \<noteq> events idleWorld"
    using n by (auto simp: idleWorld_def)
  have xeq: "?X = (Resolved (JObj [(''call_id'', JStr ''c-1'')]), fst (snd ?X), snd (snd ?X))"
    using fx by (simp add: prod_eq_iff)
  have o: "opIdempotencyKey ?opts = Some ''k1''" "opUseCache ?opts = False"
    "opIdempotencyTTL operationDefaults = 86400" "opIdempotencyTTL ?opts = 86400"
    "opIdempotencyKey ?opts' = Some ''k1''"
    by (simp_all add: operationDefaults_def)
  have later: "list_all (\<lambda>c. opIdempotencyKey (fst (snd (snd c))) = Some ''k1''
                  \<and> clock (snd (snd (snd c)))
                       \<le> (if opIdempotencyTTL ?opts > 0
                           then clock (snd (snd ?X)) + opIdempotencyTTL ?opts * 1000
                           else MAX_SAFE_INTEGER)) ?calls"
    unfolding ck o(4) by (simp add: operationDefaults_def idleWorld_def)
  have served: "list_all2 (servedFromStore (JObj [(''call_id'', JStr ''c-1'')])) ?calls
         (fst (executeOperationsOn ?env (fst (snd ?X)) (exampleCredentials 3 None) ?calls))"
    using idempotent_replay[rule_format, of ?opts "''k1''" ?env
        "MemoryCacheProvider_new noCacheOptions" "exampleCredentials 3 None" "''makeCall''"
        ?params idleWorld "JObj [(''call_id'', JStr ''c-1'')]" "fst (snd ?X)" "snd (snd ?X)"
        ?calls]
      o(1) xeq ev later
    by simp
  have p1: "fst (snd ?X)
      = \<lparr>cache = Map.empty(''lirax:idempotency:k1''
                    \<mapsto> \<lparr>entryData = JObj [(''call_id'', JStr ''c-1'')],
                         expires = 86400100\<rparr>),
         hits = 0, misses = 1, defaultTTL = 3600, keyPrefix = ''lirax''\<rparr>"
    by (simp add: fixture_defs schema_defs request_defs breaker_defs cache_defs)
  have runs: "map (\<lambda>run. (fst (snd run), events (snd (snd run))))
        (fst (executeOperationsOn ?env (fst (snd ?X)) (exampleCredentials 3 None) ?calls))
       = [(Resolved (JObj [(''call_id'', JStr ''c-1''),
                           (''_meta'', JObj [(''fromCache'', JBool True),
                                             (''idempotencyHit'', JBool True)])]), []),
          (Resolved (JObj [(''call_id'', JStr ''c-1''),
                           (''_meta'', JObj [(''fromCache'', JBool True),
                                             (''idempotencyHit'', JBool True)])]), [])]"
    unfolding p1
    by (simp add: cache_defs idleWorld_def tagIdempotencyHit_def)
  from fx n o served runs show ?thesis by simp
qed

text \<open>
  The claim as it was stated fails when the first call fails: nothing is stored for a
  failed call, so the second call with the same key, made at once, performs a network
  request of its own and returns the vendor's answer untagged. It also fails for a
  second call that the read cache answers: after a first call with the idempotency
  key, useCache and a cacheKey, the same call again resolves with the entry of the
  read cache, which carries the tag fromCache and no tag idempotencyHit.
\<close>

theorem idempotent_replay_counterexample:
  "(let vendor = failsOnceVendor (JObj [(''call_id'', JStr ''c-1'')]);
        params = [(''cmd'', JStr ''makeCall''), (''from'', JStr ''101''),
                  (''to'', JStr ''380501234567'')];
        options = operationDefaults\<lparr>opIdempotencyKey := Some ''k1''\<rparr>;
        first = executeOperationOn vendor (MemoryCacheProvider_new noCacheOptions)
                  (exampleCredentials 3 None) ''makeCall'' params options idleWorld;
        second = executeOperationOn vendor (fst (snd first))
                  (exampleCredentials 3 None) ''makeCall'' params options (snd (snd first))
    in isRejected (fst first)
     \<and> length (httpRequestsOf (events (snd (snd first)))) = 1
     \<and> clock (snd (snd first)) \<le> 86400 * 1000
     \<and> fst second = Resolved (JObj [(''call_id'', JStr ''c-1'')])
     \<and> length (httpRequestsOf (events (snd (snd second)))) = 2)
   \<and> (let vendor = twoEndpoints (Resolved (JObj [(''call_id'', JStr ''c-1'')])) (Resolved JNull);
          params = [(''cmd'', JStr ''makeCall''), (''from'', JStr ''101''),
                    (''to'', JStr ''380501234567'')];
          options = operationDefaults\<lparr>opIdempotencyKey := Some ''k1'', opUseCache := True,
                                       opCacheKey := Some ''call:101''\<rparr>;
          first = executeOperationOn vendor (MemoryCacheProvider_new noCacheOptions)
                    (exampleCredentials 3 None) ''makeCall'' params options idleWorld;
          second = executeOperationOn vendor (fst (snd first))
                    (exampleCredentials 3 None) ''makeCall'' params options (snd (snd first))
      in fst first = Resolved (JObj [(''call_id'', JStr ''c-1'')])
       \<and> length (httpRequestsOf (events (snd (snd first)))) = 1
       \<and> fst second
           = Resolved (JObj [(''call_id'', JStr ''c-1''),
                             (''_meta'', JObj [(''fromCache'', JBool True)])])
       \<and> length (httpRequestsOf (events (snd (snd second)))) = 1)"
proof -
  have a: "(let vendor = failsOnceVendor (JObj [(''call_id'', JStr ''c-1'')]);
        params = [(''cmd'', JStr ''makeCall''), (''from'', JStr ''101''),
                  (''to'', JStr ''380501234567'')];
        options = operationDefaults\<lparr>opIdempotencyKey := Some ''k1''\<rparr>;
        first = executeOperationOn vendor (MemoryCacheProvider_new noCacheOptions)
                  (exampleCredentials 3 None) ''makeCall'' params options idleWorld;
        second = executeOperationOn vendor (fst (snd first))
                  (exampleCredentials 3 None) ''makeCall'' params options (snd (snd first))
    in isRejected (fst first)
     \<and> length (httpRequestsOf (events (snd (snd first)))) = 1
     \<and> clock (snd (snd first)) \<le> 86400 * 1000
     \<and> fst second = Resolved (JObj [(''call_id'', JStr ''c-1'')])
     \<and> length (httpRequestsOf (events (snd (snd second)))) = 2)"
    by (simp add: fixture_defs failsOnceVendor_def schema_defs request_defs breaker_defs
        cache_defs)
  have b: "(let vendor = twoEndpoints (Resolved (JObj [(''call_id'', JStr ''c-1'')])) (Resolved JNull);
          params = [(''cmd'', JStr ''makeCall''), (''from'', JStr ''101''),
                    (''to'', JStr ''380501234567'')];
          options = operationDefaults\<lparr>opIdempotencyKey := Some ''k1'', opUseCache := True,
                                       opCacheKey := Some ''call:101''\<rparr>;
          first = executeOperationOn vendor (MemoryCacheProvider_new noCacheOptions)
                    (exampleCredentials 3 None) ''makeCall'' params options idleWorld;
          second = executeOperationOn vendor (fst (snd first))
                    (exampleCredentials 3 None) ''makeCall'' params options (snd (snd first))
      in fst first = Resolved (JObj [(''call_id'', JStr ''c-1'')])
       \<and> length (httpRequestsOf (events (snd (snd first)))) = 1
       \<and> fst second
           = Resolved (JObj [(''call_id'', JStr ''c-1''),
                             (''_meta'', JObj [(''fromCache'', JBool True)])])
       \<and> length (httpRequestsOf (events (snd (snd second)))) = 1)"
    by (simp add: fixture_defs schema_defs request_defs breaker_defs cache_defs
        tagFromCache_def)
  from a b show ?thesis by (rule conjI)
qed
section \<open>Properties: one in-memory cache per instance\<close>

lemma LiraXCore_new_memory:
  "LiraXCore_new constructs memory options credentials heap
     = Some (\<lparr>coreCache = length heap, coreCredentials = credentials\<rparr>,
             heap @ [MemoryCacheProvider_new options])"
  by (simp add: LiraXCore_new_def CacheFactory_create_def)

lemma provider_roundtrip:
  "0 < ttlSeconds \<Longrightarrow> t \<le> t0 + ttlSeconds * 1000 \<Longrightarrow>
     fst (MemoryCacheProvider_get (MemoryCacheProvider_set p key v (Some ttlSeconds) t0) key t) = v"
  by (simp add: MemoryCacheProvider_get_def MemoryCacheProvider_set_def makeKey_def Let_def)

lemma fresh_provider_misses:
  "fst (MemoryCacheProvider_get (MemoryCacheProvider_new options) key t) = JNull"
  by (simp add: MemoryCacheProvider_get_def MemoryCacheProvider_new_def)

lemma fst_core_cache_get:
  "fst (core_cache_get heap core key now)
     = fst (MemoryCacheProvider_get (heap ! coreCache core) key now)"
  by (simp add: core_cache_get_def split: prod.splits)

text \<open>
  C9 (as amended): with the default in-memory provider the cache store is state of the
  instance, not of the process. Each LiraXCore instance constructs a provider of its
  own, at its own address, with an empty map. A value stored under a key through one
  instance is observable by a get for the same key through that same instance while
  it has not expired; a get for the key through another instance, constructed with
  the same options (the same key prefix), misses, and the store leaves the other
  instance's provider as it was.
\<close>

theorem cache_is_per_instance:
  "LiraXCore_new constructs memory options credentials1 heap = Some (core1, heap1)
   \<and> LiraXCore_new constructs memory options credentials2 heap1 = Some (core2, heap2)
   \<longrightarrow> coreCache core1 \<noteq> coreCache core2
     \<and> (0 < ttlSeconds \<and> t \<le> t0 + ttlSeconds * 1000
        \<longrightarrow> fst (core_cache_get (core_cache_set heap2 core1 key v (Some ttlSeconds) t0)
                   core1 key t) = v)
     \<and> fst (core_cache_get (core_cache_set heap2 core1 key v (Some ttlSeconds) t0)
              core2 key t) = JNull
     \<and> core_cache_set heap2 core1 key v (Some ttlSeconds) t0 ! coreCache core2
         = heap2 ! coreCache core2"
proof (intro impI, elim conjE)
  assume n1: "LiraXCore_new constructs memory options credentials1 heap = Some (core1, heap1)"
    and n2: "LiraXCore_new constructs memory options credentials2 heap1 = Some (core2, heap2)"
  have c1: "coreCache core1 = length heap" and h1: "heap1 = heap @ [MemoryCacheProvider_new options]"
    using n1 by (auto simp: LiraXCore_new_memory)
  have c2: "coreCache core2 = Suc (length heap)"
    and h2: "heap2 = heap @ [MemoryCacheProvider_new options, MemoryCacheProvider_new options]"
    using n2 h1 by (auto simp: LiraXCore_new_memory)
  have a: "coreCache core1 \<noteq> coreCache core2" using c1 c2 by simp
  have at1: "heap2 ! coreCache core1 = MemoryCacheProvider_new options"
    and at2: "heap2 ! coreCache core2 = MemoryCacheProvider_new options"
    and len: "coreCache core1 < length heap2"
    using c1 c2 h2 by (simp_all add: nth_append)
  have b: "0 < ttlSeconds \<and> t \<le> t0 + ttlSeconds * 1000
        \<longrightarrow> fst (core_cache_get (core_cache_set heap2 core1 key v (Some ttlSeconds) t0)
                   core1 key t) = v"
    using len provider_roundtrip[of ttlSeconds t t0 "heap2 ! coreCache core1" key v]
    by (simp add: fst_core_cache_get core_cache_set_def)
  have d: "core_cache_set heap2 core1 key v (Some ttlSeconds) t0 ! coreCache core2
         = heap2 ! coreCache core2"
    using a by (simp add: core_cache_set_def)
  have c: "fst (core_cache_get (core_cache_set heap2 core1 key v (Some ttlSeconds) t0)
              core2 key t) = JNull"
    using fresh_provider_misses[of options key t] a at2
    by (simp add: fst_core_cache_get core_cache_set_def)
  from a b c d
  show "coreCache core1 \<noteq> coreCache core2
     \<and> (0 < ttlSeconds \<and> t \<le> t0 + ttlSeconds * 1000
        \<longrightarrow> fst (core_cache_get (core_cache_set heap2 core1 key v (Some ttlSeconds) t0)
                   core1 key t) = v)
     \<and> fst (core_cache_get (core_cache_set heap2 core1 key v (Some ttlSeconds) t0)
              core2 key t) = JNull
     \<and> core_cache_set heap2 core1 key v (Some ttlSeconds) t0 ! coreCache core2
         = heap2 ! coreCache core2"
    by simp
qed

theorem cache_is_per_instance_witness:
  "LiraXCore_new (\<lambda>t. True) memory noCacheOptions (exampleCredentials 3 None) []
     = Some (\<lparr>coreCache = 0, coreCredentials = exampleCredentials 3 None\<rparr>,
             [MemoryCacheProvider_new noCacheOptions])
   \<and> LiraXCore_new (\<lambda>t. True) memory noCacheOptions (exampleCredentials 3 None)
       [MemoryCacheProvider_new noCacheOptions]
     = Some (\<lparr>coreCache = 1, coreCredentials = exampleCredentials 3 None\<rparr>,
             [MemoryCacheProvider_new noCacheOptions, MemoryCacheProvider_new noCacheOptions])
   \<and> (0::int) < 3600 \<and> (1000::int) \<le> 0 + 3600 * 1000
   \<and> fst (core_cache_get
        (core_cache_set
           [MemoryCacheProvider_new noCacheOptions, MemoryCacheProvider_new noCacheOptions]
           \<lparr>coreCache = 0, coreCredentials = exampleCredentials 3 None\<rparr>
           ''users:all'' (JObj [(''users'', JArr [])]) (Some 3600) 0)
        \<lparr>coreCache = 0, coreCredentials = exampleCredentials 3 None\<rparr> ''users:all'' 1000)
       = JObj [(''users'', JArr [])]
   \<and> fst (core_cache_get
        (core_cache_set
           [MemoryCacheProvider_new noCacheOptions, MemoryCacheProvider_new noCacheOptions]
           \<lparr>coreCache = 0, coreCredentials = exampleCredentials 3 None\<rparr>
           ''users:all'' (JObj [(''users'', JArr [])]) (Some 3600) 0)
        \<lparr>coreCache = 1, coreCredentials = exampleCredentials 3 None\<rparr> ''users:all'' 1000)
       = JNull"
  using cache_is_per_instance
    [of "\<lambda>t. True" noCacheOptions "exampleCredentials 3 None" "[]"
        "\<lparr>coreCache = 0, coreCredentials = exampleCredentials 3 None\<rparr>"
        "[MemoryCacheProvider_new noCacheOptions]" "exampleCredentials 3 None"
        "\<lparr>coreCache = 1, coreCredentials = exampleCredentials 3 None\<rparr>"
        "[MemoryCacheProvider_new noCacheOptions, MemoryCacheProvider_new noCacheOptions]"
        3600 1000 0 "''users:all''" "JObj [(''users'', JArr [])]"]
  by (simp add: LiraXCore_new_memory)

text \<open>
  The claim as it was stated fails for two instances with the default in-memory
  provider and the default key prefix: what the first has stored under users:all, the
  second does not find. Run through executeOperation with the parameters
  {cmd: "getUsers"}, the first instance's cached getUsers is followed by a getUsers
  of the second instance that performs an HTTP request of its own and returns the
  vendor's answer untagged.
\<close>

theorem cache_is_per_instance_counterexample:
  "(let core1 = \<lparr>coreCache = 0, coreCredentials = exampleCredentials 3 None\<rparr>;
        core2 = \<lparr>coreCache = 1, coreCredentials = exampleCredentials 3 None\<rparr>;
        heap2 = [MemoryCacheProvider_new noCacheOptions, MemoryCacheProvider_new noCacheOptions];
        vendor = twoEndpoints (Resolved (JObj [(''users'', JArr [])])) (Resolved JNull);
        options = operationDefaults\<lparr>opUseCache := True, opCacheKey := Some ''users:all''\<rparr>;
        params = [(''cmd'', JStr ''getUsers'')];
        first = executeOperation vendor heap2 core1 ''getUsers'' params options idleWorld;
        second = executeOperation vendor (fst (snd first)) core2 ''getUsers'' params options
                   (snd (snd first))
    in LiraXCore_new (\<lambda>t. True) memory noCacheOptions (exampleCredentials 3 None) []
         = Some (core1, [MemoryCacheProvider_new noCacheOptions])
     \<and> LiraXCore_new (\<lambda>t. True) memory noCacheOptions (exampleCredentials 3 None)
          [MemoryCacheProvider_new noCacheOptions] = Some (core2, heap2)
     \<and> keyPrefix (heap2 ! 0) = keyPrefix (heap2 ! 1)
     \<and> fst (core_cache_get
          (core_cache_set heap2 core1 ''users:all'' (JObj [(''users'', JArr [])]) (Some 3600) 0)
          core2 ''users:all'' 1000) = JNull
     \<and> fst first = Resolved (JObj [(''users'', JArr [])])
     \<and> length (httpRequestsOf (events (snd (snd first)))) = 1
     \<and> fst second = Resolved (JObj [(''users'', JArr [])])
     \<and> length (httpRequestsOf (events (snd (snd second)))) = 2)"
  by (simp add: LiraXCore_new_memory fst_core_cache_get core_cache_set_def executeOperation_def
      fixture_defs schema_defs request_defs breaker_defs cache_defs)

section \<open>Properties: what the error handler embeds\<close>

lemma getProp_setProp: "getProp (setProp k v fs) g = (if g = k then v else getProp fs g)"
  by (induction fs) (auto simp: getProp_def)

lemma keys_setProp: "k \<in> fst ` set fs \<Longrightarrow> fst ` set (setProp k v fs) = fst ` set fs"
  by (induction fs) auto

lemma truthy_getProp_key: "truthy (getProp fs k) \<Longrightarrow> k \<in> fst ` set fs"
  by (cases "map_of fs k") (auto simp: getProp_def dest!: map_of_SomeD intro: image_eqI[where x="(k, _)"])

lemma getProp_deleteProp:
  "getProp (deleteProp k fs) g = (if g = k then JUndefined else getProp fs g)"
  by (induction fs) (auto simp: getProp_def deleteProp_def)

lemma keys_deleteProp: "k \<notin> fst ` set (deleteProp k fs)"
  by (auto simp: deleteProp_def)

lemma getProp_maskField:
  "getProp (maskField f m) g =
     (if g = f \<and> truthy (getProp m f) then JStr (maskValue (jsString (getProp m f)))
      else getProp m g)"
  by (simp add: maskField_def getProp_setProp)

lemma keys_maskField: "fst ` set (maskField f m) = fst ` set m"
  by (simp add: maskField_def keys_setProp truthy_getProp_key)

lemma getProp_maskFields:
  "distinct fs \<Longrightarrow>
     getProp (foldl (\<lambda>masked field. maskField field masked) p fs) g =
       (if g \<in> set fs \<and> truthy (getProp p g) then JStr (maskValue (jsString (getProp p g)))
        else getProp p g)"
proof (induction fs arbitrary: p)
  case Nil
  show ?case by simp
next
  case (Cons f fs)
  then have d: "distinct fs" and nf: "f \<notin> set fs" by simp_all
  show ?case
    using Cons.IH[OF d, of "maskField f p"] nf
    by (auto simp: getProp_maskField)
qed

lemma keys_maskFields:
  "fst ` set (foldl (\<lambda>masked field. maskField field masked) p fs) = fst ` set p"
  by (induction fs arbitrary: p) (simp_all add: keys_maskField)

lemma distinct_sensitiveFields: "distinct sensitiveFields"
  by (simp add: sensitiveFields_def)

lemma getProp_maskSensitiveData:
  "getProp (maskSensitiveData p) g =
       (if g \<in> set sensitiveFields \<and> truthy (getProp p g)
        then JStr (maskValue (jsString (getProp p g)))
        else getProp p g)"
  unfolding maskSensitiveData_def by (rule getProp_maskFields[OF distinct_sensitiveFields])

lemma keys_maskSensitiveData: "fst ` set (maskSensitiveData p) = fst ` set p"
  unfolding maskSensitiveData_def by (rule keys_maskFields)

lemma requestPayload_shown:
  assumes "ctxPayload context = Some payload"
    and "detRequestPayload (handleDetails e context isoNow) = Some shown"
  shows "shown = maskSensitiveData (sanitizePayload (Some payload))"
  using assms by (simp add: handleDetails_def Let_def split: if_splits)

lemma token_removed:
  "truthy (getProp payload ''token'')
    \<Longrightarrow> ''token'' \<notin> fst ` set (maskSensitiveData (sanitizePayload (Some payload)))"
  by (simp add: keys_maskSensitiveData sanitizePayload_def keys_deleteProp)

lemma field_masked:
  assumes "field \<in> set sensitiveFields" "field \<noteq> ''token''" "truthy (getProp payload field)"
  shows "getProp (maskSensitiveData (sanitizePayload (Some payload))) field
      = JStr (maskValue (jsString (getProp payload field)))"
proof -
  have "getProp (sanitizePayload (Some payload)) field = getProp payload field"
    using assms(2) by (simp add: sanitizePayload_def getProp_deleteProp)
  then show ?thesis using assms(1,3) by (simp add: getProp_maskSensitiveData)
qed

lemma scenario:
  "ctxPayload context = Some [(''token'', JStr ''abc123xyz''), (''phone'', JStr ''380501234567'')]
   \<Longrightarrow> detRequestPayload (handleDetails e context isoNow) = Some [(''phone'', JStr ''********4567'')]"
  by (simp add: handleDetails_def sanitizePayload_def getProp_def deleteProp_def
      maskSensitiveData_def sensitiveFields_def maskField_def maskValue_def Let_def)

lemma maskValue_long:
  "4 < length s \<Longrightarrow> maskValue s = replicate (length s - 4) CHR ''*'' @ drop (length s - 4) s"
  by (simp add: maskValue_def)

lemma maskValue_short: "length s \<le> 4 \<Longrightarrow> maskValue s = ''****''"
  by (simp add: maskValue_def)

lemmas handler_defs = generateUserFriendlyMessage_def
  errorHttpCode_def httpError_def formatErrorDescription_def handleDetails_def
  sanitizePayload_def getProp_def deleteProp_def maskSensitiveData_def sensitiveFields_def
  maskField_def maskValue_def errorResponseBody_def responseDataError_def
  formatResponseBody_def copiedTexts_def quote_def escapeChar_def intToString_def
  natToString.simps digitChar_def Let_def

text \<open>\<^verbatim>\<open>includes\<close> is the sublist relation; a text does not come about across a
  separator that it does not contain.\<close>

lemma strIncludes_sublist: "strIncludes ys xs \<longleftrightarrow> sublist xs ys"
  by (induction ys) (auto simp: sublist_Cons_right)

lemma strIncludes_sep:
  assumes "c \<notin> set s"
  shows "strIncludes (a @ c # b) s \<longleftrightarrow> strIncludes a s \<or> strIncludes b s"
proof
  assume "strIncludes (a @ c # b) s"
  then have "sublist s (a @ c # b)" by (simp add: strIncludes_sublist)
  then consider "sublist s a" | "sublist s (c # b)"
    | xs1 xs2 where "s = xs1 @ xs2" "suffix xs1 a" "prefix xs2 (c # b)"
    unfolding sublist_append by blast
  then have "sublist s a \<or> sublist s b"
  proof cases
    case 1
    then show ?thesis by simp
  next
    case 2
    then have "prefix s (c # b) \<or> sublist s b" by (simp add: sublist_Cons_right)
    moreover have "s = []" if "prefix s (c # b)" using that assms by (cases s) auto
    ultimately show ?thesis by auto
  next
    case 3
    have "xs2 = []" using 3(1,3) assms by (cases xs2) auto
    with 3(1,2) have "suffix s a" by simp
    then show ?thesis by (simp add: suffix_imp_sublist)
  qed
  then show "strIncludes a s \<or> strIncludes b s" by (simp add: strIncludes_sublist)
next
  assume "strIncludes a s \<or> strIncludes b s"
  then have "sublist s a \<or> sublist s b" by (simp add: strIncludes_sublist)
  then have "sublist s (a @ c # b)" by (auto simp: sublist_append sublist_Cons_right)
  then show "strIncludes (a @ c # b) s" by (simp add: strIncludes_sublist)
qed

lemma strIncludes_skip:
  "set p \<inter> set s = {} \<Longrightarrow> s \<noteq> [] \<Longrightarrow> strIncludes (p @ b) s \<longleftrightarrow> strIncludes b s"
proof (induction p)
  case Nil
  show ?case by simp
next
  case (Cons c p)
  then have "\<not> prefix s (c # p @ b)" by (cases s) auto
  with Cons show ?case by simp
qed

lemma strIncludes_seps:
  assumes "set sep \<inter> set s = {}" "sep \<noteq> []" "s \<noteq> []"
  shows "strIncludes (a @ sep @ b) s \<longleftrightarrow> strIncludes a s \<or> strIncludes b s"
proof -
  obtain c sep' where sep: "sep = c # sep'" using assms(2) by (cases sep) auto
  with assms(1) have c: "c \<notin> set s" and r: "set sep' \<inter> set s = {}" by auto
  show ?thesis
    unfolding sep using strIncludes_sep[OF c, of a "sep' @ b"] strIncludes_skip[OF r assms(3), of b]
    by simp
qed

lemma strIncludes_join:
  assumes "set sep \<inter> set s = {}" "sep \<noteq> []" "s \<noteq> []"
  shows "strIncludes (join sep xs) s \<longleftrightarrow> (\<exists>x\<in>set xs. strIncludes x s)"
proof (induction xs)
  case Nil
  show ?case using assms(3) by simp
next
  case (Cons x xs)
  show ?case
  proof (cases xs)
    case Nil
    then show ?thesis by simp
  next
    case (Cons y ys)
    have "strIncludes (join sep (x # y # ys)) s
        \<longleftrightarrow> strIncludes x s \<or> strIncludes (join sep (y # ys)) s"
      using strIncludes_seps[OF assms, of x "join sep (y # ys)"] by simp
    with Cons.IH Cons show ?thesis by simp
  qed
qed

lemma message_clean:
  assumes s: "s = ''abc123xyz'' \<or> s = ''380501234567''"
    and texts: "list_all (\<lambda>t. \<not> strIncludes t s) (copiedTexts parse isoNow e context)"
  shows "\<not> strIncludes
           (generateUserFriendlyMessage e (ctxOperation context) (errorHttpCode e)) s"
proof -
  have op: "\<not> strIncludes (ctxOperation context) s"
    and m: "\<not> strIncludes (message e) s"
    and r: "\<not> strIncludes (jsString (responseDataError e)) s"
    using texts by (simp_all add: copiedTexts_def)
  have iss: "\<not> strIncludes (issueMessage issue) s \<and> (\<forall>seg\<in>set (path issue). \<not> strIncludes seg s)"
    if "errors e = Some issues" "issue \<in> set issues" for issues issue
    using texts that by (auto simp: copiedTexts_def list_all_iff)
  have ne: "s \<noteq> []" using s by auto
  have issue_text: "\<not> strIncludes (join ''.'' (path issue) @ '': '' @ issueMessage issue) s"
    if "errors e = Some issues" "issue \<in> set issues" for issues issue
  proof -
    have d: "set '': '' \<inter> set s = {}" "set ''.'' \<inter> set s = {}" using s by auto
    have 1: "strIncludes (join ''.'' (path issue) @ '': '' @ issueMessage issue) s
        \<longleftrightarrow> strIncludes (join ''.'' (path issue)) s \<or> strIncludes (issueMessage issue) s"
      by (rule strIncludes_seps[OF d(1) _ ne]) simp
    have 2: "strIncludes (join ''.'' (path issue)) s
        \<longleftrightarrow> (\<exists>seg\<in>set (path issue). strIncludes seg s)"
      by (rule strIncludes_join[OF d(2) _ ne]) simp
    show ?thesis unfolding 1 2 using iss[OF that] by blast
  qed
  have issues_text: "\<not> strIncludes
      (join '', '' (map (\<lambda>err. join ''.'' (path err) @ '': '' @ issueMessage err) issues)) s"
    if "errors e = Some issues" for issues
  proof -
    have "set '', '' \<inter> set s = {}" using s by auto
    then have "strIncludes
        (join '', '' (map (\<lambda>err. join ''.'' (path err) @ '': '' @ issueMessage err) issues)) s
      \<longleftrightarrow> (\<exists>x\<in>set (map (\<lambda>err. join ''.'' (path err) @ '': '' @ issueMessage err) issues).
            strIncludes x s)"
      using ne by (intro strIncludes_join) simp_all
    then show ?thesis using issue_text[OF that] by auto
  qed
  define F where "F = ''Operation '' @ [CHR 0x27] @ ctxOperation context @ [CHR 0x27]
                   @ '' failed: ''"
  have F: "strIncludes (F @ X) s \<longleftrightarrow> strIncludes X s" for X
    unfolding F_def using s op by (elim disjE) (simp_all add: strIncludes_sep)
  have lit: "\<not> strIncludes ''Invalid LiraX API Token. Check your credentials.'' s"
    "\<not> strIncludes ''Invalid parameters sent to LiraX. Check node inputs and validation.'' s"
    "\<not> strIncludes ''LiraX modem is busy. Please try again later.'' s"
    "\<not> strIncludes ''Access forbidden. Check your permissions.'' s"
    "\<not> strIncludes
        ''Resource not found. Check if the operation exists in your LiraX version.'' s"
    "\<not> strIncludes ''LiraX server internal error.'' s"
    "\<not> strIncludes ''LiraX server is temporarily unavailable.'' s"
    "\<not> strIncludes ''LiraX service is temporarily overloaded.'' s"
    "\<not> strIncludes ''Connection to LiraX timed out.'' s"
    "\<not> strIncludes
        ''Connection to LiraX refused. Check base URL and network connectivity.'' s"
    "\<not> strIncludes ''LiraX server not found. Check base URL.'' s"
    "\<not> strIncludes ''Connection to LiraX was reset.'' s"
    "\<not> strIncludes ''Unknown error occurred'' s"
    using s by (elim disjE; simp)+
  have invalid: "\<not> strIncludes (''Invalid input parameters. ''
      @ join '', '' (map (\<lambda>err. join ''.'' (path err) @ '': '' @ issueMessage err) issues)) s"
    if "errors e = Some issues" for issues
  proof -
    have "\<not> strIncludes ''Invalid input parameters.'' s" "CHR '' '' \<notin> set s"
      using s by auto
    then have "\<not> strIncludes (''Invalid input parameters.'' @ CHR '' ''
      # join '', '' (map (\<lambda>err. join ''.'' (path err) @ '': '' @ issueMessage err) issues)) s"
      using issues_text[OF that] by (simp only: strIncludes_sep simp_thms)
    then show ?thesis by simp
  qed
  have own: "\<not> strIncludes (if message e \<noteq> [] then message e else ''Unknown error occurred'') s"
    using m lit(13) by (simp only: split: if_split) blast
  have unfold: "generateUserFriendlyMessage e (ctxOperation context) (errorHttpCode e) =
     (if errorHttpCode e = Some 401
      then F @ ''Invalid LiraX API Token. Check your credentials.''
      else if errorHttpCode e = Some 400
      then F @ ''Invalid parameters sent to LiraX. Check node inputs and validation.''
      else if errorHttpCode e = Some 403
      then (if strIncludes (message e) ''modem busy''
            then F @ ''LiraX modem is busy. Please try again later.''
            else F @ ''Access forbidden. Check your permissions.'')
      else if errorHttpCode e = Some 404
      then F @ ''Resource not found. Check if the operation exists in your LiraX version.''
      else if errorHttpCode e = Some 500
      then F @ ''LiraX server internal error.''
      else if errorHttpCode e = Some 502
      then F @ ''LiraX server is temporarily unavailable.''
      else if errorHttpCode e = Some 503
      then F @ ''LiraX service is temporarily overloaded.''
      else if code e = Some ''ETIMEDOUT''
      then F @ ''Connection to LiraX timed out.''
      else if code e = Some ''ECONNREFUSED''
      then F @ ''Connection to LiraX refused. Check base URL and network connectivity.''
      else if code e = Some ''ENOTFOUND''
      then F @ ''LiraX server not found. Check base URL.''
      else if code e = Some ''ECONNRESET''
      then F @ ''Connection to LiraX was reset.''
      else (case errors e of
              Some (issue # issues) \<Rightarrow>
                F @ ''Invalid input parameters. ''
                  @ join '', '' (map (\<lambda>err. join ''.'' (path err) @ '': '' @ issueMessage err)
                                   (issue # issues))
            | _ \<Rightarrow>
                if truthy (responseDataError e)
                then F @ jsString (responseDataError e)
                else if strIncludes (message e) ''modem busy''
                then F @ ''LiraX modem is busy. Please try again later.''
                else F @ (if message e \<noteq> [] then message e else ''Unknown error occurred'')))"
    unfolding generateUserFriendlyMessage_def Let_def F_def by (rule refl)
  have branch: "\<not> strIncludes (F @ X) s" if "\<not> strIncludes X s" for X
    using that by (simp only: F simp_thms)
  note b = lit[THEN branch] r[THEN branch] own[THEN branch]
  show ?thesis
  proof (cases "errors e")
    case None
    show ?thesis
      unfolding unfold None by (simp only: b option.case simp_thms split: if_split)
  next
    case (Some issues)
    show ?thesis
    proof (cases issues)
      case Nil
      show ?thesis
        unfolding unfold Some Nil
        by (simp only: b option.case list.case simp_thms split: if_split)
    next
      case (Cons issue rest)
      have i: "\<not> strIncludes (F @ ''Invalid input parameters. ''
          @ join '', '' (map (\<lambda>err. join ''.'' (path err) @ '': '' @ issueMessage err)
                           (issue # rest))) s"
        using invalid[OF Some] unfolding Cons by (rule branch)
      show ?thesis
        unfolding unfold Some Cons
        by (simp only: b i option.case list.case simp_thms split: if_split)
    qed
  qed
qed

lemma description_clean:
  assumes s: "s = ''abc123xyz'' \<or> s = ''380501234567''"
    and texts: "list_all (\<lambda>t. \<not> strIncludes t s) (copiedTexts parse isoNow e context)"
    and payload: "ctxPayload context = Some [(''token'', JStr ''abc123xyz''),
                                             (''phone'', JStr ''380501234567'')]"
  shows "\<not> strIncludes (formatErrorDescription parse (handleDetails e context isoNow)) s"
proof -
  let ?d = "handleDetails e context isoNow"
  have ne: "s \<noteq> []" and nl: "set [CHR 0x0A] \<inter> set s = {}" using s by auto
  have op: "\<not> strIncludes (ctxOperation context) s"
    and ts: "\<not> strIncludes isoNow s"
    and rb: "\<not> strIncludes (formatResponseBody parse (errorResponseBody e)) s"
    and res: "\<And>r. ctxResource context = Some r \<Longrightarrow> \<not> strIncludes r s"
    and htc: "\<And>h. errorHttpCode e = Some h \<Longrightarrow> \<not> strIncludes (intToString h) s"
    and cod: "\<And>c. code e = Some c \<Longrightarrow> \<not> strIncludes c s"
    using texts by (simp_all add: copiedTexts_def)
  have pre: "\<not> strIncludes (''Operation: '' @ v) s" "\<not> strIncludes (''Resource: '' @ v) s"
    "\<not> strIncludes (''HTTP Code: '' @ v) s" "\<not> strIncludes (''Error Code: '' @ v) s"
    "\<not> strIncludes (''Timestamp: '' @ v) s"
    if "\<not> strIncludes v s" for v
    using s that by (elim disjE; simp)+
  have lit: "\<not> strIncludes ''LiraX API Error Details:'' s" "\<not> strIncludes [] s"
    "\<not> strIncludes ''Request Payload (sensitive data masked):'' s"
    "\<not> strIncludes ''Response Body:'' s"
    "\<not> strIncludes (stringify 0 (JObj [(''phone'', JStr ''********4567'')])) s"
    using s by (elim disjE; simp add: quote_def escapeChar_def)+
  have dOp: "detOperation ?d = ctxOperation context"
    and dRes: "detResource ?d = ctxResource context"
    and dTs: "detTimestamp ?d = isoNow"
    and dHttp: "detHttpCode ?d = (case errorHttpCode e of
                           Some h \<Rightarrow> (if h \<noteq> 0 then Some h else None) | None \<Rightarrow> None)"
    and dCode: "detErrorCode ?d = (case code e of
                            Some c \<Rightarrow> (if c \<noteq> [] then Some c else None) | None \<Rightarrow> None)"
    and dBody: "detResponseBody ?d
          = (if truthy (errorResponseBody e) then errorResponseBody e else JUndefined)"
    by (simp_all add: handleDetails_def Let_def)
  have dPay: "detRequestPayload ?d = Some [(''phone'', JStr ''********4567'')]"
    using payload by (rule scenario)
  have "strIncludes (formatErrorDescription parse ?d) s \<longleftrightarrow>
     (\<exists>x\<in>set ([''LiraX API Error Details:'']
        @ (if detOperation ?d \<noteq> [] then [''Operation: '' @ detOperation ?d] else [])
        @ (case detResource ?d of
             Some r \<Rightarrow> (if r \<noteq> [] then [''Resource: '' @ r] else [])
           | None \<Rightarrow> [])
        @ (case detHttpCode ?d of
             Some h \<Rightarrow> (if h \<noteq> 0 then [''HTTP Code: '' @ intToString h] else [])
           | None \<Rightarrow> [])
        @ (case detErrorCode ?d of
             Some c \<Rightarrow> (if c \<noteq> [] then [''Error Code: '' @ c] else [])
           | None \<Rightarrow> [])
        @ (if detTimestamp ?d \<noteq> [] then [''Timestamp: '' @ detTimestamp ?d] else [])
        @ (case detRequestPayload ?d of
             Some p \<Rightarrow> ['''', ''Request Payload (sensitive data masked):'', stringify 0 (JObj p)]
           | None \<Rightarrow> [])
        @ (if truthy (detResponseBody ?d)
           then ['''', ''Response Body:'', formatResponseBody parse (detResponseBody ?d)]
           else [])). strIncludes x s)"
    unfolding formatErrorDescription_def by (rule strIncludes_join[OF nl _ ne]) simp
  also have "\<dots> \<longleftrightarrow> False"
    unfolding dOp dRes dTs dHttp dCode dBody dPay
    using op ts rb res htc cod pre lit
    by (auto simp del: strIncludes.simps append.simps stringify.simps
          split: option.splits if_splits)
  finally show ?thesis by simp
qed

text \<open>
  C7 (as amended): for every error that the handler is given with a request payload in
  its context, a truthy top-level token is removed from the payload that the handler
  embeds, and each truthy top-level field among phone, ani, dnis, to, to1, to2,
  provider, ext, newext, client and from_LiraX_token is replaced by its mask, which
  shows the last four characters of the value after asterisks, and four asterisks for
  a value of at most four characters. For the payload {token: "abc123xyz", phone:
  "380501234567"} the embedded payload is {"phone": "********4567"}, and neither the
  literal token nor the full phone number occurs anywhere in the message or in the
  description that the handler computes for the host's error constructor, for every
  error and context that does not carry that value in a text of its own (the
  operation name, the resource, the time stamp, the HTTP code, the error code, the
  error's message, the error text and the body of the vendor's response, the texts
  of validation issues).
\<close>

theorem error_payload_scrubbed:
  "(ctxPayload context = Some payload
      \<and> detRequestPayload (handleDetails e context isoNow) = Some shown
     \<longrightarrow> (truthy (getProp payload ''token'') \<longrightarrow> ''token'' \<notin> fst ` set shown)
       \<and> (field \<in> set sensitiveFields \<and> field \<noteq> ''token'' \<and> truthy (getProp payload field)
           \<longrightarrow> getProp shown field = JStr (maskValue (jsString (getProp payload field)))))
   \<and> (4 < length v
       \<longrightarrow> maskValue v = replicate (length v - 4) CHR ''*'' @ drop (length v - 4) v)
   \<and> (length v \<le> 4 \<longrightarrow> maskValue v = ''****'')
   \<and> (ctxPayload context = Some [(''token'', JStr ''abc123xyz''),
                                  (''phone'', JStr ''380501234567'')]
       \<longrightarrow> detRequestPayload (handleDetails e context isoNow)
             = Some [(''phone'', JStr ''********4567'')]
         \<and> ((s = ''abc123xyz'' \<or> s = ''380501234567'')
              \<and> list_all (\<lambda>t. \<not> strIncludes t s) (copiedTexts parse isoNow e context)
             \<longrightarrow> \<not> strIncludes
                     (generateUserFriendlyMessage e (ctxOperation context) (errorHttpCode e)) s
               \<and> \<not> strIncludes
                     (formatErrorDescription parse (handleDetails e context isoNow)) s))"
proof -
  have a: "ctxPayload context = Some payload
      \<and> detRequestPayload (handleDetails e context isoNow) = Some shown
     \<longrightarrow> (truthy (getProp payload ''token'') \<longrightarrow> ''token'' \<notin> fst ` set shown)
       \<and> (field \<in> set sensitiveFields \<and> field \<noteq> ''token'' \<and> truthy (getProp payload field)
           \<longrightarrow> getProp shown field = JStr (maskValue (jsString (getProp payload field))))"
  proof (intro impI, elim conjE)
    assume h: "ctxPayload context = Some payload"
      "detRequestPayload (handleDetails e context isoNow) = Some shown"
    have sh: "shown = maskSensitiveData (sanitizePayload (Some payload))"
      using requestPayload_shown[OF h] .
    show "(truthy (getProp payload ''token'') \<longrightarrow> ''token'' \<notin> fst ` set shown)
       \<and> (field \<in> set sensitiveFields \<and> field \<noteq> ''token'' \<and> truthy (getProp payload field)
           \<longrightarrow> getProp shown field = JStr (maskValue (jsString (getProp payload field))))"
      unfolding sh using token_removed[of payload] field_masked[of field payload] by blast
  qed
  have l: "4 < length v
       \<longrightarrow> maskValue v = replicate (length v - 4) CHR ''*'' @ drop (length v - 4) v"
    using maskValue_long[of v] by blast
  have sh: "length v \<le> 4 \<longrightarrow> maskValue v = ''****''"
    using maskValue_short[of v] by blast
  have sc: "ctxPayload context = Some [(''token'', JStr ''abc123xyz''),
                                  (''phone'', JStr ''380501234567'')]
       \<longrightarrow> detRequestPayload (handleDetails e context isoNow)
             = Some [(''phone'', JStr ''********4567'')]
         \<and> ((s = ''abc123xyz'' \<or> s = ''380501234567'')
              \<and> list_all (\<lambda>t. \<not> strIncludes t s) (copiedTexts parse isoNow e context)
             \<longrightarrow> \<not> strIncludes
                     (generateUserFriendlyMessage e (ctxOperation context) (errorHttpCode e)) s
               \<and> \<not> strIncludes
                     (formatErrorDescription parse (handleDetails e context isoNow)) s)"
  proof (intro impI conjI)
    assume p: "ctxPayload context = Some [(''token'', JStr ''abc123xyz''),
                                  (''phone'', JStr ''380501234567'')]"
    show "detRequestPayload (handleDetails e context isoNow)
             = Some [(''phone'', JStr ''********4567'')]"
      using p by (rule scenario)
    assume h: "(s = ''abc123xyz'' \<or> s = ''380501234567'')
              \<and> list_all (\<lambda>t. \<not> strIncludes t s) (copiedTexts parse isoNow e context)"
    show "\<not> strIncludes
            (generateUserFriendlyMessage e (ctxOperation context) (errorHttpCode e)) s"
      using h by (intro message_clean[of s parse isoNow e "context"]) simp_all
    show "\<not> strIncludes (formatErrorDescription parse (handleDetails e context isoNow)) s"
      using h p by (intro description_clean[of s parse isoNow e "context"]) simp_all
  qed
  show ?thesis by (rule conjI[OF a conjI[OF l conjI[OF sh sc]]])
qed

theorem error_payload_scrubbed_witness:
  "ctxPayload \<lparr>ctxOperation = ''sendSMS'',
            ctxPayload = Some [(''token'', JStr ''abc123xyz''),
                               (''phone'', JStr ''380501234567'')],
            ctxMessage = None, ctxResource = None\<rparr>
     = Some [(''token'', JStr ''abc123xyz''), (''phone'', JStr ''380501234567'')]
   \<and> detRequestPayload (handleDetails (httpError 400 ''Bad Request'')
        \<lparr>ctxOperation = ''sendSMS'',
         ctxPayload = Some [(''token'', JStr ''abc123xyz''),
                            (''phone'', JStr ''380501234567'')],
         ctxMessage = None, ctxResource = None\<rparr> ''2024-01-01T00:00:00.000Z'')
     = Some [(''phone'', JStr ''********4567'')]
   \<and> truthy (getProp [(''token'', JStr ''abc123xyz''), (''phone'', JStr ''380501234567'')]
        ''token'')
   \<and> ''token'' \<notin> fst ` set [(''phone'', JStr ''********4567'')]
   \<and> ''phone'' \<in> set sensitiveFields
   \<and> truthy (getProp [(''token'', JStr ''abc123xyz''), (''phone'', JStr ''380501234567'')]
        ''phone'')
   \<and> getProp [(''phone'', JStr ''********4567'')] ''phone''
       = JStr (maskValue ''380501234567'')
   \<and> 4 < length ''380501234567'' \<and> maskValue ''380501234567'' = ''********4567''
   \<and> length ''101'' \<le> 4 \<and> maskValue ''101'' = ''****''
   \<and> list_all (\<lambda>t. \<not> strIncludes t ''abc123xyz'')
        (copiedTexts (\<lambda>s. None) ''2024-01-01T00:00:00.000Z'' (httpError 400 ''Bad Request'')
           \<lparr>ctxOperation = ''sendSMS'',
            ctxPayload = Some [(''token'', JStr ''abc123xyz''),
                               (''phone'', JStr ''380501234567'')],
            ctxMessage = None, ctxResource = None\<rparr>)
   \<and> list_all (\<lambda>t. \<not> strIncludes t ''380501234567'')
        (copiedTexts (\<lambda>s. None) ''2024-01-01T00:00:00.000Z'' (httpError 400 ''Bad Request'')
           \<lparr>ctxOperation = ''sendSMS'',
            ctxPayload = Some [(''token'', JStr ''abc123xyz''),
                               (''phone'', JStr ''380501234567'')],
            ctxMessage = None, ctxResource = None\<rparr>)
   \<and> \<not> strIncludes (generateUserFriendlyMessage (httpError 400 ''Bad Request'') ''sendSMS''
                        (errorHttpCode (httpError 400 ''Bad Request''))) ''abc123xyz''
   \<and> \<not> strIncludes (generateUserFriendlyMessage (httpError 400 ''Bad Request'') ''sendSMS''
                        (errorHttpCode (httpError 400 ''Bad Request''))) ''380501234567''
   \<and> \<not> strIncludes
         (formatErrorDescription (\<lambda>s. None)
            (handleDetails (httpError 400 ''Bad Request'')
               \<lparr>ctxOperation = ''sendSMS'',
                ctxPayload = Some [(''token'', JStr ''abc123xyz''),
                                   (''phone'', JStr ''380501234567'')],
                ctxMessage = None, ctxResource = None\<rparr> ''2024-01-01T00:00:00.000Z''))
         ''abc123xyz''
   \<and> \<not> strIncludes
         (formatErrorDescription (\<lambda>s. None)
            (handleDetails (httpError 400 ''Bad Request'')
               \<lparr>ctxOperation = ''sendSMS'',
                ctxPayload = Some [(''token'', JStr ''abc123xyz''),
                                   (''phone'', JStr ''380501234567'')],
                ctxMessage = None, ctxResource = None\<rparr> ''2024-01-01T00:00:00.000Z''))
         ''380501234567''"
proof -
  let ?ctx = "\<lparr>ctxOperation = ''sendSMS'',
            ctxPayload = Some [(''token'', JStr ''abc123xyz''),
                               (''phone'', JStr ''380501234567'')],
            ctxMessage = None, ctxResource = None\<rparr>"
  let ?e = "httpError 400 ''Bad Request''"
  let ?iso = "''2024-01-01T00:00:00.000Z''"
  let ?payload = "[(''token'', JStr ''abc123xyz''), (''phone'', JStr ''380501234567'')]"
  have p: "ctxPayload ?ctx = Some ?payload"
    and o: "ctxOperation ?ctx = ''sendSMS''" by simp_all
  have t1: "list_all (\<lambda>t. \<not> strIncludes t ''abc123xyz'') (copiedTexts (\<lambda>s. None) ?iso ?e ?ctx)"
    and t2: "list_all (\<lambda>t. \<not> strIncludes t ''380501234567'')
               (copiedTexts (\<lambda>s. None) ?iso ?e ?ctx)"
    by (simp_all add: copiedTexts_def httpError_def errorHttpCode_def responseDataError_def
        errorResponseBody_def formatResponseBody_def intToString_def natToString.simps
        digitChar_def)
  have f: "truthy (getProp ?payload ''token'')" "''phone'' \<in> set sensitiveFields"
    "truthy (getProp ?payload ''phone'')" "jsString (getProp ?payload ''phone'') = ''380501234567''"
    "(4::nat) < length ''380501234567''" "length ''101'' \<le> (4::nat)"
    "maskValue ''380501234567'' = ''********4567''"
    by (simp_all add: getProp_def sensitiveFields_def maskValue_def)
  note A = error_payload_scrubbed
    [of ?ctx ?payload ?e ?iso "[(''phone'', JStr ''********4567'')]" "''phone''"
        "''380501234567''" "''abc123xyz''" "\<lambda>s. None"]
  note B = error_payload_scrubbed
    [of ?ctx ?payload ?e ?iso "[(''phone'', JStr ''********4567'')]" "''phone''"
        "''101''" "''380501234567''" "\<lambda>s. None"]
  have shown: "detRequestPayload (handleDetails ?e ?ctx ?iso)
      = Some [(''phone'', JStr ''********4567'')]"
    using A p by blast
  have tok: "''token'' \<notin> fst ` set [(''phone'', JStr ''********4567'')]"
    and msk: "getProp [(''phone'', JStr ''********4567'')] ''phone''
       = JStr (maskValue ''380501234567'')"
    using A p shown f by auto
  have short: "maskValue ''101'' = ''****''" using B f(6) by blast
  have c1: "\<not> strIncludes (generateUserFriendlyMessage ?e (ctxOperation ?ctx) (errorHttpCode ?e))
               ''abc123xyz''"
    "\<not> strIncludes (formatErrorDescription (\<lambda>s. None) (handleDetails ?e ?ctx ?iso)) ''abc123xyz''"
    using A p t1 by blast+
  have c2: "\<not> strIncludes (generateUserFriendlyMessage ?e (ctxOperation ?ctx) (errorHttpCode ?e))
               ''380501234567''"
    "\<not> strIncludes (formatErrorDescription (\<lambda>s. None) (handleDetails ?e ?ctx ?iso))
         ''380501234567''"
    using B p t2 by blast+
  show ?thesis
    using p shown f tok msk short t1 t2 c1 c2 unfolding o
    by (intro conjI) assumption+
qed

text \<open>
  The claim as it was stated fails for an IP field: the handler masks by field name,
  from a fixed list that has no IP field, so the address in the payload of an
  addBlackIP request is copied into the description as it is, although neither the
  error nor the context carries it in a text of its own.
\<close>

theorem error_payload_scrubbed_counterexample:
  "strIncludes
     (formatErrorDescription (\<lambda>s. None)
        (handleDetails (httpError 400 ''Bad Request'')
           \<lparr>ctxOperation = ''addBlackIP'',
            ctxPayload = Some [(''cmd'', JStr ''addBlackIP''), (''IP'', JStr ''203.0.113.7'')],
            ctxMessage = None, ctxResource = None\<rparr> ''2024-01-01T00:00:00.000Z''))
     ''203.0.113.7''
   \<and> list_all (\<lambda>t. \<not> strIncludes t ''203.0.113.7'')
        (copiedTexts (\<lambda>s. None) ''2024-01-01T00:00:00.000Z'' (httpError 400 ''Bad Request'')
           \<lparr>ctxOperation = ''addBlackIP'',
            ctxPayload = Some [(''cmd'', JStr ''addBlackIP''), (''IP'', JStr ''203.0.113.7'')],
            ctxMessage = None, ctxResource = None\<rparr>)
   \<and> ''IP'' \<notin> set sensitiveFields"
  by (simp add: handler_defs)


end
